theory Spec2Isabelle
  imports Main "HOL-Library.AList" "HOL-Library.Char_ord" "HOL-Library.List_Lexorder"
begin

section \<open>Python values, handles and dictionaries\<close>

text \<open>
  A \<open>DataNode\<close> (the spec's DataHandle) is an object with a name, a device and the
  operator instance that produced it (\<open>source\<close>). The class itself lives in
  \<open>nvidia.dali.data_node\<close>; here it is a record. Object identity is the field
  \<open>dn_addr\<close>: every construction \<open>_DataNode(...)\<close> takes a fresh address from the
  state, so two handles are the same object exactly when the records are equal.
  The producing instance is referred to by its id.
\<close>

record data_node =
  dn_addr :: nat
  dn_name :: string
  dn_device :: string
  dn_source :: nat

text \<open>
  The Python values that reach the operator core as positional inputs or keyword
  arguments. \<open>PScalarConstant v dtype\<close> is \<open>types.ScalarConstant\<close>;
  \<open>PObject n\<close> stands for any other object (an array, a callable, a float, ...);
  what such an object is like (whether it is a recognized scalar, whether it is true in
  a condition, whether it can be made a constant) is told by the functions of \<open>env\<close>
  below.
\<close>

datatype pyval =
    PNone
  | PBool bool
  | PInt int
  | PStr string
  | PList "pyval list"
  | PTuple "pyval list"
  | PScalarConstant pyval string
  | PDataNode data_node
  | PObject nat

fun is_DataNode :: "pyval \<Rightarrow> bool" where
  "is_DataNode (PDataNode d) = True"
| "is_DataNode v = False"

fun is_ScalarConstant :: "pyval \<Rightarrow> bool" where
  "is_ScalarConstant (PScalarConstant v t) = True"
| "is_ScalarConstant v = False"

fun is_str :: "pyval \<Rightarrow> bool" where
  "is_str (PStr s) = True"
| "is_str v = False"

fun is_list :: "pyval \<Rightarrow> bool" where
  "is_list (PList xs) = True"
| "is_list v = False"

fun is_tuple :: "pyval \<Rightarrow> bool" where
  "is_tuple (PTuple xs) = True"
| "is_tuple v = False"

text \<open>
  A Python \<open>dict\<close> with string keys, in insertion order: an association list whose
  keys are distinct. \<open>d[k] = v\<close> is \<open>AList.update k v d\<close> (it overwrites in place or
  appends), \<open>del d[k]\<close> is \<open>AList.delete k d\<close>, \<open>k in d\<close> is \<open>k \<in> fst ` set d\<close> and
  \<open>d.get(k)\<close> is \<open>map_of d k\<close>.
\<close>

type_synonym kwargs = "(string \<times> pyval) list"

definition dict_keys :: "kwargs \<Rightarrow> string list" where
  "dict_keys d = map fst d"

definition dict_has :: "kwargs \<Rightarrow> string \<Rightarrow> bool" where
  "dict_has d k = (k \<in> set (dict_keys d))"

section \<open>\<open>_separate_kwargs\<close>\<close>

text \<open>
  \<open>is_call_arg\<close>, \<open>to_scalar\<close> and the loop of \<open>_separate_kwargs\<close>. The parameter
  \<open>arg_input\<close> is \<open>is_arg_input_type\<close> (\<open>isinstance(x, arg_input_type)\<close>; the default
  type is \<open>DataNode\<close>), and \<open>scal\<close> is \<open>nvidia.dali.types._is_scalar_value\<close>, which
  is defined in another module.
\<close>

definition is_call_arg :: "(pyval \<Rightarrow> bool) \<Rightarrow> (pyval \<Rightarrow> bool) \<Rightarrow> string \<Rightarrow> pyval \<Rightarrow> bool" where
  "is_call_arg scal arg_input name v =
     (if name = ''device'' then False
      else if name = ''ndim'' then False
      else if name = ''name'' \<or> arg_input v then True
      else if is_str v \<or> is_list v \<or> is_tuple v \<or> is_ScalarConstant v then False
      else \<not> scal v)"

fun to_scalar :: "pyval \<Rightarrow> pyval" where
  "to_scalar (PScalarConstant v t) = v"
| "to_scalar v = v"

fun separate_loop ::
  "(pyval \<Rightarrow> bool) \<Rightarrow> (pyval \<Rightarrow> bool) \<Rightarrow> kwargs \<Rightarrow> kwargs \<times> kwargs \<Rightarrow> kwargs \<times> kwargs" where
  "separate_loop scal arg_input [] acc = acc"
| "separate_loop scal arg_input ((name, v) # rest) (init_args, call_args) =
     (if v = PNone then separate_loop scal arg_input rest (init_args, call_args)
      else if is_call_arg scal arg_input name v
        then separate_loop scal arg_input rest (init_args, AList.update name v call_args)
        else separate_loop scal arg_input rest (AList.update name (to_scalar v) init_args, call_args))"

definition separate_kwargs_gen ::
  "(pyval \<Rightarrow> bool) \<Rightarrow> (pyval \<Rightarrow> bool) \<Rightarrow> kwargs \<Rightarrow> kwargs \<times> kwargs" where
  "separate_kwargs_gen scal arg_input kw = separate_loop scal arg_input kw ([], [])"

definition separate_kwargs :: "(pyval \<Rightarrow> bool) \<Rightarrow> kwargs \<Rightarrow> kwargs \<times> kwargs" where
  "separate_kwargs scal kw = separate_kwargs_gen scal is_DataNode kw"

section \<open>Errors, the state and the external collaborators\<close>

text \<open>
  Every \<open>raise\<close> of the source is a value of \<open>error\<close>, named after the Python exception
  class with the message as a string. \<open>GraphRequired\<close> is what
  \<open>_Pipeline._raise_pipeline_required\<close> raises, \<open>ConstantError\<close> whatever
  \<open>types.Constant\<close> raises, \<open>IndexError\<close> an out-of-range \<open>xs[i]\<close>, \<open>KeyError\<close> a
  missing dictionary key and \<open>AttributeError\<close> a method called on \<open>None\<close>. A message
  keeps the operator and argument names and the numbers that the source formats into
  it; where the source also formats in a value or the name of its type, that part of
  the text is left out.
\<close>

datatype error =
    ValueError string
  | TypeError string
  | GraphRequired string
  | AttributeError string
  | KeyError string
  | ConstantError
  | IndexError

text \<open>
  The mutable state the core touches: the class-level counter \<open>_OpCounter._op_count\<close>
  (the next id), the allocator of \<open>DataNode\<close> objects, the current pipeline
  (\<open>_Pipeline.current()\<close>: \<open>None\<close>, or the sink list that \<open>add_sink\<close> appends to) and the
  warnings emitted so far.
\<close>

record state =
  st_op_count :: nat
  st_next_addr :: nat
  st_pipeline :: "data_node list option"
  st_warnings :: "string list"

text \<open>
  The backend \<open>OpSpec\<close> is append-only: it is the list of the calls made on it.
\<close>

datatype spec_entry =
    AddArg string pyval
  | AddArgEmptyList string string
  | AddInput string string
  | AddArgumentInput string string
  | AddOutput string string

type_synonym op_spec = "spec_entry list"

record dep_meta =
  renamed_to :: string
  removed :: bool
  meta_msg :: string

text \<open>The schema provider: one field per method the core calls.\<close>

record schema =
  MinNumInput :: nat
  MaxNumInput :: nat
  GetArgumentType :: "string \<Rightarrow> string"
  IsTensorArgument :: "string \<Rightarrow> bool"
  GetInputDevice :: "nat \<Rightarrow> string option"
  CalculateOutputs :: "op_spec \<Rightarrow> nat"
  CalculateAdditionalOutputs :: "op_spec \<Rightarrow> nat"
  IsNoPrune :: bool
  IsDeprecated :: bool
  DeprecatedInFavorOf :: string
  DeprecationMessage :: string
  IsDeprecatedArg :: "string \<Rightarrow> bool"
  DeprecatedArgMeta :: "string \<Rightarrow> dep_meta"

text \<open>
  Functions of other modules that the core calls: \<open>types._is_scalar_value\<close>,
  \<open>types._type_convert_value\<close> (which may raise), \<open>types._vector_element_type\<close>,
  \<open>types._type_name_convert_to_string\<close>, \<open>_names._op_name(name, "fn")\<close>, whether
  \<open>types.Constant\<close> can represent a value, the truth value \<open>bool(x)\<close> of an object that
  is not one of the built-in values below (for a float, whether it is not zero), and
  the conditional-execution hook (\<open>_conditionals.conditionals_enabled\<close> and
  \<open>apply_conditional_split_to_args\<close>, taken as a function without side effects;
  \<open>register_data_nodes\<close> only annotates and is left out).
\<close>

record env =
  is_scalar_value :: "pyval \<Rightarrow> bool"
  type_convert_value :: "string \<Rightarrow> pyval \<Rightarrow> error + pyval"
  vector_element_type :: "string \<Rightarrow> string"
  type_name_convert_to_string :: "string \<Rightarrow> string"
  op_name_fn :: "string \<Rightarrow> string"
  constant_supported :: "pyval \<Rightarrow> bool"
  object_truthy :: "pyval \<Rightarrow> bool"
  conditionals_enabled :: bool
  apply_conditional_split_to_args :: "pyval list \<Rightarrow> kwargs \<Rightarrow> pyval list \<times> kwargs"

text \<open>An \<open>Operator\<close> object (the spec's descriptor) after \<open>__init__\<close>.\<close>

record operator =
  op_type_name :: string
  op_spec :: op_spec
  op_schema :: schema
  op_device :: string
  op_call_args :: kwargs
  op_preserve :: bool

text \<open>An \<open>_OperatorInstance\<close> object (the spec's node).\<close>

record op_instance =
  oi_id :: nat
  oi_relation_id :: nat
  oi_name :: pyval
  oi_inputs :: "pyval list"
  oi_outputs :: "data_node list"
  oi_spec :: op_spec

section \<open>Ids, handles and constants\<close>

text \<open>\<open>str(n)\<close> for a natural number.\<close>

definition digit_char :: "nat \<Rightarrow> char" where
  "digit_char d =
     (if d = 0 then CHR ''0'' else if d = 1 then CHR ''1'' else if d = 2 then CHR ''2''
      else if d = 3 then CHR ''3'' else if d = 4 then CHR ''4'' else if d = 5 then CHR ''5''
      else if d = 6 then CHR ''6'' else if d = 7 then CHR ''7'' else if d = 8 then CHR ''8''
      else CHR ''9'')"

function str_nat :: "nat \<Rightarrow> string" where
  "str_nat n =
     (if n < 10 then [digit_char n]
      else str_nat (n div 10) @ [digit_char (n mod 10)])"
  by pat_completeness auto
termination
  by (relation "measure (\<lambda>n. n)") auto

declare str_nat.simps [simp del]

text \<open>\<open>_OpCounter()\<close>: \<open>next(count(0))\<close> under the lock.\<close>

definition OpCounter :: "state \<Rightarrow> nat \<times> state" where
  "OpCounter st = (st_op_count st, st\<lparr>st_op_count := Suc (st_op_count st)\<rparr>)"

text \<open>\<open>_DataNode(name, device, source)\<close>: a new object.\<close>

definition DataNode :: "string \<Rightarrow> string \<Rightarrow> nat \<Rightarrow> state \<Rightarrow> data_node \<times> state" where
  "DataNode name device source st =
     (\<lparr>dn_addr = st_next_addr st, dn_name = name, dn_device = device, dn_source = source\<rparr>,
      st\<lparr>st_next_addr := Suc (st_next_addr st)\<rparr>)"

text \<open>
  Modelled from the spec: \<open>types.Constant(value, device=device)\<close>, the spec's
  ConstantPromoter, is not in this file. "Wraps a bare literal as a constant-producing
  node on the given device and returns its sole output handle"; "if the value cannot
  be represented as a supported element type, fails". The constant node is an operator
  instance of its own: it takes the next id and its default name.
\<close>

definition Constant :: "env \<Rightarrow> pyval \<Rightarrow> string \<Rightarrow> state \<Rightarrow> (error + data_node) \<times> state" where
  "Constant E v device st =
     (if constant_supported E v then
        (let (i, st1) = OpCounter st;
             (t, st2) = DataNode (''__Constant_'' @ str_nat i) device i st1
         in (Inr t, st2))
      else (Inl ConstantError, st))"

text \<open>\<open>_instantiate_constant_node(device, constant)\<close>.\<close>

definition instantiate_constant_node ::
  "env \<Rightarrow> string \<Rightarrow> pyval \<Rightarrow> state \<Rightarrow> (error + data_node) \<times> state" where
  "instantiate_constant_node E device c st = Constant E (to_scalar c) device st"

section \<open>\<open>_add_spec_args\<close> and \<open>_check_arg_input\<close>\<close>

fun py_len :: "pyval \<Rightarrow> nat" where
  "py_len (PList xs) = length xs"
| "py_len (PTuple xs) = length xs"
| "py_len v = 0"

fun add_spec_args :: "env \<Rightarrow> schema \<Rightarrow> op_spec \<Rightarrow> kwargs \<Rightarrow> error + op_spec" where
  "add_spec_args E sch spec [] = Inr spec"
| "add_spec_args E sch spec ((key, v) # rest) =
     (if v = PNone then add_spec_args E sch spec rest
      else if (is_list v \<or> is_tuple v) \<and> py_len v = 0
        then add_spec_args E sch
               (spec @ [AddArgEmptyList key (vector_element_type E (GetArgumentType sch key))]) rest
      else (case type_convert_value E (GetArgumentType sch key) v of
              Inl e \<Rightarrow> Inl e
            | Inr converted_value \<Rightarrow> add_spec_args E sch (spec @ [AddArg key converted_value]) rest))"

definition check_arg_input :: "env \<Rightarrow> schema \<Rightarrow> string \<Rightarrow> string \<Rightarrow> error + unit" where
  "check_arg_input E sch op_name name =
     (if name = ''name'' then Inr ()
      else if \<not> IsTensorArgument sch name
        then Inl (TypeError (''The argument `'' @ name @ ''` for operator `'' @ op_name
                   @ ''` should not be a `DataNode` but a ''
                   @ type_name_convert_to_string E (GetArgumentType sch name)))
      else Inr ())"

section \<open>\<open>_OperatorInstance\<close>\<close>

definition warn :: "string \<Rightarrow> state \<Rightarrow> state" where
  "warn msg st = st\<lparr>st_warnings := st_warnings st @ [msg]\<rparr>"

text \<open>
  The first loop of \<open>__init__\<close>: every \<open>ScalarConstant\<close> among the inputs is replaced by
  a constant node on the default input device.
\<close>

fun promote_inputs :: "env \<Rightarrow> string \<Rightarrow> pyval list \<Rightarrow> state \<Rightarrow> (error + pyval list) \<times> state" where
  "promote_inputs E dev [] st = (Inr [], st)"
| "promote_inputs E dev (inp # rest) st =
     (if is_ScalarConstant inp then
        (case instantiate_constant_node E dev inp st of
           (Inl e, st1) \<Rightarrow> (Inl e, st1)
         | (Inr t, st1) \<Rightarrow>
             (case promote_inputs E dev rest st1 of
                (Inl e, st2) \<Rightarrow> (Inl e, st2)
              | (Inr r, st2) \<Rightarrow> (Inr (PDataNode t # r), st2)))
      else
        (case promote_inputs E dev rest st of
           (Inl e, st2) \<Rightarrow> (Inl e, st2)
         | (Inr r, st2) \<Rightarrow> (Inr (inp # r), st2)))"

text \<open>
  The merge of the call-time call arguments into \<open>{**self._default_call_args}\<close>.
\<close>

fun merge_call_args :: "kwargs \<Rightarrow> kwargs \<Rightarrow> kwargs \<Rightarrow> error + kwargs" where
  "merge_call_args dflt [] call_args = Inr call_args"
| "merge_call_args dflt ((k, v) # rest) call_args =
     (if v = PNone then merge_call_args dflt rest call_args
      else if dict_has dflt k
        then Inl (ValueError (''The argument `'' @ k @ ''` was already specified in __init__.''))
      else merge_call_args dflt rest (AList.update k v call_args))"

text \<open>The loop "Add inputs": every input must be a \<open>DataNode\<close>.\<close>

fun add_inputs :: "op_spec \<Rightarrow> pyval list \<Rightarrow> error + op_spec" where
  "add_inputs spec [] = Inr spec"
| "add_inputs spec (PDataNode d # rest) = add_inputs (spec @ [AddInput (dn_name d) (dn_device d)]) rest"
| "add_inputs spec (inp # rest) = Inl (TypeError ''Expected inputs of type `DataNode`.'')"

text \<open>
  One argument input \<open>arg_inp\<close> of the loop "Argument inputs": a \<open>ScalarConstant\<close> becomes
  a constant node on the cpu, and whatever is not a \<open>DataNode\<close> then goes through
  \<open>_Constant(arg_inp, device="cpu")\<close>, any exception of which becomes a \<open>TypeError\<close>.
\<close>

definition arg_input_node :: "env \<Rightarrow> string \<Rightarrow> pyval \<Rightarrow> state \<Rightarrow> (error + data_node) \<times> state" where
  "arg_input_node E k arg_inp st =
     (case arg_inp of
        PScalarConstant v t \<Rightarrow> instantiate_constant_node E ''cpu'' arg_inp st
      | PDataNode d \<Rightarrow> (Inr d, st)
      | _ \<Rightarrow>
        (case Constant E arg_inp ''cpu'' st of
           (Inl e, st1) \<Rightarrow>
             (Inl (TypeError (''Expected inputs of type `DataNode` or convertible to constant nodes. Received input `''
                     @ k @ ''`.'')), st1)
         | (Inr t, st1) \<Rightarrow> (Inr t, st1)))"

fun add_argument_inputs ::
  "env \<Rightarrow> operator \<Rightarrow> kwargs \<Rightarrow> string list \<Rightarrow> op_spec \<times> pyval list \<Rightarrow> state
   \<Rightarrow> (error + op_spec \<times> pyval list) \<times> state" where
  "add_argument_inputs E op call_args [] acc st = (Inr acc, st)"
| "add_argument_inputs E op call_args (k # ks) (spec, inputs) st =
     (if k = ''name'' then add_argument_inputs E op call_args ks (spec, inputs) st
      else
        (case map_of call_args k of
           None \<Rightarrow> (Inl (KeyError k), st)
         | Some arg_inp \<Rightarrow>
             if arg_inp = PNone then add_argument_inputs E op call_args ks (spec, inputs) st
             else
               (case arg_input_node E k arg_inp st of
                  (Inl e, st1) \<Rightarrow> (Inl e, st1)
                | (Inr t, st1) \<Rightarrow>
                    (case check_arg_input E (op_schema op) (op_type_name op) k of
                       Inl e \<Rightarrow> (Inl e, st1)
                     | Inr u \<Rightarrow>
                         add_argument_inputs E op call_args ks
                           (spec @ [AddArgumentInput k (dn_name t)], inputs @ [PDataNode t]) st1))))"

text \<open>The warning for an operator whose schema is deprecated.\<close>

definition deprecation_warning :: "env \<Rightarrow> operator \<Rightarrow> string" where
  "deprecation_warning E op =
     (let msg = ''WARNING: `'' @ op_name_fn E (op_type_name op) @ ''` is now deprecated'';
          use_instead = op_name_fn E (DeprecatedInFavorOf (op_schema op));
          msg = (if use_instead \<noteq> [] then msg @ ''. Use `'' @ use_instead @ ''` instead.'' else msg);
          explanation = DeprecationMessage (op_schema op)
      in (if explanation \<noteq> [] then msg @ [CHR 0x0A] @ explanation else msg))"

text \<open>
  \<open>_OperatorInstance.__init__(inputs, op, **kwargs)\<close>, in the order of the source. The
  object is returned as a record; when \<open>__init__\<close> raises, no reference to the object
  exists, and only the state (the counter, the constants already created) has changed.
\<close>

definition OperatorInstance_init ::
  "env \<Rightarrow> pyval list \<Rightarrow> operator \<Rightarrow> kwargs \<Rightarrow> state \<Rightarrow> (error + op_instance) \<times> state" where
  "OperatorInstance_init E inputs op kw st =
     (let (i, st0) = OpCounter st;
          default_input_device = (if op_device op = ''gpu'' then ''gpu'' else ''cpu'')
      in case promote_inputs E default_input_device inputs st0 of
           (Inl e, st1) \<Rightarrow> (Inl e, st1)
         | (Inr inputs1, st1) \<Rightarrow>
       (let (inputs2, kw2) =
              (if conditionals_enabled E then apply_conditional_split_to_args E inputs1 kw
               else (inputs1, kw));
            (spec_args, kw3) = separate_kwargs (is_scalar_value E) kw2
        in case add_spec_args E (op_schema op) (op_spec op) spec_args of
             Inl e \<Rightarrow> (Inl e, st1)
           | Inr spec1 \<Rightarrow>
         (case merge_call_args (op_call_args op) kw3 (op_call_args op) of
             Inl e \<Rightarrow> (Inl e, st1)
           | Inr call_args \<Rightarrow>
           (let name = (case map_of call_args ''name'' of
                          None \<Rightarrow> PStr (''__'' @ op_type_name op @ ''_'' @ str_nat i)
                        | Some n \<Rightarrow>
                            if n = PNone then PStr (''__'' @ op_type_name op @ ''_'' @ str_nat i) else n)
            in case add_inputs spec1 inputs2 of
                 Inl e \<Rightarrow> (Inl e, st1)
               | Inr spec2 \<Rightarrow>
             (case add_argument_inputs E op call_args (sort (dict_keys call_args)) (spec2, inputs2) st1 of
                 (Inl e, st2) \<Rightarrow> (Inl e, st2)
               | (Inr (spec3, inputs3), st2) \<Rightarrow>
                   (Inr \<lparr>oi_id = i, oi_relation_id = i, oi_name = name, oi_inputs = inputs3,
                         oi_outputs = [], oi_spec = spec3\<rparr>,
                    if IsDeprecated (op_schema op) then warn (deprecation_warning E op) st2 else st2))))))"

section \<open>\<open>generate_outputs\<close>\<close>

text \<open>
  Modelled from the spec: \<open>Pipeline.add_sink(handle)\<close> is not in this file; the spec's
  sink registry "holds the sink list" and \<open>add_sink\<close> appends to it. Without a current
  pipeline, \<open>pipeline\<close> is \<open>None\<close> and the attribute access raises.
\<close>

definition add_sink :: "data_node \<Rightarrow> state \<Rightarrow> (error + unit) \<times> state" where
  "add_sink t st =
     (case st_pipeline st of
        None \<Rightarrow> (Inl (AttributeError ''add_sink''), st)
      | Some sinks \<Rightarrow> (Inr (), st\<lparr>st_pipeline := Some (sinks @ [t])\<rparr>))"

text \<open>
  The loop \<open>for i in range(num_output)\<close>. The name of a handle must be a string:
  \<open>t_name += "[i]"\<close> and the backend's \<open>AddOutput\<close> raise a \<open>TypeError\<close> on anything else
  (\<open>name\<close> is a call argument whatever its value is).
\<close>

fun output_loop ::
  "operator \<Rightarrow> string \<Rightarrow> nat \<Rightarrow> nat list \<Rightarrow> op_instance \<Rightarrow> state \<Rightarrow> (error + op_instance) \<times> state" where
  "output_loop op output_device num_output [] inst st = (Inr inst, st)"
| "output_loop op output_device num_output (i # is) inst st =
     (case oi_name inst of
        PStr name \<Rightarrow>
          (let t_name = (if num_output > 1 then name @ ''['' @ str_nat i @ '']'' else name);
               (t, st1) = DataNode t_name output_device (oi_id inst) st;
               inst1 = inst\<lparr>oi_spec := oi_spec inst @ [AddOutput (dn_name t) (dn_device t)]\<rparr>
           in if op_preserve op then
                (case add_sink t st1 of
                   (Inl e, st2) \<Rightarrow> (Inl e, st2)
                 | (Inr u, st2) \<Rightarrow>
                     output_loop op output_device num_output is
                       (inst1\<lparr>oi_outputs := oi_outputs inst1 @ [t]\<rparr>) st2)
              else output_loop op output_device num_output is
                     (inst1\<lparr>oi_outputs := oi_outputs inst1 @ [t]\<rparr>) st1)
      | _ \<Rightarrow> (Inl (TypeError ''the name of an output must be a string''), st))"

definition generate_outputs :: "operator \<Rightarrow> op_instance \<Rightarrow> state \<Rightarrow> (error + op_instance) \<times> state" where
  "generate_outputs op inst st =
     (if st_pipeline st = None \<and> op_preserve op
        then (Inl (GraphRequired ''Operators with side-effects ''), st)
      else
        (let output_device = (if op_device op = ''gpu'' \<or> op_device op = ''mixed'' then ''gpu'' else ''cpu'');
             num_output = CalculateOutputs (op_schema op) (oi_spec inst)
                          + CalculateAdditionalOutputs (op_schema op) (oi_spec inst)
         in if num_output = 0 \<and> op_preserve op then
              (let t_name = op_type_name op @ ''_id_'' @ str_nat (oi_id inst) @ ''_sink'';
                   (t, st1) = DataNode t_name output_device (oi_id inst) st
               in case add_sink t st1 of
                    (Inl e, st2) \<Rightarrow> (Inl e, st2)
                  | (Inr u, st2) \<Rightarrow> (Inr inst, st2))
            else output_loop op output_device num_output [0..<num_output] inst st))"

definition unwrapped_outputs :: "op_instance \<Rightarrow> pyval" where
  "unwrapped_outputs inst =
     (case oi_outputs inst of
        [t] \<Rightarrow> PDataNode t
      | outs \<Rightarrow> PList (map PDataNode outs))"

section \<open>\<open>Operator.__init__\<close>\<close>

text \<open>
  The truth value of \<open>self._preserve\<close> in \<open>self._preserve or self._schema.IsNoPrune()\<close>:
  Python's rules for the built-in values, and \<open>bool(x)\<close> of the object for anything else.
\<close>

fun truthy :: "env \<Rightarrow> pyval \<Rightarrow> bool" where
  "truthy E PNone = False"
| "truthy E (PBool b) = b"
| "truthy E (PInt i) = (i \<noteq> 0)"
| "truthy E (PStr s) = (s \<noteq> [])"
| "truthy E (PList xs) = (xs \<noteq> [])"
| "truthy E (PTuple xs) = (xs \<noteq> [])"
| "truthy E v = object_truthy E v"

fun check_call_args :: "env \<Rightarrow> schema \<Rightarrow> string \<Rightarrow> string list \<Rightarrow> error + unit" where
  "check_call_args E sch op_name [] = Inr ()"
| "check_call_args E sch op_name (k # ks) =
     (case check_arg_input E sch op_name k of
        Inl e \<Rightarrow> Inl e
      | Inr u \<Rightarrow> check_call_args E sch op_name ks)"

text \<open>
  The loop over \<open>arg_names = list(kwargs.keys())\<close> that replaces or removes deprecated
  arguments; \<open>kw\<close> is the dictionary \<open>kwargs\<close> as the loop mutates it.
\<close>

fun deprecated_args ::
  "schema \<Rightarrow> string \<Rightarrow> string list \<Rightarrow> kwargs \<Rightarrow> state \<Rightarrow> (error + kwargs) \<times> state" where
  "deprecated_args sch op_name [] kw st = (Inr kw, st)"
| "deprecated_args sch op_name (arg_name # rest) kw st =
     (if \<not> IsDeprecatedArg sch arg_name then deprecated_args sch op_name rest kw st
      else
        (let meta = DeprecatedArgMeta sch arg_name;
             new_name = renamed_to meta
         in if new_name \<noteq> [] then
              (if dict_has kw new_name then
                 (Inl (TypeError (''Operator '' @ op_name @ '' got an unexpected'' @ [CHR 0x27] @ arg_name
                         @ [CHR 0x27] @ '' deprecated argument when '' @ [CHR 0x27] @ new_name
                         @ [CHR 0x27] @ ''was already provided'')), st)
               else
                 (case map_of kw arg_name of
                    None \<Rightarrow> (Inl (KeyError arg_name), st)
                  | Some v \<Rightarrow>
                      deprecated_args sch op_name rest
                        (AList.delete arg_name (AList.update new_name v kw)) (warn (meta_msg meta) st)))
            else if removed meta then
              (if dict_has kw arg_name
                 then deprecated_args sch op_name rest (AList.delete arg_name kw) (warn (meta_msg meta) st)
               else (Inl (KeyError arg_name), st))
            else deprecated_args sch op_name rest kw (warn (meta_msg meta) st)))"

text \<open>
  \<open>Operator.__init__(self, *, device="cpu", **kwargs)\<close>. The schema is what
  \<open>_b.GetSchema(schema_name)\<close> returns, and the new \<open>OpSpec\<close> is empty.
\<close>

definition Operator_init ::
  "env \<Rightarrow> string \<Rightarrow> schema \<Rightarrow> string \<Rightarrow> kwargs \<Rightarrow> state \<Rightarrow> (error + operator) \<times> state" where
  "Operator_init E op_name sch device kwargs st =
     (let spec0 = [AddArg ''device'' (PStr device)];
          (kw1, call_args) = separate_kwargs (is_scalar_value E) kwargs
      in case check_call_args E sch op_name (dict_keys call_args) of
           Inl e \<Rightarrow> (Inl e, st)
         | Inr u \<Rightarrow>
       (let (preserve_v, kw2) =
              (case map_of kw1 ''preserve'' of
                 Some p \<Rightarrow> (p, AList.delete ''preserve'' kw1)
               | None \<Rightarrow> (PBool False, kw1));
            spec1 = spec0 @ [AddArg ''preserve'' preserve_v];
            preserve = (truthy E preserve_v \<or> IsNoPrune sch)
        in case deprecated_args sch op_name (dict_keys kw2) kw2 st of
             (Inl e, st1) \<Rightarrow> (Inl e, st1)
           | (Inr kw3, st1) \<Rightarrow>
               (case add_spec_args E sch spec1 kw3 of
                  Inl e \<Rightarrow> (Inl e, st1)
                | Inr spec2 \<Rightarrow>
                    (Inr \<lparr>op_type_name = op_name, op_spec = spec2, op_schema = sch, op_device = device,
                          op_call_args = call_args, op_preserve = preserve\<rparr>, st1))))"

section \<open>\<open>_preprocess_inputs\<close>\<close>

fun is_input :: "pyval \<Rightarrow> bool" where
  "is_input (PDataNode d) = True"
| "is_input (PScalarConstant v t) = True"
| "is_input (PList x) =
     (list_ex is_DataNode x \<and> list_all (\<lambda>y. is_DataNode y \<or> is_ScalarConstant y) x)"
| "is_input v = False"

definition resolve_input_device :: "schema option \<Rightarrow> string \<Rightarrow> nat \<Rightarrow> string" where
  "resolve_input_device schema_opt device idx =
     (let default_input_device = (if device = ''gpu'' then ''gpu'' else ''cpu'')
      in case schema_opt of
           None \<Rightarrow> default_input_device
         | Some sch \<Rightarrow>
             (case GetInputDevice sch idx of
                None \<Rightarrow> default_input_device
              | Some d \<Rightarrow> if d = [] then default_input_device else d))"

text \<open>
  The loop over \<open>enumerate(inputs)\<close>, from index \<open>idx\<close> on. What is not an input is not
  a \<open>ScalarConstant\<close> either, so it always goes through \<open>_Constant(inp,
  device=input_device)\<close>, which returns a \<open>DataNode\<close>.
\<close>

fun preprocess_loop ::
  "env \<Rightarrow> string \<Rightarrow> string \<Rightarrow> schema option \<Rightarrow> nat \<Rightarrow> pyval list \<Rightarrow> state
   \<Rightarrow> (error + pyval list) \<times> state" where
  "preprocess_loop E op_name device schema_opt idx [] st = (Inr [], st)"
| "preprocess_loop E op_name device schema_opt idx (inp # rest) st =
     (if \<not> is_input inp then
        (case Constant E inp (resolve_input_device schema_opt device idx) st of
           (Inl e, st1) \<Rightarrow>
             (Inl (TypeError (''when calling operator '' @ op_name @ '': Input '' @ str_nat idx
                     @ '' is neither a DALI `DataNode` nor a list of data nodes.''
                     @ '' Attempt to convert it to a constant node failed.'')), st1)
         | (Inr t, st1) \<Rightarrow>
             (case preprocess_loop E op_name device schema_opt (Suc idx) rest st1 of
                (Inl e, st2) \<Rightarrow> (Inl e, st2)
              | (Inr r, st2) \<Rightarrow> (Inr (PDataNode t # r), st2)))
      else
        (case preprocess_loop E op_name device schema_opt (Suc idx) rest st of
           (Inl e, st2) \<Rightarrow> (Inl e, st2)
         | (Inr r, st2) \<Rightarrow> (Inr (inp # r), st2)))"

definition preprocess_inputs ::
  "env \<Rightarrow> pyval list \<Rightarrow> string \<Rightarrow> string \<Rightarrow> schema option \<Rightarrow> state \<Rightarrow> (error + pyval list) \<times> state" where
  "preprocess_inputs E inputs op_name device schema_opt st =
     preprocess_loop E op_name device schema_opt 0 inputs st"

section \<open>Multiple input sets and \<open>Operator.__call__\<close>\<close>

definition check_schema_num_inputs :: "operator \<Rightarrow> pyval list \<Rightarrow> error + unit" where
  "check_schema_num_inputs op inputs =
     (if length inputs < MinNumInput (op_schema op) \<or> length inputs > MaxNumInput (op_schema op)
        then Inl (ValueError (''Operator '' @ op_type_name op @ '' expects from ''
                   @ str_nat (MinNumInput (op_schema op)) @ '' to ''
                   @ str_nat (MaxNumInput (op_schema op)) @ '' inputs, but received ''
                   @ str_nat (length inputs) @ ''.''))
      else Inr ())"

definition detect_multiple_input_sets :: "pyval list \<Rightarrow> bool" where
  "detect_multiple_input_sets inputs = list_ex is_list inputs"

fun safe_len :: "pyval \<Rightarrow> nat" where
  "safe_len (PList xs) = length xs"
| "safe_len v = 1"

text \<open>\<open>max(...)\<close> of an empty sequence raises a \<open>ValueError\<close>.\<close>

definition py_max :: "nat list \<Rightarrow> error + nat" where
  "py_max ns =
     (case ns of
        [] \<Rightarrow> Inl (ValueError ''max() arg is an empty sequence'')
      | n # rest \<Rightarrow> Inr (fold max rest n))"

fun check_lengths :: "operator \<Rightarrow> nat \<Rightarrow> pyval list \<Rightarrow> error + unit" where
  "check_lengths op arg_list_len [] = Inr ()"
| "check_lengths op arg_list_len (inp # rest) =
     (if is_list inp \<and> safe_len inp \<noteq> arg_list_len
        then Inl (ValueError (''All argument lists for Multiple Input Sets used with operator ''
                   @ op_type_name op @ '' must have the same length''))
      else check_lengths op arg_list_len rest)"

definition check_common_length :: "operator \<Rightarrow> pyval list \<Rightarrow> error + nat" where
  "check_common_length op inputs =
     (case py_max (map safe_len inputs) of
        Inl e \<Rightarrow> Inl e
      | Inr arg_list_len \<Rightarrow>
          (case check_lengths op arg_list_len inputs of
             Inl e \<Rightarrow> Inl e
           | Inr u \<Rightarrow> Inr arg_list_len))"

text \<open>
  \<open>_unify_lists\<close>: a list stays, anything else becomes \<open>[input] * arg_list_len\<close>, that is
  \<open>arg_list_len\<close> references to the same object.
\<close>

fun unify_lists :: "pyval list \<Rightarrow> nat \<Rightarrow> pyval list list" where
  "unify_lists [] arg_list_len = []"
| "unify_lists (PList xs # rest) arg_list_len = xs # unify_lists rest arg_list_len"
| "unify_lists (inp # rest) arg_list_len = replicate arg_list_len inp # unify_lists rest arg_list_len"

text \<open>\<open>xs[i]\<close>, which raises an \<open>IndexError\<close> out of range.\<close>

fun py_nth :: "'a list \<Rightarrow> nat \<Rightarrow> 'a option" where
  "py_nth [] i = None"
| "py_nth (x # xs) 0 = Some x"
| "py_nth (x # xs) (Suc i) = py_nth xs i"

text \<open>
  \<open>_repack_list(sets, fn)\<close>: element \<open>i\<close> of the result is \<open>fn(input_set[i] for input_set
  in sets)\<close>, for \<open>i\<close> below \<open>len(sets[0])\<close>.
\<close>

definition repack_list :: "'a list list \<Rightarrow> error + 'a list list" where
  "repack_list sets =
     (case sets of
        [] \<Rightarrow> Inl IndexError
      | s0 # rest \<Rightarrow>
          (case those (map (\<lambda>i. those (map (\<lambda>input_set. py_nth input_set i) sets)) [0..<length s0]) of
             None \<Rightarrow> Inl IndexError
           | Some output_list \<Rightarrow> Inr output_list))"

definition repack_input_sets :: "pyval list list \<Rightarrow> error + pyval list list" where
  "repack_input_sets inputs = repack_list inputs"

definition repack_output_sets :: "data_node list list \<Rightarrow> error + pyval" where
  "repack_output_sets outputs =
     (if length outputs > 1 \<and> length (hd outputs) = 1 then
        (case those (map (\<lambda>elem. py_nth elem 0) outputs) of
           None \<Rightarrow> Inl IndexError
         | Some output \<Rightarrow> Inr (PList (map PDataNode output)))
      else
        (case repack_list outputs of
           Inl e \<Rightarrow> Inl e
         | Inr output_list \<Rightarrow> Inr (PList (map (\<lambda>l. PList (map PDataNode l)) output_list))))"

definition build_input_sets :: "operator \<Rightarrow> pyval list \<Rightarrow> error + pyval list list" where
  "build_input_sets op inputs =
     (if detect_multiple_input_sets inputs then
        (case check_common_length op inputs of
           Inl e \<Rightarrow> Inl e
         | Inr arg_list_len \<Rightarrow> repack_input_sets (unify_lists inputs arg_list_len))
      else Inr [inputs])"

text \<open>
  The expression \<open>_OperatorInstance(input_set, self, **kwargs)\<close> of \<open>__call__\<close>. The
  parameters \<open>self\<close>, \<open>inputs\<close> and \<open>op\<close> of \<open>__init__(self, inputs, op, **kwargs)\<close> are
  bound by position, so a keyword with one of these names, whatever its value, makes
  Python raise a \<open>TypeError\<close> (multiple values for the argument) before the body of
  \<open>__init__\<close> runs: no id is drawn. The argument reported is the first such name among
  the keywords. (The name \<open>self\<close> cannot occur among the keywords that \<open>__call__\<close>
  receives, as \<open>__call__\<close> binds it itself.)
\<close>

definition constructor_clash :: "kwargs \<Rightarrow> string option" where
  "constructor_clash kw =
     find (\<lambda>k. k = ''self'' \<or> k = ''inputs'' \<or> k = ''op'') (dict_keys kw)"

definition OperatorInstance ::
  "env \<Rightarrow> pyval list \<Rightarrow> operator \<Rightarrow> kwargs \<Rightarrow> state \<Rightarrow> (error + op_instance) \<times> state" where
  "OperatorInstance E inputs op kw st =
     (case constructor_clash kw of
        Some k \<Rightarrow>
          (Inl (TypeError (''__init__() got multiple values for argument '' @ [CHR 0x27] @ k
                  @ [CHR 0x27])), st)
      | None \<Rightarrow> OperatorInstance_init E inputs op kw st)"

text \<open>
  The loop "Create OperatorInstance for every input set": each instance is built and
  its outputs are generated before the next input set is looked at.
\<close>

fun create_instances ::
  "env \<Rightarrow> operator \<Rightarrow> kwargs \<Rightarrow> pyval list list \<Rightarrow> op_instance list \<Rightarrow> state
   \<Rightarrow> (error + op_instance list) \<times> state" where
  "create_instances E op kw [] op_instances st = (Inr op_instances, st)"
| "create_instances E op kw (input_set # rest) op_instances st =
     (case OperatorInstance E input_set op kw st of
        (Inl e, st1) \<Rightarrow> (Inl e, st1)
      | (Inr inst, st1) \<Rightarrow>
          (case generate_outputs op inst st1 of
             (Inl e, st2) \<Rightarrow> (Inl e, st2)
           | (Inr inst', st2) \<Rightarrow> create_instances E op kw rest (op_instances @ [inst']) st2))"

text \<open>"Tie the instances together": \<open>op_instances[0].id\<close> becomes every \<open>relation_id\<close>.\<close>

definition tie_instances :: "op_instance list \<Rightarrow> error + op_instance list" where
  "tie_instances op_instances =
     (case op_instances of
        [] \<Rightarrow> Inl IndexError
      | first # rest \<Rightarrow> Inr (map (\<lambda>inst. inst\<lparr>oi_relation_id := oi_id first\<rparr>) op_instances))"

text \<open>
  \<open>Operator.__call__\<close> in two parts. \<open>call_instances\<close> is the body up to and including
  the tying of the instances, and returns the local variable \<open>op_instances\<close>;
  \<open>Operator_call\<close> is the whole method, which returns \<open>result\<close>.
\<close>

definition call_instances ::
  "env \<Rightarrow> operator \<Rightarrow> pyval list \<Rightarrow> kwargs \<Rightarrow> state \<Rightarrow> (error + op_instance list) \<times> state" where
  "call_instances E op inputs kw st =
     (case check_schema_num_inputs op inputs of
        Inl e \<Rightarrow> (Inl e, st)
      | Inr u \<Rightarrow>
     (case preprocess_inputs E inputs (op_type_name op) (op_device op) (Some (op_schema op)) st of
        (Inl e, st1) \<Rightarrow> (Inl e, st1)
      | (Inr inputs1, st1) \<Rightarrow>
     (case build_input_sets op inputs1 of
        Inl e \<Rightarrow> (Inl e, st1)
      | Inr input_sets \<Rightarrow>
     (case create_instances E op kw input_sets [] st1 of
        (Inl e, st2) \<Rightarrow> (Inl e, st2)
      | (Inr op_instances, st2) \<Rightarrow>
     (case tie_instances op_instances of
        Inl e \<Rightarrow> (Inl e, st2)
      | Inr tied \<Rightarrow> (Inr tied, st2))))))"

definition call_result :: "env \<Rightarrow> op_instance list \<Rightarrow> error + pyval" where
  "call_result E op_instances =
     (case (if length op_instances = 1 then Inr (unwrapped_outputs (hd op_instances))
            else repack_output_sets (map oi_outputs op_instances)) of
        Inl e \<Rightarrow> Inl e
      | Inr result \<Rightarrow>
          if conditionals_enabled E \<and> length op_instances \<noteq> 1
            then Inl (ValueError (''Multiple input sets are not supported with conditional''
                       @ '' execution (when `enable_conditionals=True`)''))
          else Inr result)"

definition Operator_call ::
  "env \<Rightarrow> operator \<Rightarrow> pyval list \<Rightarrow> kwargs \<Rightarrow> state \<Rightarrow> (error + pyval) \<times> state" where
  "Operator_call E op inputs kw st =
     (case call_instances E op inputs kw st of
        (Inl e, st1) \<Rightarrow> (Inl e, st1)
      | (Inr op_instances, st1) \<Rightarrow> (call_result E op_instances, st1))"

section \<open>Notions used in the statements\<close>

text \<open>\<open>mentions s p\<close>: the text \<open>p\<close> occurs in the message \<open>s\<close>.\<close>

fun starts_with :: "string \<Rightarrow> string \<Rightarrow> bool" where
  "starts_with s [] = True"
| "starts_with [] (c # p) = False"
| "starts_with (d # s) (c # p) = (d = c \<and> starts_with s p)"

fun mentions :: "string \<Rightarrow> string \<Rightarrow> bool" where
  "mentions [] p = (p = [])"
| "mentions (c # s) p = (starts_with (c # s) p \<or> mentions s p)"

text \<open>
  The number of outputs, the output device and the synthetic sink handle as
  \<open>generate_outputs\<close> computes them.
\<close>

definition num_output :: "operator \<Rightarrow> op_instance \<Rightarrow> nat" where
  "num_output op inst =
     CalculateOutputs (op_schema op) (oi_spec inst)
     + CalculateAdditionalOutputs (op_schema op) (oi_spec inst)"

definition output_device :: "operator \<Rightarrow> string" where
  "output_device op = (if op_device op = ''gpu'' \<or> op_device op = ''mixed'' then ''gpu'' else ''cpu'')"

definition sink_handle :: "operator \<Rightarrow> op_instance \<Rightarrow> state \<Rightarrow> data_node" where
  "sink_handle op inst st =
     \<lparr>dn_addr = st_next_addr st,
      dn_name = op_type_name op @ ''_id_'' @ str_nat (oi_id inst) @ ''_sink'',
      dn_device = output_device op, dn_source = oi_id inst\<rparr>"

text \<open>
  The spec of a node as it was before \<open>generate_outputs\<close> added the outputs to it (one
  \<open>AddOutput\<close> per output), the number of outputs the schema computes for that spec, and
  the name of the synthetic sink of a node.
\<close>

definition spec_before_outputs :: "op_instance \<Rightarrow> op_spec" where
  "spec_before_outputs inst = take (length (oi_spec inst) - length (oi_outputs inst)) (oi_spec inst)"

definition computed_outputs :: "operator \<Rightarrow> op_instance \<Rightarrow> nat" where
  "computed_outputs op inst =
     CalculateOutputs (op_schema op) (spec_before_outputs inst)
     + CalculateAdditionalOutputs (op_schema op) (spec_before_outputs inst)"

definition sink_name :: "operator \<Rightarrow> op_instance \<Rightarrow> string" where
  "sink_name op inst = op_type_name op @ ''_id_'' @ str_nat (oi_id inst) @ ''_sink''"

text \<open>
  Deprecated arguments of a schema: renamed (to \<open>new_name\<close>), or removed without a new
  name; and the message of the error for a new name that is already present.
\<close>

definition new_name :: "schema \<Rightarrow> string \<Rightarrow> string" where
  "new_name sch d = renamed_to (DeprecatedArgMeta sch d)"

definition renamed_arg :: "schema \<Rightarrow> string \<Rightarrow> bool" where
  "renamed_arg sch d = (IsDeprecatedArg sch d \<and> new_name sch d \<noteq> [])"

definition removed_arg :: "schema \<Rightarrow> string \<Rightarrow> bool" where
  "removed_arg sch d = (IsDeprecatedArg sch d \<and> new_name sch d = [] \<and> removed (DeprecatedArgMeta sch d))"

definition conflict_message :: "string \<Rightarrow> string \<Rightarrow> string \<Rightarrow> string" where
  "conflict_message op_name arg_name new =
     ''Operator '' @ op_name @ '' got an unexpected'' @ [CHR 0x27] @ arg_name
       @ [CHR 0x27] @ '' deprecated argument when '' @ [CHR 0x27] @ new
       @ [CHR 0x27] @ ''was already provided''"

section \<open>Example inputs\<close>

text \<open>Concrete values on which the theorems below are instantiated.\<close>

definition ex_scal :: "pyval \<Rightarrow> bool" where
  "ex_scal v = (case v of PInt i \<Rightarrow> True | PBool b \<Rightarrow> True | _ \<Rightarrow> False)"

definition ex_handle :: "nat \<Rightarrow> data_node" where
  "ex_handle n = \<lparr>dn_addr = 100 + n, dn_name = ''in'' @ str_nat n, dn_device = ''cpu'', dn_source = 50 + n\<rparr>"

definition ex_kwargs :: kwargs where
  "ex_kwargs =
     [(''device'', PScalarConstant (PStr ''gpu'') ''str''), (''name'', PStr ''resize0''),
      (''size'', PDataNode (ex_handle 1)), (''mean'', PScalarConstant (PInt 3) ''int32''),
      (''seed'', PNone), (''rng'', PObject 0), (''axis'', PInt 5)]"

definition ex_schema :: schema where
  "ex_schema =
     \<lparr>MinNumInput = 0, MaxNumInput = 4,
      GetArgumentType = (\<lambda>k. ''int''), IsTensorArgument = (\<lambda>k. True),
      GetInputDevice = (\<lambda>i. if i = 1 then Some ''gpu'' else None),
      CalculateOutputs = (\<lambda>s. 1), CalculateAdditionalOutputs = (\<lambda>s. 0),
      IsNoPrune = False, IsDeprecated = False, DeprecatedInFavorOf = [], DeprecationMessage = [],
      IsDeprecatedArg = (\<lambda>k. False),
      DeprecatedArgMeta = (\<lambda>k. \<lparr>renamed_to = [], removed = False, meta_msg = []\<rparr>)\<rparr>"

text \<open>
  What the example \<open>types.Constant\<close> can represent: integers and booleans, and lists and
  tuples of them; not a handle, a tuple of handles or an opaque object.
\<close>

definition ex_constant :: "pyval \<Rightarrow> bool" where
  "ex_constant v =
     (case v of
        PInt i \<Rightarrow> True
      | PBool b \<Rightarrow> True
      | PList xs \<Rightarrow> list_all ex_scal xs
      | PTuple xs \<Rightarrow> list_all ex_scal xs
      | _ \<Rightarrow> False)"

definition ex_env :: env where
  "ex_env =
     \<lparr>is_scalar_value = ex_scal,
      type_convert_value = (\<lambda>t v. Inr v), vector_element_type = (\<lambda>t. t),
      type_name_convert_to_string = (\<lambda>t. t), op_name_fn = (\<lambda>n. n),
      constant_supported = ex_constant,
      object_truthy = (\<lambda>v. True),
      conditionals_enabled = False, apply_conditional_split_to_args = (\<lambda>i k. (i, k))\<rparr>"

definition ex_state :: state where
  "ex_state = \<lparr>st_op_count = 7, st_next_addr = 20, st_pipeline = Some [], st_warnings = []\<rparr>"

definition ex_positional :: "pyval list" where
  "ex_positional =
     [PDataNode (ex_handle 1),
      PList [PInt 1, PInt 2],
      PInt 7,
      PList [PDataNode (ex_handle 4), PScalarConstant (PInt 5) ''int32'']]"

definition ex_device_schema :: schema where
  "ex_device_schema =
     ex_schema\<lparr>GetInputDevice :=
       (\<lambda>i. if i = 1 then Some ''gpu'' else if i = 2 then Some [] else if i = 3 then Some ''cpu''
            else None)\<rparr>"

definition ex_op :: operator where
  "ex_op =
     \<lparr>op_type_name = ''Resize'',
      op_spec = [AddArg ''device'' (PStr ''cpu''), AddArg ''preserve'' (PBool False)],
      op_schema = ex_schema, op_device = ''cpu'', op_call_args = [], op_preserve = False\<rparr>"

definition ex_mismatch :: "pyval \<Rightarrow> pyval list" where
  "ex_mismatch v =
     [PList [PDataNode (ex_handle 1), PDataNode (ex_handle 2)],
      PList [PDataNode (ex_handle 3), PDataNode (ex_handle 4), PDataNode (ex_handle 5)],
      v]"

definition ex_sink_op :: "bool \<Rightarrow> operator" where
  "ex_sink_op preserve =
     \<lparr>op_type_name = ''Dump'',
      op_spec = [AddArg ''device'' (PStr ''cpu''), AddArg ''preserve'' (PBool preserve)],
      op_schema = ex_schema\<lparr>CalculateOutputs := (\<lambda>s. 0)\<rparr>,
      op_device = ''cpu'', op_call_args = [], op_preserve = preserve\<rparr>"

definition ex_inst :: op_instance where
  "ex_inst =
     \<lparr>oi_id = 6, oi_relation_id = 6, oi_name = PStr ''__Dump_6'',
      oi_inputs = [PDataNode (ex_handle 1)], oi_outputs = [],
      oi_spec = [AddArg ''device'' (PStr ''cpu''), AddArg ''preserve'' (PBool True), AddInput ''in1'' ''cpu'']\<rparr>"

lemmas eval_defs =
  Operator_call_def call_instances_def call_result_def check_schema_num_inputs_def
  preprocess_inputs_def build_input_sets_def detect_multiple_input_sets_def
  check_common_length_def py_max_def repack_input_sets_def repack_list_def
  repack_output_sets_def tie_instances_def unwrapped_outputs_def
  OperatorInstance_def constructor_clash_def
  OperatorInstance_init_def generate_outputs_def separate_kwargs_def separate_kwargs_gen_def
  is_call_arg_def dict_keys_def dict_has_def arg_input_node_def check_arg_input_def
  instantiate_constant_node_def Constant_def OpCounter_def DataNode_def add_sink_def warn_def
  resolve_input_device_def deprecation_warning_def str_nat.simps digit_char_def Let_def
  ex_constant_def

definition ex_fanout :: "pyval list" where
  "ex_fanout =
     [PList [PDataNode (ex_handle 1), PDataNode (ex_handle 2), PDataNode (ex_handle 3)],
      PDataNode (ex_handle 4)]"

definition ex_call_kwargs :: kwargs where
  "ex_call_kwargs = [(''angle'', PDataNode (ex_handle 5))]"

definition ex_two_sets :: "pyval list" where
  "ex_two_sets = [PList [PDataNode (ex_handle 1), PDataNode (ex_handle 2)]]"




definition ex_bound_op :: operator where
  "ex_bound_op = ex_op\<lparr>op_call_args := [(''angle'', PDataNode (ex_handle 9))]\<rparr>"

definition ex_dep_schema :: schema where
  "ex_dep_schema =
     ex_schema\<lparr>
       IsDeprecatedArg := (\<lambda>k. k = ''image_type'' \<or> k = ''alias'' \<or> k = ''old_flag''),
       DeprecatedArgMeta := (\<lambda>k.
         if k = ''image_type''
           then \<lparr>renamed_to = ''output_type'', removed = False, meta_msg = ''image_type: use output_type''\<rparr>
         else if k = ''alias''
           then \<lparr>renamed_to = ''output_type'', removed = False, meta_msg = ''alias: use output_type''\<rparr>
         else \<lparr>renamed_to = [], removed = True, meta_msg = ''old_flag is ignored''\<rparr>)\<rparr>"

definition ex_dep_kwargs :: kwargs where
  "ex_dep_kwargs = [(''image_type'', PInt 1), (''old_flag'', PBool True), (''size'', PInt 3)]"

section \<open>Classification of keyword arguments\<close>

lemma separate_loop_init:
  "distinct (map fst kw) \<Longrightarrow>
   map_of (fst (separate_loop s a kw (i, c))) n =
     (case map_of kw n of
        None \<Rightarrow> map_of i n
      | Some v \<Rightarrow> if v \<noteq> PNone \<and> \<not> is_call_arg s a n v then Some (to_scalar v) else map_of i n)"
proof (induction kw arbitrary: i c)
  case Nil
  then show ?case by simp
next
  case (Cons p kw)
  obtain k v where p: "p = (k, v)" by (cases p)
  from Cons.prems p have fresh: "map_of kw k = None" and d: "distinct (map fst kw)"
    by (auto simp: map_of_eq_None_iff)
  show ?case
    using Cons.IH [OF d] fresh by (auto simp: p update_conv split: option.splits)
qed

lemma separate_loop_call:
  "distinct (map fst kw) \<Longrightarrow>
   map_of (snd (separate_loop s a kw (i, c))) n =
     (case map_of kw n of
        None \<Rightarrow> map_of c n
      | Some v \<Rightarrow> if v \<noteq> PNone \<and> is_call_arg s a n v then Some v else map_of c n)"
proof (induction kw arbitrary: i c)
  case Nil
  then show ?case by simp
next
  case (Cons p kw)
  obtain k v where p: "p = (k, v)" by (cases p)
  from Cons.prems p have fresh: "map_of kw k = None" and d: "distinct (map fst kw)"
    by (auto simp: map_of_eq_None_iff)
  show ?case
    using Cons.IH [OF d] fresh by (auto simp: p update_conv split: option.splits)
qed


lemma separate_kwargs_init:
  assumes "distinct (map fst kw)"
  shows "map_of (fst (separate_kwargs scal kw)) n =
     (case map_of kw n of
        None \<Rightarrow> None
      | Some v \<Rightarrow> if v \<noteq> PNone \<and> \<not> is_call_arg scal is_DataNode n v then Some (to_scalar v) else None)"
  using separate_loop_init [OF assms, of scal is_DataNode "[]" "[]" n]
  by (simp add: separate_kwargs_def separate_kwargs_gen_def split: option.splits)

lemma separate_kwargs_call:
  assumes "distinct (map fst kw)"
  shows "map_of (snd (separate_kwargs scal kw)) n =
     (case map_of kw n of
        None \<Rightarrow> None
      | Some v \<Rightarrow> if v \<noteq> PNone \<and> is_call_arg scal is_DataNode n v then Some v else None)"
  using separate_loop_call [OF assms, of scal is_DataNode "[]" "[]" n]
  by (simp add: separate_kwargs_def separate_kwargs_gen_def split: option.splits)


lemma to_scalar_id: "\<not> is_ScalarConstant v \<Longrightarrow> to_scalar v = v"
  by (cases v) auto

text \<open>
  C8. For a keyword dictionary (distinct names), \<open>_separate_kwargs\<close> classifies every
  pair \<open>(name, value)\<close> by this precedence: a \<open>None\<close> value is dropped; \<open>device\<close> and
  \<open>ndim\<close> are construction-style; \<open>name\<close> is call-style; a \<open>DataNode\<close> value is
  call-style; a string, list, tuple or scalar-constant wrapper is construction-style
  (stored unwrapped by \<open>to_scalar\<close>); any other value is construction-style when it
  is a recognized scalar and call-style otherwise. The two resulting dictionaries have
  no name in common and hold no name that was not passed.
\<close>

theorem separate_kwargs_classification:
  assumes d: "distinct (map fst kw)"
    and s: "separate_kwargs scal kw = (init_args, call_args)"
  shows "(\<forall>name v. (name, v) \<in> set kw \<longrightarrow>
            (if v = PNone then map_of init_args name = None \<and> map_of call_args name = None
             else if name = ''device'' \<or> name = ''ndim''
               then map_of init_args name = Some (to_scalar v) \<and> map_of call_args name = None
             else if name = ''name'' \<or> is_DataNode v
               then map_of call_args name = Some v \<and> map_of init_args name = None
             else if is_str v \<or> is_list v \<or> is_tuple v \<or> is_ScalarConstant v
               then map_of init_args name = Some (to_scalar v) \<and> map_of call_args name = None
             else if scal v
               then map_of init_args name = Some v \<and> map_of call_args name = None
             else map_of call_args name = Some v \<and> map_of init_args name = None))
         \<and> fst ` set init_args \<inter> fst ` set call_args = {}
         \<and> fst ` set init_args \<union> fst ` set call_args \<subseteq> fst ` set kw"
proof -
  have i: "map_of init_args n =
     (case map_of kw n of
        None \<Rightarrow> None
      | Some v \<Rightarrow> if v \<noteq> PNone \<and> \<not> is_call_arg scal is_DataNode n v then Some (to_scalar v) else None)" for n
    using separate_kwargs_init [OF d, of scal n] s by simp
  have c: "map_of call_args n =
     (case map_of kw n of
        None \<Rightarrow> None
      | Some v \<Rightarrow> if v \<noteq> PNone \<and> is_call_arg scal is_DataNode n v then Some v else None)" for n
    using separate_kwargs_call [OF d, of scal n] s by simp
  have per_key: "\<forall>name v. (name, v) \<in> set kw \<longrightarrow>
            (if v = PNone then map_of init_args name = None \<and> map_of call_args name = None
             else if name = ''device'' \<or> name = ''ndim''
               then map_of init_args name = Some (to_scalar v) \<and> map_of call_args name = None
             else if name = ''name'' \<or> is_DataNode v
               then map_of call_args name = Some v \<and> map_of init_args name = None
             else if is_str v \<or> is_list v \<or> is_tuple v \<or> is_ScalarConstant v
               then map_of init_args name = Some (to_scalar v) \<and> map_of call_args name = None
             else if scal v
               then map_of init_args name = Some v \<and> map_of call_args name = None
             else map_of call_args name = Some v \<and> map_of init_args name = None)"
  proof (intro allI impI)
    fix name v
    assume "(name, v) \<in> set kw"
    with d have m: "map_of kw name = Some v" by simp
    show "if v = PNone then map_of init_args name = None \<and> map_of call_args name = None
             else if name = ''device'' \<or> name = ''ndim''
               then map_of init_args name = Some (to_scalar v) \<and> map_of call_args name = None
             else if name = ''name'' \<or> is_DataNode v
               then map_of call_args name = Some v \<and> map_of init_args name = None
             else if is_str v \<or> is_list v \<or> is_tuple v \<or> is_ScalarConstant v
               then map_of init_args name = Some (to_scalar v) \<and> map_of call_args name = None
             else if scal v
               then map_of init_args name = Some v \<and> map_of call_args name = None
             else map_of call_args name = Some v \<and> map_of init_args name = None"
      unfolding i c m by (simp add: is_call_arg_def to_scalar_id)
  qed
  have disj: "fst ` set init_args \<inter> fst ` set call_args = {}"
  proof (rule ccontr)
    assume "fst ` set init_args \<inter> fst ` set call_args \<noteq> {}"
    then obtain n where "n \<in> fst ` set init_args" "n \<in> fst ` set call_args" by blast
    then have "map_of init_args n \<noteq> None" "map_of call_args n \<noteq> None"
      by (simp_all add: map_of_eq_None_iff)
    then show False unfolding i c by (auto split: option.splits if_splits)
  qed
  have sub: "fst ` set init_args \<union> fst ` set call_args \<subseteq> fst ` set kw"
  proof
    fix n assume "n \<in> fst ` set init_args \<union> fst ` set call_args"
    then have "map_of init_args n \<noteq> None \<or> map_of call_args n \<noteq> None"
      by (auto simp: map_of_eq_None_iff)
    then have "map_of kw n \<noteq> None" unfolding i c by (auto split: option.splits)
    then show "n \<in> fst ` set kw" by (simp add: map_of_eq_None_iff)
  qed
  from per_key disj sub show ?thesis by blast
qed

theorem separate_kwargs_classification_witness:
  "distinct (map fst ex_kwargs)
   \<and> separate_kwargs ex_scal ex_kwargs =
       ([(''device'', PStr ''gpu''), (''mean'', PInt 3), (''axis'', PInt 5)],
        [(''name'', PStr ''resize0''), (''size'', PDataNode (ex_handle 1)), (''rng'', PObject 0)])
   \<and> map_of (fst (separate_kwargs ex_scal ex_kwargs)) ''seed'' = None
   \<and> map_of (snd (separate_kwargs ex_scal ex_kwargs)) ''seed'' = None
   \<and> map_of (fst (separate_kwargs ex_scal ex_kwargs)) ''mean'' = Some (PInt 3)
   \<and> map_of (snd (separate_kwargs ex_scal ex_kwargs)) ''rng'' = Some (PObject 0)
   \<and> fst ` set (fst (separate_kwargs ex_scal ex_kwargs))
       \<inter> fst ` set (snd (separate_kwargs ex_scal ex_kwargs)) = {}"
proof -
  have d: "distinct (map fst ex_kwargs)" by (simp add: ex_kwargs_def)
  have s: "separate_kwargs ex_scal ex_kwargs =
       ([(''device'', PStr ''gpu''), (''mean'', PInt 3), (''axis'', PInt 5)],
        [(''name'', PStr ''resize0''), (''size'', PDataNode (ex_handle 1)), (''rng'', PObject 0)])"
    by (simp add: ex_kwargs_def separate_kwargs_def separate_kwargs_gen_def is_call_arg_def ex_scal_def)
  have m: "(''seed'', PNone) \<in> set ex_kwargs" "(''mean'', PScalarConstant (PInt 3) ''int32'') \<in> set ex_kwargs"
    "(''rng'', PObject 0) \<in> set ex_kwargs"
    by (simp_all add: ex_kwargs_def)
  from separate_kwargs_classification [OF d s] m show ?thesis
    using d s by (simp add: ex_scal_def)
qed

section \<open>Preprocessing of the positional inputs\<close>

lemma Constant_Inr:
  assumes "Constant E v dev st = (Inr t, st1)"
  shows "constant_supported E v \<and> dn_device t = dev \<and> dn_source t = st_op_count st
         \<and> dn_addr t = st_next_addr st
         \<and> st_op_count st1 = Suc (st_op_count st) \<and> st_next_addr st1 = Suc (st_next_addr st)
         \<and> st_pipeline st1 = st_pipeline st \<and> st_warnings st1 = st_warnings st"
  using assms by (auto simp: Constant_def OpCounter_def DataNode_def split: if_splits)

lemma Constant_Inl:
  assumes "Constant E v dev st = (Inl e, st1)"
  shows "\<not> constant_supported E v \<and> st1 = st \<and> e = ConstantError"
  using assms by (auto simp: Constant_def OpCounter_def DataNode_def split: if_splits)

lemma preprocess_loop_Inr:
  "preprocess_loop E n d s idx inputs st = (Inr out, st') \<Longrightarrow>
   length out = length inputs
   \<and> (\<forall>j<length inputs.
        if is_input (inputs ! j) then out ! j = inputs ! j
        else (\<exists>t. out ! j = PDataNode t \<and> dn_device t = resolve_input_device s d (idx + j)))
   \<and> (\<forall>v\<in>set inputs. \<not> is_input v \<longrightarrow> constant_supported E v)
   \<and> st_op_count st' = st_op_count st + length (filter (\<lambda>v. \<not> is_input v) inputs)
   \<and> st_pipeline st' = st_pipeline st"
proof (induction inputs arbitrary: idx st out)
  case Nil
  then show ?case by simp
next
  case (Cons inp rest)
  show ?case
  proof (cases "is_input inp")
    case True
    with Cons.prems obtain r where
      r: "preprocess_loop E n d s (Suc idx) rest st = (Inr r, st')" and out: "out = inp # r"
      by (auto split: prod.splits sum.splits)
    from Cons.IH [OF r] True out show ?thesis
      by (auto simp: nth_Cons split: nat.splits)
  next
    case False
    with Cons.prems obtain t st1 r where
      c: "Constant E inp (resolve_input_device s d idx) st = (Inr t, st1)" and
      r: "preprocess_loop E n d s (Suc idx) rest st1 = (Inr r, st')" and out: "out = PDataNode t # r"
      by (auto split: prod.splits sum.splits)
    from Cons.IH [OF r] Constant_Inr [OF c] False out show ?thesis
      by (auto simp: nth_Cons split: nat.splits)
  qed
qed

lemma preprocess_loop_Inl:
  "preprocess_loop E n d s idx inputs st = (Inl e, st') \<Longrightarrow>
   (\<exists>msg. e = TypeError msg) \<and> (\<exists>v\<in>set inputs. \<not> is_input v \<and> \<not> constant_supported E v)
   \<and> st_pipeline st' = st_pipeline st \<and> st_op_count st \<le> st_op_count st'"
proof (induction inputs arbitrary: idx st)
  case Nil
  then show ?case by simp
next
  case (Cons inp rest)
  show ?case
  proof (cases "is_input inp")
    case True
    with Cons.prems have r: "preprocess_loop E n d s (Suc idx) rest st = (Inl e, st')"
      by (auto split: prod.splits sum.splits)
    from Cons.IH [OF r] show ?thesis by auto
  next
    case False
    show ?thesis
    proof (cases "Constant E inp (resolve_input_device s d idx) st")
      case (Pair res st1)
      show ?thesis
      proof (cases res)
        case (Inl e1)
        with Pair False Cons.prems Constant_Inl [of E inp "resolve_input_device s d idx" st e1 st1]
        show ?thesis by auto
      next
        case (Inr t)
        with Pair False Cons.prems have r: "preprocess_loop E n d s (Suc idx) rest st1 = (Inl e, st')"
          by (auto split: prod.splits sum.splits)
        from Cons.IH [OF r] Constant_Inr [of E inp "resolve_input_device s d idx" st t st1] Pair Inr
        show ?thesis by auto
      qed
    qed
  qed
qed

lemma is_input_iff:
  "is_input v \<longleftrightarrow>
     is_DataNode v \<or> is_ScalarConstant v
     \<or> (\<exists>xs. v = PList xs \<and> (\<exists>y\<in>set xs. is_DataNode y)
               \<and> (\<forall>y\<in>set xs. is_DataNode y \<or> is_ScalarConstant y))"
  by (cases v) (auto simp: list_ex_iff list_all_iff)

lemma detect_preprocessed:
  assumes "length out = length inputs"
    and "\<forall>j<length inputs.
        if is_input (inputs ! j) then out ! j = inputs ! j
        else (\<exists>t. out ! j = PDataNode t \<and> P t j)"
  shows "detect_multiple_input_sets out \<longleftrightarrow> (\<exists>v\<in>set inputs. is_list v \<and> is_input v)"
proof
  assume "detect_multiple_input_sets out"
  then obtain j where j: "j < length out" "is_list (out ! j)"
    by (auto simp: detect_multiple_input_sets_def list_ex_iff in_set_conv_nth)
  with assms have "is_input (inputs ! j)" "out ! j = inputs ! j"
    by (auto split: if_splits)
  with j assms(1) show "\<exists>v\<in>set inputs. is_list v \<and> is_input v"
    by (metis nth_mem)
next
  assume "\<exists>v\<in>set inputs. is_list v \<and> is_input v"
  then obtain j where j: "j < length inputs" "is_list (inputs ! j)" "is_input (inputs ! j)"
    by (auto simp: in_set_conv_nth)
  with assms have e: "out ! j = inputs ! j" by auto
  from j assms(1) have "out ! j \<in> set out" by simp
  moreover from e j have "is_list (out ! j)" by simp
  ultimately show "detect_multiple_input_sets out"
    unfolding detect_multiple_input_sets_def list_ex_iff by blast
qed

text \<open>
  C10. A positional argument is a data input exactly when it is a \<open>DataNode\<close>, a
  scalar-constant wrapper, or a list with at least one \<open>DataNode\<close> whose elements are
  all \<open>DataNode\<close>s or scalar-constant wrappers. \<open>_preprocess_inputs\<close> leaves the data
  inputs as they are and replaces every other value (a tuple, a list without a
  \<open>DataNode\<close>, a literal) by the handle of one new constant node. The device of that
  node is the one the schema gives for the position when that is a non-empty string;
  without a schema, or when the schema gives \<open>None\<close> or the empty string, it is \<open>gpu\<close>
  for an operator on \<open>gpu\<close> and \<open>cpu\<close> for any other operator. The call fails, with a
  \<open>TypeError\<close>, exactly when one of those values cannot be converted. Afterwards a
  position holds a list, that is, signals multiple input sets, only where a list that
  is a data input was passed.
\<close>

theorem preprocess_inputs_data_inputs:
  "(\<forall>v. is_input v \<longleftrightarrow>
       is_DataNode v \<or> is_ScalarConstant v
       \<or> (\<exists>xs. v = PList xs \<and> (\<exists>y\<in>set xs. is_DataNode y)
                 \<and> (\<forall>y\<in>set xs. is_DataNode y \<or> is_ScalarConstant y)))
   \<and> (case preprocess_inputs E inputs op_name device schema_opt st of
        (Inl e, st') \<Rightarrow>
          (\<exists>msg. e = TypeError msg)
          \<and> (\<exists>v\<in>set inputs. \<not> is_input v \<and> \<not> constant_supported E v)
      | (Inr out, st') \<Rightarrow>
          (\<forall>v\<in>set inputs. \<not> is_input v \<longrightarrow> constant_supported E v)
          \<and> length out = length inputs
          \<and> (\<forall>j<length inputs.
               if is_input (inputs ! j) then out ! j = inputs ! j
               else (\<exists>t. out ! j = PDataNode t
                          \<and> dn_device t =
                              (case schema_opt of
                                 None \<Rightarrow> if device = ''gpu'' then ''gpu'' else ''cpu''
                               | Some sch \<Rightarrow>
                                   (case GetInputDevice sch j of
                                      None \<Rightarrow> if device = ''gpu'' then ''gpu'' else ''cpu''
                                    | Some dv \<Rightarrow>
                                        if dv = [] then (if device = ''gpu'' then ''gpu'' else ''cpu'')
                                        else dv))))
          \<and> st_op_count st' = st_op_count st + length (filter (\<lambda>v. \<not> is_input v) inputs)
          \<and> (detect_multiple_input_sets out \<longleftrightarrow> (\<exists>v\<in>set inputs. is_list v \<and> is_input v)))"
proof -
  let ?dev = "\<lambda>j. case schema_opt of
                 None \<Rightarrow> if device = ''gpu'' then ''gpu'' else ''cpu''
               | Some sch \<Rightarrow>
                   (case GetInputDevice sch j of
                      None \<Rightarrow> if device = ''gpu'' then ''gpu'' else ''cpu''
                    | Some dv \<Rightarrow>
                        if dv = [] then (if device = ''gpu'' then ''gpu'' else ''cpu'')
                        else dv)"
  have dev: "resolve_input_device schema_opt device j = ?dev j" for j
    by (simp add: resolve_input_device_def split: option.splits)
  have A: "\<forall>v. is_input v \<longleftrightarrow>
       is_DataNode v \<or> is_ScalarConstant v
       \<or> (\<exists>xs. v = PList xs \<and> (\<exists>y\<in>set xs. is_DataNode y)
                 \<and> (\<forall>y\<in>set xs. is_DataNode y \<or> is_ScalarConstant y))"
    using is_input_iff by blast
  obtain res st' where p: "preprocess_inputs E inputs op_name device schema_opt st = (res, st')"
    by (cases "preprocess_inputs E inputs op_name device schema_opt st")
  have B: "case preprocess_inputs E inputs op_name device schema_opt st of
        (Inl e, st') \<Rightarrow>
          (\<exists>msg. e = TypeError msg)
          \<and> (\<exists>v\<in>set inputs. \<not> is_input v \<and> \<not> constant_supported E v)
      | (Inr out, st') \<Rightarrow>
          (\<forall>v\<in>set inputs. \<not> is_input v \<longrightarrow> constant_supported E v)
          \<and> length out = length inputs
          \<and> (\<forall>j<length inputs.
               if is_input (inputs ! j) then out ! j = inputs ! j
               else (\<exists>t. out ! j = PDataNode t \<and> dn_device t = ?dev j))
          \<and> st_op_count st' = st_op_count st + length (filter (\<lambda>v. \<not> is_input v) inputs)
          \<and> (detect_multiple_input_sets out \<longleftrightarrow> (\<exists>v\<in>set inputs. is_list v \<and> is_input v))"
  proof (cases res)
    case (Inl e)
    with p preprocess_loop_Inl [of E op_name device schema_opt 0 inputs st e st']
    show ?thesis by (simp add: preprocess_inputs_def)
  next
    case (Inr out)
    with p have l: "preprocess_loop E op_name device schema_opt 0 inputs st = (Inr out, st')"
      by (simp add: preprocess_inputs_def)
    from preprocess_loop_Inr [OF l] have f:
      "length out = length inputs"
      "\<forall>j<length inputs.
        if is_input (inputs ! j) then out ! j = inputs ! j
        else (\<exists>t. out ! j = PDataNode t \<and> dn_device t = resolve_input_device schema_opt device j)"
      "\<forall>v\<in>set inputs. \<not> is_input v \<longrightarrow> constant_supported E v"
      "st_op_count st' = st_op_count st + length (filter (\<lambda>v. \<not> is_input v) inputs)"
      by (simp_all cong: if_cong)
    from detect_preprocessed [OF f(1), of "\<lambda>t j. dn_device t = resolve_input_device schema_opt device j"] f(2)
    have d: "detect_multiple_input_sets out \<longleftrightarrow> (\<exists>v\<in>set inputs. is_list v \<and> is_input v)"
      by blast
    from f(2) have f2: "\<forall>j<length inputs.
        if is_input (inputs ! j) then out ! j = inputs ! j
        else (\<exists>t. out ! j = PDataNode t \<and> dn_device t = ?dev j)"
      unfolding dev .
    have "(\<forall>v\<in>set inputs. \<not> is_input v \<longrightarrow> constant_supported E v)
          \<and> length out = length inputs
          \<and> (\<forall>j<length inputs.
               if is_input (inputs ! j) then out ! j = inputs ! j
               else (\<exists>t. out ! j = PDataNode t \<and> dn_device t = ?dev j))
          \<and> st_op_count st' = st_op_count st + length (filter (\<lambda>v. \<not> is_input v) inputs)
          \<and> (detect_multiple_input_sets out \<longleftrightarrow> (\<exists>v\<in>set inputs. is_list v \<and> is_input v))"
      by (intro conjI f(3) f(1) f2 f(4) d)
    then show ?thesis unfolding p Inr prod.case sum.case .
  qed
  from A B show ?thesis by (rule conjI)
qed

theorem preprocess_inputs_data_inputs_witness:
  "preprocess_inputs ex_env ex_positional ''Resize'' ''mixed'' (Some ex_device_schema) ex_state =
     (Inr [PDataNode (ex_handle 1),
           PDataNode \<lparr>dn_addr = 20, dn_name = ''__Constant_7'', dn_device = ''gpu'', dn_source = 7\<rparr>,
           PDataNode \<lparr>dn_addr = 21, dn_name = ''__Constant_8'', dn_device = ''cpu'', dn_source = 8\<rparr>,
           PList [PDataNode (ex_handle 4), PScalarConstant (PInt 5) ''int32'']],
      ex_state\<lparr>st_op_count := 9, st_next_addr := 22\<rparr>)
   \<and> preprocess_inputs ex_env [PInt 6, PInt 7, PInt 8, PInt 9] ''Resize'' ''gpu''
        (Some ex_device_schema) ex_state =
     (Inr [PDataNode \<lparr>dn_addr = 20, dn_name = ''__Constant_7'', dn_device = ''gpu'', dn_source = 7\<rparr>,
           PDataNode \<lparr>dn_addr = 21, dn_name = ''__Constant_8'', dn_device = ''gpu'', dn_source = 8\<rparr>,
           PDataNode \<lparr>dn_addr = 22, dn_name = ''__Constant_9'', dn_device = ''gpu'', dn_source = 9\<rparr>,
           PDataNode \<lparr>dn_addr = 23, dn_name = ''__Constant_10'', dn_device = ''cpu'', dn_source = 10\<rparr>],
      ex_state\<lparr>st_op_count := 11, st_next_addr := 24\<rparr>)
   \<and> preprocess_inputs ex_env [PInt 6] ''Resize'' ''gpu'' None ex_state =
     (Inr [PDataNode \<lparr>dn_addr = 20, dn_name = ''__Constant_7'', dn_device = ''gpu'', dn_source = 7\<rparr>],
      ex_state\<lparr>st_op_count := 8, st_next_addr := 21\<rparr>)
   \<and> preprocess_inputs ex_env [PTuple [PDataNode (ex_handle 2), PDataNode (ex_handle 3)]]
        ''Resize'' ''cpu'' (Some ex_device_schema) ex_state =
     (Inl (TypeError (''when calling operator Resize: Input 0 is neither a DALI `DataNode` nor a list of data nodes.''
             @ '' Attempt to convert it to a constant node failed.'')), ex_state)
   \<and> \<not> is_input (PTuple [PDataNode (ex_handle 2), PDataNode (ex_handle 3)])
   \<and> \<not> is_input (PList [PInt 1, PInt 2])
   \<and> is_input (PList [PDataNode (ex_handle 4), PScalarConstant (PInt 5) ''int32''])"
  using preprocess_inputs_data_inputs [where E = ex_env and inputs = ex_positional
      and op_name = "''Resize''" and device = "''mixed''" and schema_opt = "Some ex_device_schema"
      and st = ex_state]
    preprocess_inputs_data_inputs [where E = ex_env and inputs = "[PInt 6, PInt 7, PInt 8, PInt 9]"
      and op_name = "''Resize''" and device = "''gpu''" and schema_opt = "Some ex_device_schema"
      and st = ex_state]
  by (simp add: preprocess_inputs_def ex_positional_def ex_env_def ex_device_schema_def
        ex_schema_def ex_state_def ex_constant_def ex_scal_def
        Constant_def OpCounter_def DataNode_def resolve_input_device_def str_nat.simps digit_char_def)

section \<open>Fan-out lists of different lengths\<close>

lemma starts_with_append: "starts_with (p @ s) p"
  by (induction p) auto

lemma mentions_append: "mentions (a @ p @ b) p"
proof (induction a)
  case Nil
  show ?case using starts_with_append [of p b] by (cases "p @ b") auto
next
  case (Cons c a)
  then show ?case by simp
qed

lemma preprocess_loop_supported:
  assumes "\<forall>v\<in>set inputs. \<not> is_input v \<longrightarrow> constant_supported E v"
  shows "\<exists>out st'. preprocess_loop E n d s idx inputs st = (Inr out, st')"
proof (cases "preprocess_loop E n d s idx inputs st")
  case (Pair res st')
  show ?thesis
  proof (cases res)
    case (Inl e)
    with Pair preprocess_loop_Inl [of E n d s idx inputs st e st'] assms show ?thesis by blast
  next
    case (Inr out)
    with Pair show ?thesis by blast
  qed
qed

lemma check_lengths_Inl:
  "\<exists>v\<in>set inputs. is_list v \<and> safe_len v \<noteq> m \<Longrightarrow>
   check_lengths op m inputs =
     Inl (ValueError (''All argument lists for Multiple Input Sets used with operator ''
            @ op_type_name op @ '' must have the same length''))"
  by (induction inputs) auto

lemma check_lengths_Inr:
  "\<forall>v\<in>set inputs. is_list v \<longrightarrow> safe_len v = m \<Longrightarrow> check_lengths op m inputs = Inr ()"
  by (induction inputs) auto

lemma check_common_length_mismatch:
  assumes "PList xs \<in> set inputs" "PList ys \<in> set inputs" "length xs \<noteq> length ys"
  shows "check_common_length op inputs =
     Inl (ValueError (''All argument lists for Multiple Input Sets used with operator ''
            @ op_type_name op @ '' must have the same length''))"
proof -
  from assms(1) obtain n rest where ns: "map safe_len inputs = n # rest"
    by (cases inputs) auto
  have "\<exists>v\<in>set inputs. is_list v \<and> safe_len v \<noteq> fold max rest n"
  proof (cases "length xs = fold max rest n")
    case True
    with assms(3) have "is_list (PList ys) \<and> safe_len (PList ys) \<noteq> fold max rest n" by simp
    with assms(2) show ?thesis by blast
  next
    case False
    then have "is_list (PList xs) \<and> safe_len (PList xs) \<noteq> fold max rest n" by simp
    with assms(1) show ?thesis by blast
  qed
  from check_lengths_Inl [OF this] ns show ?thesis
    by (simp add: check_common_length_def py_max_def)
qed

text \<open>
  C2 (amended). When the positional inputs hold two fan-out lists of different lengths,
  the number of inputs is within the schema's bounds and every positional value that
  is not a data input can be converted to a constant, the call fails with the
  \<open>ValueError\<close> of \<open>_check_common_length\<close>. Its message names the operator and nothing
  else that varies. No instance of the operator is created and no sink is registered;
  the only nodes created are the constant nodes of the positional values that are not
  data inputs, one each (none when every positional value is a data input).
\<close>

theorem length_mismatch_fails:
  assumes n: "check_schema_num_inputs op inputs = Inr ()"
    and c: "\<forall>v\<in>set inputs. \<not> is_input v \<longrightarrow> constant_supported E v"
    and x: "PList xs \<in> set inputs" "is_input (PList xs)"
    and y: "PList ys \<in> set inputs" "is_input (PList ys)"
    and l: "length xs \<noteq> length ys"
  shows "\<exists>msg st'.
           Operator_call E op inputs kw st = (Inl (ValueError msg), st')
           \<and> msg = ''All argument lists for Multiple Input Sets used with operator ''
                    @ op_type_name op @ '' must have the same length''
           \<and> mentions msg (op_type_name op)
           \<and> st_op_count st' = st_op_count st + length (filter (\<lambda>v. \<not> is_input v) inputs)
           \<and> st_pipeline st' = st_pipeline st"
proof -
  from preprocess_loop_supported [OF c] obtain out st' where
    p: "preprocess_loop E (op_type_name op) (op_device op) (Some (op_schema op)) 0 inputs st = (Inr out, st')"
    by blast
  note f = preprocess_loop_Inr [OF p]
  from f have len: "length out = length inputs" by simp
  have keep: "v \<in> set inputs \<Longrightarrow> is_input v \<Longrightarrow> v \<in> set out" for v
  proof -
    assume "v \<in> set inputs" "is_input v"
    then obtain j where j: "j < length inputs" "inputs ! j = v" by (auto simp: in_set_conv_nth)
    with f \<open>is_input v\<close> have "out ! j = v" by auto
    with j len show "v \<in> set out" by (metis nth_mem)
  qed
  from keep x y have mem: "PList xs \<in> set out" "PList ys \<in> set out" by auto
  then have det: "detect_multiple_input_sets out"
    unfolding detect_multiple_input_sets_def list_ex_iff by (metis is_list.simps(1))
  let ?msg = "''All argument lists for Multiple Input Sets used with operator ''
                    @ op_type_name op @ '' must have the same length''"
  from check_common_length_mismatch [OF mem l]
  have b: "build_input_sets op out = Inl (ValueError ?msg)"
    using det by (simp add: build_input_sets_def)
  have res: "Operator_call E op inputs kw st = (Inl (ValueError ?msg), st')"
    using n p b by (simp add: Operator_call_def call_instances_def preprocess_inputs_def)
  have m: "mentions ?msg (op_type_name op)" by (rule mentions_append)
  from f have oc: "st_op_count st' = st_op_count st + length (filter (\<lambda>v. \<not> is_input v) inputs)"
    and pl: "st_pipeline st' = st_pipeline st" by simp_all
  from res m oc pl show ?thesis by blast
qed


theorem length_mismatch_fails_witness:
  "Operator_call ex_env ex_op (ex_mismatch (PDataNode (ex_handle 6))) [] ex_state =
     (Inl (ValueError ''All argument lists for Multiple Input Sets used with operator Resize must have the same length''),
      ex_state)
   \<and> mentions ''All argument lists for Multiple Input Sets used with operator Resize must have the same length''
        ''Resize''"
proof -
  have n: "check_schema_num_inputs ex_op (ex_mismatch (PDataNode (ex_handle 6))) = Inr ()"
    by (simp add: check_schema_num_inputs_def ex_op_def ex_schema_def ex_mismatch_def)
  have c: "\<forall>v\<in>set (ex_mismatch (PDataNode (ex_handle 6))). \<not> is_input v \<longrightarrow> constant_supported ex_env v"
    by (simp add: ex_mismatch_def)
  have x: "PList [PDataNode (ex_handle 1), PDataNode (ex_handle 2)] \<in> set (ex_mismatch (PDataNode (ex_handle 6)))"
    "is_input (PList [PDataNode (ex_handle 1), PDataNode (ex_handle 2)])"
    by (simp_all add: ex_mismatch_def)
  have y: "PList [PDataNode (ex_handle 3), PDataNode (ex_handle 4), PDataNode (ex_handle 5)]
             \<in> set (ex_mismatch (PDataNode (ex_handle 6)))"
    "is_input (PList [PDataNode (ex_handle 3), PDataNode (ex_handle 4), PDataNode (ex_handle 5)])"
    by (simp_all add: ex_mismatch_def)
  have l: "length [PDataNode (ex_handle 1), PDataNode (ex_handle 2)]
           \<noteq> length [PDataNode (ex_handle 3), PDataNode (ex_handle 4), PDataNode (ex_handle 5)]"
    by simp
  from length_mismatch_fails [OF n c x y l, of "[]" ex_state]
  obtain msg st' where
    r: "Operator_call ex_env ex_op (ex_mismatch (PDataNode (ex_handle 6))) [] ex_state = (Inl (ValueError msg), st')"
    and m: "msg = ''All argument lists for Multiple Input Sets used with operator '' @ op_type_name ex_op
                  @ '' must have the same length''"
    and mm: "mentions msg (op_type_name ex_op)"
    and oc: "st_op_count st' = st_op_count ex_state
               + length (filter (\<lambda>v. \<not> is_input v) (ex_mismatch (PDataNode (ex_handle 6))))"
    by blast
  have e: "snd (Operator_call ex_env ex_op (ex_mismatch (PDataNode (ex_handle 6))) [] ex_state) = ex_state"
    by (simp add: Operator_call_def call_instances_def check_schema_num_inputs_def ex_op_def
          ex_schema_def ex_mismatch_def preprocess_inputs_def build_input_sets_def
          detect_multiple_input_sets_def check_common_length_def py_max_def)
  from r m mm e show ?thesis by (simp add: ex_op_def)
qed

theorem length_mismatch_counterexample:
  "Operator_call ex_env ex_op (ex_mismatch (PInt 5)) [] ex_state =
     (Inl (ValueError ''All argument lists for Multiple Input Sets used with operator Resize must have the same length''),
      ex_state\<lparr>st_op_count := 8, st_next_addr := 21\<rparr>)
   \<and> \<not> mentions ''All argument lists for Multiple Input Sets used with operator Resize must have the same length''
          (str_nat 2)
   \<and> \<not> mentions ''All argument lists for Multiple Input Sets used with operator Resize must have the same length''
          (str_nat 3)
   \<and> st_op_count ex_state = 7"
  by (simp add: Operator_call_def call_instances_def check_schema_num_inputs_def ex_op_def
        ex_schema_def ex_env_def ex_state_def ex_mismatch_def preprocess_inputs_def Constant_def
        ex_constant_def
        OpCounter_def DataNode_def resolve_input_device_def build_input_sets_def
        detect_multiple_input_sets_def check_common_length_def py_max_def str_nat.simps digit_char_def)

section \<open>Output generation\<close>

lemma add_sink_Some:
  "st_pipeline st = Some sinks \<Longrightarrow> add_sink t st = (Inr (), st\<lparr>st_pipeline := Some (sinks @ [t])\<rparr>)"
  by (simp add: add_sink_def)

lemma upt_first: "[a..<a + Suc k] = a # [Suc a..<Suc a + k]"
  by (subst upt_rec) simp

lemma output_loop_not_str:
  "\<not> is_str (oi_name inst) \<Longrightarrow> idxs \<noteq> [] \<Longrightarrow>
   \<exists>e. output_loop op dev n idxs inst st = (Inl e, st)"
  by (cases idxs; cases "oi_name inst") auto

text \<open>
  The loop cannot fail once the name is a string and a preserving operator has a
  current pipeline. It appends one handle per index, each produced by this instance,
  and touches neither the id counter nor anything of the instance but its outputs and
  spec. The sink list grows by the same handles when the operator preserves, and
  stays as it is otherwise.
\<close>

lemma output_loop_Inr:
  assumes "is_str (oi_name inst)" and "op_preserve op \<longrightarrow> st_pipeline st \<noteq> None"
  shows "\<exists>inst' st' new.
           output_loop op dev n idxs inst st = (Inr inst', st')
           \<and> oi_outputs inst' = oi_outputs inst @ new \<and> length new = length idxs
           \<and> (\<forall>t\<in>set new. dn_source t = oi_id inst \<and> dn_device t = dev)
           \<and> map dn_addr new = [st_next_addr st..<st_next_addr st + length idxs]
           \<and> oi_id inst' = oi_id inst \<and> oi_relation_id inst' = oi_relation_id inst
           \<and> oi_name inst' = oi_name inst \<and> oi_inputs inst' = oi_inputs inst
           \<and> st_op_count st' = st_op_count st \<and> st_warnings st' = st_warnings st
           \<and> st_next_addr st' = st_next_addr st + length idxs
           \<and> st_pipeline st' =
               (if op_preserve op then map_option (\<lambda>sinks. sinks @ new) (st_pipeline st)
                else st_pipeline st)"
  using assms
proof (induction idxs arbitrary: inst st)
  case Nil
  then show ?case by (cases "st_pipeline st") (auto simp: option.map_ident)
next
  case (Cons i idxs)
  from Cons.prems(1) obtain name where name: "oi_name inst = PStr name"
    by (cases "oi_name inst") auto
  define t_name where "t_name = (if n > 1 then name @ ''['' @ str_nat i @ '']'' else name)"
  define t where "t = \<lparr>dn_addr = st_next_addr st, dn_name = t_name, dn_device = dev, dn_source = oi_id inst\<rparr>"
  define st1 where "st1 = st\<lparr>st_next_addr := Suc (st_next_addr st)\<rparr>"
  define inst2 where
    "inst2 = inst\<lparr>oi_spec := oi_spec inst @ [AddOutput t_name dev], oi_outputs := oi_outputs inst @ [t]\<rparr>"
  have dn: "DataNode t_name dev (oi_id inst) st = (t, st1)"
    by (simp add: DataNode_def t_def st1_def)
  have n2: "is_str (oi_name inst2)" using name by (simp add: inst2_def)
  show ?case
  proof (cases "op_preserve op")
    case True
    with Cons.prems(2) obtain sinks where sinks: "st_pipeline st = Some sinks" by auto
    define st2 where "st2 = st1\<lparr>st_pipeline := Some (sinks @ [t])\<rparr>"
    have as: "add_sink t st1 = (Inr (), st2)"
      using sinks by (simp add: add_sink_def st1_def st2_def)
    have step: "output_loop op dev n (i # idxs) inst st = output_loop op dev n idxs inst2 st2"
      using name dn as True by (simp add: t_name_def t_def inst2_def)
    have p2: "op_preserve op \<longrightarrow> st_pipeline st2 \<noteq> None" by (simp add: st2_def)
    from Cons.IH [OF n2 p2] obtain inst' st' new where
      r: "output_loop op dev n idxs inst2 st2 = (Inr inst', st')"
      "oi_outputs inst' = oi_outputs inst2 @ new" "length new = length idxs"
      "\<forall>t\<in>set new. dn_source t = oi_id inst2 \<and> dn_device t = dev"
      "map dn_addr new = [st_next_addr st2..<st_next_addr st2 + length idxs]"
      "oi_id inst' = oi_id inst2" "oi_relation_id inst' = oi_relation_id inst2"
      "oi_name inst' = oi_name inst2" "oi_inputs inst' = oi_inputs inst2"
      "st_op_count st' = st_op_count st2" "st_warnings st' = st_warnings st2"
      "st_next_addr st' = st_next_addr st2 + length idxs"
      "st_pipeline st' =
         (if op_preserve op then map_option (\<lambda>sinks. sinks @ new) (st_pipeline st2)
          else st_pipeline st2)"
      by blast
    have a: "map dn_addr (t # new) = [st_next_addr st..<st_next_addr st + length (i # idxs)]"
      using r(5) upt_first [of "st_next_addr st" "length idxs"]
      by (simp add: st2_def st1_def t_def del: upt_Suc)
    show ?thesis
      apply (rule exI [of _ inst'], rule exI [of _ st'], rule exI [of _ "t # new"])
      using step r a True sinks
      by (simp add: inst2_def st2_def st1_def t_def)
  next
    case False
    have step: "output_loop op dev n (i # idxs) inst st = output_loop op dev n idxs inst2 st1"
      using name dn False by (simp add: t_name_def t_def inst2_def)
    have p2: "op_preserve op \<longrightarrow> st_pipeline st1 \<noteq> None" using False by simp
    from Cons.IH [OF n2 p2] obtain inst' st' new where
      r: "output_loop op dev n idxs inst2 st1 = (Inr inst', st')"
      "oi_outputs inst' = oi_outputs inst2 @ new" "length new = length idxs"
      "\<forall>t\<in>set new. dn_source t = oi_id inst2 \<and> dn_device t = dev"
      "map dn_addr new = [st_next_addr st1..<st_next_addr st1 + length idxs]"
      "oi_id inst' = oi_id inst2" "oi_relation_id inst' = oi_relation_id inst2"
      "oi_name inst' = oi_name inst2" "oi_inputs inst' = oi_inputs inst2"
      "st_op_count st' = st_op_count st1" "st_warnings st' = st_warnings st1"
      "st_next_addr st' = st_next_addr st1 + length idxs"
      "st_pipeline st' =
         (if op_preserve op then map_option (\<lambda>sinks. sinks @ new) (st_pipeline st1)
          else st_pipeline st1)"
      by blast
    have a: "map dn_addr (t # new) = [st_next_addr st..<st_next_addr st + length (i # idxs)]"
      using r(5) upt_first [of "st_next_addr st" "length idxs"]
      by (simp add: st1_def t_def del: upt_Suc)
    show ?thesis
      apply (rule exI [of _ inst'], rule exI [of _ st'], rule exI [of _ "t # new"])
      using step r a False
      by (simp add: inst2_def st1_def t_def)
  qed
qed


lemma generate_outputs_no_pipeline:
  "op_preserve op \<Longrightarrow> st_pipeline st = None \<Longrightarrow>
   generate_outputs op inst st = (Inl (GraphRequired ''Operators with side-effects ''), st)"
  by (simp add: generate_outputs_def)

lemma generate_outputs_sink:
  assumes "op_preserve op" "st_pipeline st = Some sinks" "num_output op inst = 0"
  shows "generate_outputs op inst st =
     (Inr inst, st\<lparr>st_next_addr := Suc (st_next_addr st),
                   st_pipeline := Some (sinks @ [sink_handle op inst st])\<rparr>)"
  using assms
  by (simp add: generate_outputs_def num_output_def DataNode_def add_sink_def sink_handle_def
        output_device_def)

lemma generate_outputs_loop:
  assumes "\<not> (st_pipeline st = None \<and> op_preserve op)" "\<not> (num_output op inst = 0 \<and> op_preserve op)"
  shows "generate_outputs op inst st =
     output_loop op (output_device op) (num_output op inst) [0..<num_output op inst] inst st"
  using assms by (auto simp: generate_outputs_def num_output_def output_device_def Let_def)

lemma generate_outputs_Inl:
  assumes "generate_outputs op inst st = (Inl e, st')"
  shows "st' = st"
proof (cases "st_pipeline st = None \<and> op_preserve op")
  case True
  with assms show ?thesis by (simp add: generate_outputs_def)
next
  case np: False
  show ?thesis
  proof (cases "num_output op inst = 0 \<and> op_preserve op")
    case True
    with np obtain sinks where "st_pipeline st = Some sinks" by auto
    from generate_outputs_sink [OF _ this, where inst = inst] True assms show ?thesis by simp
  next
    case False
    note l = generate_outputs_loop [OF np False]
    show ?thesis
    proof (cases "is_str (oi_name inst)")
      case True
      from np have "op_preserve op \<longrightarrow> st_pipeline st \<noteq> None" by auto
      from output_loop_Inr [OF True this, of "output_device op" "num_output op inst" "[0..<num_output op inst]"] l assms show ?thesis by auto
    next
      case ns: False
      show ?thesis
      proof (cases "num_output op inst = 0")
        case True
        with l assms show ?thesis by simp
      next
        case False
        then have "[0..<num_output op inst] \<noteq> []" by simp
        from output_loop_not_str [OF ns this, where op = op and dev = "output_device op" and n = "num_output op inst" and st = st] l assms show ?thesis by auto
      qed
    qed
  qed
qed

lemma generate_outputs_Inr:
  assumes g: "generate_outputs op inst st = (Inr inst', st')"
  shows "\<exists>new. oi_outputs inst' = oi_outputs inst @ new
           \<and> length new = num_output op inst
           \<and> (\<forall>t\<in>set new. dn_source t = oi_id inst \<and> dn_device t = output_device op)
           \<and> oi_id inst' = oi_id inst \<and> oi_relation_id inst' = oi_relation_id inst
           \<and> oi_name inst' = oi_name inst \<and> oi_inputs inst' = oi_inputs inst
           \<and> st_op_count st' = st_op_count st \<and> st_warnings st' = st_warnings st
           \<and> st_pipeline st' =
               (if op_preserve op
                  then map_option (\<lambda>sinks. sinks @ (if num_output op inst = 0
                                                    then [sink_handle op inst st] else new))
                         (st_pipeline st)
                else st_pipeline st)"
proof -
  from g have np: "\<not> (st_pipeline st = None \<and> op_preserve op)"
    by (auto simp: generate_outputs_def)
  show ?thesis
  proof (cases "num_output op inst = 0 \<and> op_preserve op")
    case True
    with np obtain sinks where s: "st_pipeline st = Some sinks" by auto
    from generate_outputs_sink [OF _ s, where inst = inst] True g s show ?thesis by auto
  next
    case False
    note l = generate_outputs_loop [OF np False]
    show ?thesis
    proof (cases "num_output op inst = 0")
      case True
      with False l g show ?thesis by auto
    next
      case nz: False
      then have ne: "[0..<num_output op inst] \<noteq> []" by simp
      have str: "is_str (oi_name inst)"
      proof (rule ccontr)
        assume ns: "\<not> is_str (oi_name inst)"
        from output_loop_not_str [OF ns ne, where op = op and dev = "output_device op" and n = "num_output op inst" and st = st] l g show False by auto
      qed
      from np have p: "op_preserve op \<longrightarrow> st_pipeline st \<noteq> None" by auto
      from output_loop_Inr [OF str p, of "output_device op" "num_output op inst" "[0..<num_output op inst]"]
        l g nz
      show ?thesis by (cases "st_pipeline st") auto
    qed
  qed
qed


section \<open>Construction of one operator instance\<close>

lemma promote_inputs_frame:
  "promote_inputs E dev inputs st = (res, st') \<Longrightarrow>
   st_pipeline st' = st_pipeline st \<and> st_op_count st \<le> st_op_count st'
   \<and> st_warnings st' = st_warnings st"
proof (induction inputs arbitrary: st res st')
  case Nil
  then show ?case by auto
next
  case (Cons inp rest)
  show ?case
  proof (cases "is_ScalarConstant inp")
    case False
    obtain r st2 where r: "promote_inputs E dev rest st = (r, st2)"
      by (cases "promote_inputs E dev rest st")
    with Cons.prems False have "st' = st2" by (auto split: sum.splits)
    with Cons.IH [OF r] show ?thesis by simp
  next
    case True
    obtain c st1 where c: "Constant E (to_scalar inp) dev st = (c, st1)"
      by (cases "Constant E (to_scalar inp) dev st")
    show ?thesis
    proof (cases c)
      case (Inl e)
      with c Constant_Inl [of E "to_scalar inp" dev st e st1] Cons.prems True
      show ?thesis by (auto simp: instantiate_constant_node_def)
    next
      case (Inr t)
      obtain r st2 where r: "promote_inputs E dev rest st1 = (r, st2)"
        by (cases "promote_inputs E dev rest st1")
      with Cons.prems True c Inr have "st' = st2"
        by (auto simp: instantiate_constant_node_def split: sum.splits)
      with Cons.IH [OF r] Constant_Inr [of E "to_scalar inp" dev st t st1] c Inr
      show ?thesis by simp
    qed
  qed
qed


lemma arg_input_node_frame:
  "arg_input_node E k v st = (res, st') \<Longrightarrow>
   st_pipeline st' = st_pipeline st \<and> st_op_count st \<le> st_op_count st'
   \<and> st_warnings st' = st_warnings st"
proof -
  assume a: "arg_input_node E k v st = (res, st')"
  have c: "Constant E w dev st = (r, s) \<Longrightarrow>
     st_pipeline s = st_pipeline st \<and> st_op_count st \<le> st_op_count s
     \<and> st_warnings s = st_warnings st" for w dev r s
    using Constant_Inl [of E w dev st _ s] Constant_Inr [of E w dev st _ s]
    by (cases r) auto
  show ?thesis
  proof (cases v)
    case (PDataNode d)
    with a show ?thesis by (simp add: arg_input_node_def)
  next
    case (PScalarConstant w t)
    with a c [of w "''cpu''" res st'] show ?thesis
      by (simp add: arg_input_node_def instantiate_constant_node_def)
  qed (use a c [of v "''cpu''"] in \<open>auto simp: arg_input_node_def split: prod.splits sum.splits\<close>)
qed


lemma add_argument_inputs_frame:
  "add_argument_inputs E op call_args ks acc st = (res, st') \<Longrightarrow>
   st_pipeline st' = st_pipeline st \<and> st_op_count st \<le> st_op_count st'
   \<and> st_warnings st' = st_warnings st"
proof (induction ks arbitrary: acc st res st')
  case Nil
  then show ?case by simp
next
  case (Cons k ks)
  obtain spec inputs where acc: "acc = (spec, inputs)" by (cases acc)
  show ?case
  proof (cases "k = ''name'' \<or> map_of call_args k = Some PNone")
    case True
    with Cons.prems acc have "add_argument_inputs E op call_args ks (spec, inputs) st = (res, st')"
      by (cases "k = ''name''") auto
    from Cons.IH [OF this] show ?thesis .
  next
    case False
    show ?thesis
    proof (cases "map_of call_args k")
      case None
      with Cons.prems acc False show ?thesis by auto
    next
      case (Some v)
      obtain r st1 where n: "arg_input_node E k v st = (r, st1)"
        by (cases "arg_input_node E k v st")
      note f = arg_input_node_frame [OF n]
      show ?thesis
      proof (cases r)
        case (Inl e)
        with Cons.prems acc False Some n f show ?thesis by auto
      next
        case (Inr t)
        show ?thesis
        proof (cases "check_arg_input E (op_schema op) (op_type_name op) k")
          case (Inl e)
          with Cons.prems acc False Some n Inr f show ?thesis by auto
        next
          case Inr2: (Inr u)
          with Cons.prems acc False Some n Inr
          have "add_argument_inputs E op call_args ks
                  (spec @ [AddArgumentInput k (dn_name t)], inputs @ [PDataNode t]) st1 = (res, st')"
            by auto
          from Cons.IH [OF this] f show ?thesis by simp
        qed
      qed
    qed
  qed
qed




text \<open>The steps of a successful \<open>__init__\<close>, one equation each.\<close>

lemma OperatorInstance_init_InrE:
  assumes "OperatorInstance_init E inputs op kw st = (Inr inst, st')"
  obtains inputs1 st1 inputs2 kw2 spec1 call_args spec2 spec3 inputs3 st2 where
    "promote_inputs E (if op_device op = ''gpu'' then ''gpu'' else ''cpu'') inputs
       (st\<lparr>st_op_count := Suc (st_op_count st)\<rparr>) = (Inr inputs1, st1)"
    "(inputs2, kw2) = (if conditionals_enabled E then apply_conditional_split_to_args E inputs1 kw
                       else (inputs1, kw))"
    "add_spec_args E (op_schema op) (op_spec op) (fst (separate_kwargs (is_scalar_value E) kw2)) = Inr spec1"
    "merge_call_args (op_call_args op) (snd (separate_kwargs (is_scalar_value E) kw2)) (op_call_args op)
       = Inr call_args"
    "add_inputs spec1 inputs2 = Inr spec2"
    "add_argument_inputs E op call_args (sort (dict_keys call_args)) (spec2, inputs2) st1
       = (Inr (spec3, inputs3), st2)"
    "oi_id inst = st_op_count st" "oi_relation_id inst = st_op_count st"
    "oi_inputs inst = inputs3" "oi_outputs inst = []" "oi_spec inst = spec3"
    "st' = (if IsDeprecated (op_schema op) then warn (deprecation_warning E op) st2 else st2)"
  using assms
  unfolding OperatorInstance_init_def OpCounter_def Let_def
  by (auto split: prod.splits sum.splits if_splits)

lemma OperatorInstance_init_frame:
  assumes "OperatorInstance_init E inputs op kw st = (res, st')"
  shows "st_pipeline st' = st_pipeline st \<and> st_op_count st < st_op_count st'"
proof -
  let ?st0 = "st\<lparr>st_op_count := Suc (st_op_count st)\<rparr>"
  let ?dev = "if op_device op = ''gpu'' then ''gpu'' else ''cpu''"
  obtain r1 st1 where p: "promote_inputs E ?dev inputs ?st0 = (r1, st1)"
    by (cases "promote_inputs E ?dev inputs ?st0")
  from promote_inputs_frame [OF p]
  have f1: "st_pipeline st1 = st_pipeline st" "st_op_count st < st_op_count st1" by auto
  have f2: "add_argument_inputs E op ca ks acc st1 = (r, st2) \<Longrightarrow>
     st_pipeline st2 = st_pipeline st \<and> st_op_count st < st_op_count st2" for ca ks acc r st2
    using add_argument_inputs_frame [of E op ca ks acc st1 r st2] f1 by simp
  show ?thesis
    using assms p f1 unfolding OperatorInstance_init_def OpCounter_def Let_def
    by (auto split: prod.splits sum.splits if_splits dest!: f2 simp: warn_def)
qed


lemma dict_has_map_of: "dict_has d k \<longleftrightarrow> map_of d k \<noteq> None"
  by (simp add: dict_has_def dict_keys_def map_of_eq_None_iff)


section \<open>The instances of one call\<close>

lemma OperatorInstance_Inr:
  "OperatorInstance E inputs op kw st = (Inr inst, st') \<Longrightarrow>
   constructor_clash kw = None \<and> OperatorInstance_init E inputs op kw st = (Inr inst, st')"
  by (auto simp: OperatorInstance_def split: option.splits)

lemma OperatorInstance_no_clash:
  "constructor_clash kw = None \<Longrightarrow>
   OperatorInstance E inputs op kw st = OperatorInstance_init E inputs op kw st"
  by (simp add: OperatorInstance_def)

lemma OperatorInstance_frame:
  assumes "OperatorInstance E inputs op kw st = (res, st')"
  shows "st_pipeline st' = st_pipeline st \<and> st_op_count st \<le> st_op_count st'
     \<and> (\<forall>inst. res = Inr inst \<longrightarrow> st_op_count st < st_op_count st')"
proof (cases "constructor_clash kw")
  case None
  with assms OperatorInstance_init_frame [of E inputs op kw st res st'] show ?thesis
    by (simp add: OperatorInstance_def)
next
  case (Some k)
  with assms show ?thesis by (auto simp: OperatorInstance_def)
qed

lemma generate_outputs_frame:
  assumes "generate_outputs op inst st = (res, st')"
  shows "st_op_count st' = st_op_count st
     \<and> (\<not> op_preserve op \<longrightarrow> st_pipeline st' = st_pipeline st)
     \<and> (st_pipeline st = None \<longrightarrow> st_pipeline st' = None)
     \<and> (\<forall>sinks. st_pipeline st = Some sinks \<longrightarrow> (\<exists>more. st_pipeline st' = Some (sinks @ more)))"
proof (cases res)
  case (Inl e)
  with assms generate_outputs_Inl [of op inst st e st'] show ?thesis by simp
next
  case (Inr inst')
  with assms generate_outputs_Inr [of op inst st inst' st'] show ?thesis
    by (cases "st_pipeline st") auto
qed

lemma create_instances_frame:
  "create_instances E op kw sets acc st = (res, st') \<Longrightarrow>
   st_op_count st \<le> st_op_count st'
   \<and> (\<not> op_preserve op \<longrightarrow> st_pipeline st' = st_pipeline st)
   \<and> (st_pipeline st = None \<longrightarrow> st_pipeline st' = None)
   \<and> (\<forall>sinks. st_pipeline st = Some sinks \<longrightarrow> (\<exists>more. st_pipeline st' = Some (sinks @ more)))"
proof (induction sets arbitrary: acc st)
  case Nil
  then show ?case by auto
next
  case (Cons input_set rest)
  obtain r1 st1 where i: "OperatorInstance E input_set op kw st = (r1, st1)"
    by (cases "OperatorInstance E input_set op kw st")
  from OperatorInstance_frame [OF i]
  have f1: "st_pipeline st1 = st_pipeline st \<and> st_op_count st \<le> st_op_count st1" by simp
  show ?case
  proof (cases r1)
    case (Inl e)
    with Cons.prems i f1 show ?thesis by auto
  next
    case (Inr inst)
    obtain r2 st2 where g: "generate_outputs op inst st1 = (r2, st2)"
      by (cases "generate_outputs op inst st1")
    note f2 = generate_outputs_frame [OF g]
    show ?thesis
    proof (cases r2)
      case (Inl e)
      with Cons.prems i Inr g have "st' = st2" by simp
      with f1 f2 show ?thesis by auto
    next
      case Inr2: (Inr inst')
      with Cons.prems i Inr g
      have "create_instances E op kw rest (acc @ [inst']) st2 = (res, st')" by simp
      from Cons.IH [OF this] f1 f2 show ?thesis
        by (cases "st_pipeline st") auto
    qed
  qed
qed

text \<open>
  What a successful loop appends: one instance per input set, each built from its input
  set by \<open>__init__\<close> followed by \<open>generate_outputs\<close>, with increasing ids.
\<close>

lemma create_instances_Inr:
  "create_instances E op kw sets acc st = (Inr insts, st') \<Longrightarrow>
   \<exists>new. insts = acc @ new
     \<and> list_all2 (\<lambda>input_set inst. \<exists>sa inst0 sb sc.
           OperatorInstance_init E input_set op kw sa = (Inr inst0, sb)
           \<and> generate_outputs op inst0 sb = (Inr inst, sc)
           \<and> st_op_count st \<le> st_op_count sa \<and> st_op_count sc \<le> st_op_count st') sets new
     \<and> sorted_wrt (<) (map oi_id new)"
proof (induction sets arbitrary: acc st)
  case Nil
  then show ?case by simp
next
  case (Cons input_set rest)
  from Cons.prems obtain inst0 st1 inst st2 where
    i0: "OperatorInstance E input_set op kw st = (Inr inst0, st1)" and
    g: "generate_outputs op inst0 st1 = (Inr inst, st2)" and
    r: "create_instances E op kw rest (acc @ [inst]) st2 = (Inr insts, st')"
    by (auto split: prod.splits sum.splits)
  from OperatorInstance_Inr [OF i0]
  have i: "OperatorInstance_init E input_set op kw st = (Inr inst0, st1)" by simp
  from Cons.IH [OF r] obtain new where
    n: "insts = (acc @ [inst]) @ new" and
    l: "list_all2 (\<lambda>input_set inst. \<exists>sa inst0 sb sc.
           OperatorInstance_init E input_set op kw sa = (Inr inst0, sb)
           \<and> generate_outputs op inst0 sb = (Inr inst, sc)
           \<and> st_op_count st2 \<le> st_op_count sa \<and> st_op_count sc \<le> st_op_count st') rest new" and
    s: "sorted_wrt (<) (map oi_id new)" by blast
  note f1 = OperatorInstance_init_frame [OF i]
  note f2 = generate_outputs_frame [OF g]
  note fr = create_instances_frame [OF r]
  from f1 f2 have lt: "st_op_count st < st_op_count st2" by simp
  have id0: "oi_id inst = st_op_count st"
    using generate_outputs_Inr [OF g] i by (auto elim: OperatorInstance_init_InrE)
  have later: "\<forall>x\<in>set new. oi_id inst < oi_id x"
  proof
    fix x assume "x \<in> set new"
    then obtain j where j: "j < length new" "new ! j = x" by (auto simp: in_set_conv_nth)
    from list_all2_nthD2 [OF l j(1)] j(2) obtain sa x0 sb sc where
      "OperatorInstance_init E (rest ! j) op kw sa = (Inr x0, sb)" and
      xg: "generate_outputs op x0 sb = (Inr x, sc)" and
      ge: "st_op_count st2 \<le> st_op_count sa"
      by auto
    then have "oi_id x0 = st_op_count sa" by (auto elim: OperatorInstance_init_InrE)
    with generate_outputs_Inr [OF xg] ge lt id0 show "oi_id inst < oi_id x" by auto
  qed
  have l': "list_all2 (\<lambda>input_set inst. \<exists>sa inst0 sb sc.
           OperatorInstance_init E input_set op kw sa = (Inr inst0, sb)
           \<and> generate_outputs op inst0 sb = (Inr inst, sc)
           \<and> st_op_count st \<le> st_op_count sa \<and> st_op_count sc \<le> st_op_count st') rest new"
    using l lt by (auto elim!: list_all2_mono) (meson le_trans less_imp_le)
  have first: "\<exists>sa inst0 sb sc.
           OperatorInstance_init E input_set op kw sa = (Inr inst0, sb)
           \<and> generate_outputs op inst0 sb = (Inr inst, sc)
           \<and> st_op_count st \<le> st_op_count sa \<and> st_op_count sc \<le> st_op_count st'"
    using i g fr by blast
  show ?case
    apply (rule exI [of _ "inst # new"])
    using n l' first s later by simp
qed


lemma those_map_Some:
  "\<forall>x\<in>set xs. f x = Some (g x) \<Longrightarrow> those (map f xs) = Some (map g xs)"
  by (induction xs) auto

lemma py_nth_Some: "i < length xs \<Longrightarrow> py_nth xs i = Some (xs ! i)"
  by (induction xs i rule: py_nth.induct) auto

lemma py_nth_None: "length xs \<le> i \<Longrightarrow> py_nth xs i = None"
  by (induction xs i rule: py_nth.induct) auto

text \<open>On lists of one length \<open>n\<close>, \<open>_repack_list\<close> is the transposition.\<close>

lemma repack_list_equal:
  assumes "sets \<noteq> []" "\<forall>s\<in>set sets. length s = n"
  shows "repack_list sets = Inr (map (\<lambda>i. map (\<lambda>s. s ! i) sets) [0..<n])"
proof -
  from assms obtain s0 rest where s: "sets = s0 # rest" and l0: "length s0 = n"
    by (cases sets) auto
  have col: "those (map (\<lambda>input_set. py_nth input_set i) sets) = Some (map (\<lambda>s. s ! i) sets)"
    if "i < n" for i
    using that assms(2) by (intro those_map_Some) (simp add: py_nth_Some)
  have "those (map (\<lambda>i. those (map (\<lambda>input_set. py_nth input_set i) sets)) [0..<n])
        = Some (map (\<lambda>i. map (\<lambda>s. s ! i) sets) [0..<n])"
    by (intro those_map_Some) (simp add: col)
  with s l0 show ?thesis by (simp add: repack_list_def)
qed


lemma fold_max_ge: "(m::nat) \<le> fold max ns m \<and> (\<forall>x\<in>set ns. x \<le> fold max ns m)"
proof (induction ns arbitrary: m)
  case Nil
  show ?case by simp
next
  case (Cons a ns)
  from Cons.IH [of "max a m"] show ?case by auto
qed


text \<open>
  With a list among the inputs, input set \<open>i\<close> holds element \<open>i\<close> of every list and,
  at every other position, the input itself.
\<close>

lemma build_input_sets_single:
  "\<not> detect_multiple_input_sets inputs \<Longrightarrow> build_input_sets op inputs = Inr [inputs]"
  by (simp add: build_input_sets_def)



lemma call_instances_InrE:
  assumes "call_instances E op inputs kw st = (Inr insts, st')"
  obtains inputs1 st1 input_sets raw where
    "check_schema_num_inputs op inputs = Inr ()"
    "preprocess_loop E (op_type_name op) (op_device op) (Some (op_schema op)) 0 inputs st = (Inr inputs1, st1)"
    "build_input_sets op inputs1 = Inr input_sets"
    "create_instances E op kw input_sets [] st1 = (Inr raw, st')"
    "raw \<noteq> []"
    "insts = map (\<lambda>inst. inst\<lparr>oi_relation_id := oi_id (hd raw)\<rparr>) raw"
  using assms
  unfolding call_instances_def preprocess_inputs_def tie_instances_def
  by (auto split: prod.splits sum.splits list.splits)

lemma call_instances_frame:
  assumes "call_instances E op inputs kw st = (res, st')"
  shows "st_op_count st \<le> st_op_count st'
     \<and> (\<not> op_preserve op \<longrightarrow> st_pipeline st' = st_pipeline st)
     \<and> (st_pipeline st = None \<longrightarrow> st_pipeline st' = None)
     \<and> (\<forall>sinks. st_pipeline st = Some sinks \<longrightarrow> (\<exists>more. st_pipeline st' = Some (sinks @ more)))"
proof -
  let ?P = "\<lambda>s s'. st_op_count s \<le> st_op_count s'
     \<and> (\<not> op_preserve op \<longrightarrow> st_pipeline s' = st_pipeline s)
     \<and> (st_pipeline s = None \<longrightarrow> st_pipeline s' = None)
     \<and> (\<forall>sinks. st_pipeline s = Some sinks \<longrightarrow> (\<exists>more. st_pipeline s' = Some (sinks @ more)))"
  have refl: "?P s s" for s by simp
  obtain r1 st1 where
    p: "preprocess_loop E (op_type_name op) (op_device op) (Some (op_schema op)) 0 inputs st = (r1, st1)"
    by (cases "preprocess_loop E (op_type_name op) (op_device op) (Some (op_schema op)) 0 inputs st")
  have f1: "st_op_count st \<le> st_op_count st1 \<and> st_pipeline st1 = st_pipeline st"
    using p preprocess_loop_Inl [of E _ _ _ 0 inputs st _ st1]
      preprocess_loop_Inr [of E _ _ _ 0 inputs st _ st1]
    by (cases r1) auto
  then have P1: "?P st st1" by simp
  have c: "create_instances E op kw sets [] st1 = (r, s2) \<Longrightarrow> ?P st s2" for sets r s2
    using create_instances_frame [of E op kw sets "[]" st1 r s2] f1 by simp
  show ?thesis
    using assms p P1 refl [of st]
    unfolding call_instances_def preprocess_inputs_def
    by (auto split: prod.splits sum.splits dest!: c)
qed

section \<open>Node ids and relation ids\<close>

lemma created_id_bounds:
  assumes "OperatorInstance_init E input_set op kw sa = (Inr inst0, sb)"
    and "generate_outputs op inst0 sb = (Inr inst, sc)"
  shows "oi_id inst = st_op_count sa \<and> st_op_count sa < st_op_count sc
         \<and> oi_relation_id inst = oi_id inst
         \<and> (\<forall>t\<in>set (oi_outputs inst). dn_source t = oi_id inst)
         \<and> length (oi_outputs inst) = num_output op inst0"
proof -
  from assms(1) have a: "oi_id inst0 = st_op_count sa" "oi_relation_id inst0 = st_op_count sa"
    "oi_outputs inst0 = []"
    by (auto elim: OperatorInstance_init_InrE)
  from OperatorInstance_init_frame [OF assms(1)] have b: "st_op_count sa < st_op_count sb" by simp
  from generate_outputs_Inr [OF assms(2)] a b show ?thesis by auto
qed

lemma preprocess_single:
  assumes p: "preprocess_loop E n d s 0 inputs st = (Inr inputs1, st1)"
    and nl: "\<not> list_ex (\<lambda>v. is_list v \<and> is_input v) inputs"
  shows "\<not> detect_multiple_input_sets inputs1"
proof -
  from preprocess_loop_Inr [OF p] have f:
    "length inputs1 = length inputs"
    "\<forall>j<length inputs.
        if is_input (inputs ! j) then inputs1 ! j = inputs ! j
        else (\<exists>t. inputs1 ! j = PDataNode t \<and> dn_device t = resolve_input_device s d j)"
    by (simp_all cong: if_cong)
  from detect_preprocessed [OF f(1), of "\<lambda>t j. dn_device t = resolve_input_device s d j"] f(2)
  have "detect_multiple_input_sets inputs1 \<longleftrightarrow> (\<exists>v\<in>set inputs. is_list v \<and> is_input v)"
    by blast
  with nl show ?thesis by (simp add: list_ex_iff)
qed

text \<open>
  C3. The counter hands out its current value and moves on by one, and no call moves it
  back. The instances of a successful call have strictly increasing ids, all taken
  from the counter during the call; every relation id is the id of the first instance
  of the call, so it is at most the instance's own id and equal to it exactly for the
  first instance. A call without a fan-out list creates one instance, whose relation
  id is its own id.
\<close>

theorem node_ids_and_relation:
  "fst (OpCounter st) = st_op_count st
   \<and> st_op_count (snd (OpCounter st)) = Suc (st_op_count st)
   \<and> (case call_instances E op inputs kw st of
        (Inl e, st') \<Rightarrow> st_op_count st \<le> st_op_count st'
      | (Inr insts, st') \<Rightarrow>
          insts \<noteq> []
          \<and> sorted_wrt (<) (map oi_id insts)
          \<and> (\<forall>inst\<in>set insts. st_op_count st \<le> oi_id inst \<and> oi_id inst < st_op_count st')
          \<and> (\<forall>i<length insts.
                oi_relation_id (insts ! i) = oi_id (insts ! 0)
                \<and> oi_relation_id (insts ! i) \<le> oi_id (insts ! i)
                \<and> (oi_relation_id (insts ! i) = oi_id (insts ! i) \<longleftrightarrow> i = 0))
          \<and> (\<not> list_ex (\<lambda>v. is_list v \<and> is_input v) inputs \<longrightarrow> length insts = 1))"
proof -
  obtain res st' where c: "call_instances E op inputs kw st = (res, st')"
    by (cases "call_instances E op inputs kw st")
  have main: "case call_instances E op inputs kw st of
        (Inl e, st') \<Rightarrow> st_op_count st \<le> st_op_count st'
      | (Inr insts, st') \<Rightarrow>
          insts \<noteq> []
          \<and> sorted_wrt (<) (map oi_id insts)
          \<and> (\<forall>inst\<in>set insts. st_op_count st \<le> oi_id inst \<and> oi_id inst < st_op_count st')
          \<and> (\<forall>i<length insts.
                oi_relation_id (insts ! i) = oi_id (insts ! 0)
                \<and> oi_relation_id (insts ! i) \<le> oi_id (insts ! i)
                \<and> (oi_relation_id (insts ! i) = oi_id (insts ! i) \<longleftrightarrow> i = 0))
          \<and> (\<not> list_ex (\<lambda>v. is_list v \<and> is_input v) inputs \<longrightarrow> length insts = 1)"
  proof (cases res)
    case (Inl e)
    from call_instances_frame [OF c] have "st_op_count st \<le> st_op_count st'" by simp
    then show ?thesis unfolding c Inl prod.case sum.case .
  next
    case (Inr insts)
    with c have ci: "call_instances E op inputs kw st = (Inr insts, st')" by simp
    from ci obtain inputs1 st1 input_sets raw where
      p: "preprocess_loop E (op_type_name op) (op_device op) (Some (op_schema op)) 0 inputs st
            = (Inr inputs1, st1)" and
      b: "build_input_sets op inputs1 = Inr input_sets" and
      cr: "create_instances E op kw input_sets [] st1 = (Inr raw, st')" and
      ne: "raw \<noteq> []" and
      ins: "insts = map (\<lambda>inst. inst\<lparr>oi_relation_id := oi_id (hd raw)\<rparr>) raw"
      by (rule call_instances_InrE)
    from preprocess_loop_Inr [OF p] have le1: "st_op_count st \<le> st_op_count st1" by simp
    from create_instances_Inr [OF cr] have
      l: "list_all2 (\<lambda>input_set inst. \<exists>sa inst0 sb sc.
           OperatorInstance_init E input_set op kw sa = (Inr inst0, sb)
           \<and> generate_outputs op inst0 sb = (Inr inst, sc)
           \<and> st_op_count st1 \<le> st_op_count sa \<and> st_op_count sc \<le> st_op_count st') input_sets raw" and
      s: "sorted_wrt (<) (map oi_id raw)" by auto
    have ids: "map oi_id insts = map oi_id raw" by (simp add: ins comp_def)
    have len: "length insts = length raw" by (simp add: ins)
    have 1: "insts \<noteq> []" using ne ins by simp
    have 2: "sorted_wrt (<) (map oi_id insts)" using s ids by simp
    have 3: "\<forall>inst\<in>set insts. st_op_count st \<le> oi_id inst \<and> oi_id inst < st_op_count st'"
    proof
      fix inst assume "inst \<in> set insts"
      then obtain j where j: "j < length raw" "inst = (raw ! j)\<lparr>oi_relation_id := oi_id (hd raw)\<rparr>"
        by (auto simp: ins in_set_conv_nth)
      from list_all2_nthD2 [OF l j(1)] obtain sa inst0 sb sc where
        i: "OperatorInstance_init E (input_sets ! j) op kw sa = (Inr inst0, sb)" and
        g: "generate_outputs op inst0 sb = (Inr (raw ! j), sc)" and
        lo: "st_op_count st1 \<le> st_op_count sa" and hi: "st_op_count sc \<le> st_op_count st'"
        by auto
      from created_id_bounds [OF i g] lo hi le1 j(2)
      show "st_op_count st \<le> oi_id inst \<and> oi_id inst < st_op_count st'" by simp
    qed
    have hd0: "oi_id (hd raw) = oi_id (insts ! 0)" using ne by (cases raw) (simp_all add: ins)
    have 4: "\<forall>i<length insts.
                oi_relation_id (insts ! i) = oi_id (insts ! 0)
                \<and> oi_relation_id (insts ! i) \<le> oi_id (insts ! i)
                \<and> (oi_relation_id (insts ! i) = oi_id (insts ! i) \<longleftrightarrow> i = 0)"
    proof (intro allI impI)
      fix i assume i: "i < length insts"
      then have "insts ! i = (raw ! i)\<lparr>oi_relation_id := oi_id (hd raw)\<rparr>"
        by (simp add: ins)
      then have "oi_relation_id (insts ! i) = oi_id (hd raw)" by simp
      with hd0 have r: "oi_relation_id (insts ! i) = oi_id (insts ! 0)" by simp
      have lt: "0 < i \<Longrightarrow> oi_id (insts ! 0) < oi_id (insts ! i)"
        using sorted_wrt_nth_less [OF 2, of 0 i] i 1 by (simp add: nth_map)
      from r lt show "oi_relation_id (insts ! i) = oi_id (insts ! 0)
                \<and> oi_relation_id (insts ! i) \<le> oi_id (insts ! i)
                \<and> (oi_relation_id (insts ! i) = oi_id (insts ! i) \<longleftrightarrow> i = 0)"
        by (cases "i = 0") auto
    qed
    have 5: "\<not> list_ex (\<lambda>v. is_list v \<and> is_input v) inputs \<longrightarrow> length insts = 1"
    proof
      assume "\<not> list_ex (\<lambda>v. is_list v \<and> is_input v) inputs"
      from preprocess_single [OF p this] b have "input_sets = [inputs1]"
        by (simp add: build_input_sets_def)
      with list_all2_lengthD [OF l] len show "length insts = 1" by simp
    qed
    have "insts \<noteq> []
          \<and> sorted_wrt (<) (map oi_id insts)
          \<and> (\<forall>inst\<in>set insts. st_op_count st \<le> oi_id inst \<and> oi_id inst < st_op_count st')
          \<and> (\<forall>i<length insts.
                oi_relation_id (insts ! i) = oi_id (insts ! 0)
                \<and> oi_relation_id (insts ! i) \<le> oi_id (insts ! i)
                \<and> (oi_relation_id (insts ! i) = oi_id (insts ! i) \<longleftrightarrow> i = 0))
          \<and> (\<not> list_ex (\<lambda>v. is_list v \<and> is_input v) inputs \<longrightarrow> length insts = 1)"
      by (intro conjI 1 2 3 4 5)
    then show ?thesis unfolding ci prod.case sum.case .
  qed
  have oc: "fst (OpCounter st) = st_op_count st"
    "st_op_count (snd (OpCounter st)) = Suc (st_op_count st)"
    by (simp_all add: OpCounter_def)
  show ?thesis by (intro conjI oc main)
qed


theorem node_ids_and_relation_witness:
  "(case call_instances ex_env ex_op ex_fanout ex_call_kwargs ex_state of
      (Inl e, st') \<Rightarrow> False
    | (Inr insts, st') \<Rightarrow>
        map oi_id insts = [7, 8, 9] \<and> map oi_relation_id insts = [7, 7, 7]
        \<and> st_op_count ex_state = 7 \<and> st_op_count st' = 10)
   \<and> (case call_instances ex_env ex_op [PDataNode (ex_handle 1)] [] ex_state of
      (Inl e, st') \<Rightarrow> False
    | (Inr insts, st') \<Rightarrow> map oi_id insts = [7] \<and> map oi_relation_id insts = [7])"
  using node_ids_and_relation [where E = ex_env and op = ex_op and inputs = ex_fanout
          and kw = ex_call_kwargs and st = ex_state]
    node_ids_and_relation [where E = ex_env and op = ex_op and inputs = "[PDataNode (ex_handle 1)]"
          and kw = "[]" and st = ex_state]
  by (simp add: eval_defs ex_op_def ex_schema_def ex_env_def ex_state_def ex_handle_def
        ex_fanout_def ex_call_kwargs_def ex_scal_def)

section \<open>Repacking of the outputs\<close>


lemma repack_output_sets_equal:
  assumes m: "1 < length outputs" and e: "\<forall>s\<in>set outputs. length s = n"
  shows "repack_output_sets outputs =
     Inr (if n = 1 then PList (map (\<lambda>s. PDataNode (s ! 0)) outputs)
          else PList (map (\<lambda>k. PList (map (\<lambda>s. PDataNode (s ! k)) outputs)) [0..<n]))"
proof -
  from m have ne: "outputs \<noteq> []" by auto
  then have h: "length (hd outputs) = n" using e by (cases outputs) auto
  show ?thesis
  proof (cases "n = 1")
    case True
    have "those (map (\<lambda>elem. py_nth elem 0) outputs) = Some (map (\<lambda>s. s ! 0) outputs)"
      using e True by (intro those_map_Some) (simp add: py_nth_Some)
    with m h True show ?thesis by (simp add: repack_output_sets_def comp_def)
  next
    case False
    from repack_list_equal [OF ne e] m h False show ?thesis
      by (simp add: repack_output_sets_def comp_def)
  qed
qed




section \<open>Failing calls and the sink list\<close>







section \<open>Operators without outputs\<close>

lemma output_loop_spec:
  "output_loop op dev n idxs inst st = (Inr inst', st') \<Longrightarrow>
   \<exists>added. oi_spec inst' = oi_spec inst @ added \<and> length added = length idxs"
proof (induction idxs arbitrary: inst st)
  case Nil
  then show ?case by simp
next
  case (Cons i idxs)
  from Cons.prems obtain name where name: "oi_name inst = PStr name"
    by (cases "oi_name inst") auto
  define t_name where "t_name = (if n > 1 then name @ ''['' @ str_nat i @ '']'' else name)"
  define t where "t = \<lparr>dn_addr = st_next_addr st, dn_name = t_name, dn_device = dev, dn_source = oi_id inst\<rparr>"
  define st1 where "st1 = st\<lparr>st_next_addr := Suc (st_next_addr st)\<rparr>"
  define inst2 where
    "inst2 = inst\<lparr>oi_spec := oi_spec inst @ [AddOutput t_name dev], oi_outputs := oi_outputs inst @ [t]\<rparr>"
  have dn: "DataNode t_name dev (oi_id inst) st = (t, st1)"
    by (simp add: DataNode_def t_def st1_def)
  have s2: "oi_spec inst2 = oi_spec inst @ [AddOutput t_name dev]" by (simp add: inst2_def)
  have "\<exists>st2. output_loop op dev n idxs inst2 st2 = (Inr inst', st')"
  proof (cases "op_preserve op")
    case True
    obtain ra st2 where as: "add_sink t st1 = (ra, st2)" by (cases "add_sink t st1")
    show ?thesis
    proof (cases ra)
      case (Inl e)
      with Cons.prems name dn as True show ?thesis by (simp add: t_name_def t_def inst2_def)
    next
      case (Inr u)
      with name dn as True
      have "output_loop op dev n (i # idxs) inst st = output_loop op dev n idxs inst2 st2"
        by (simp add: t_name_def t_def inst2_def)
      with Cons.prems show ?thesis by auto
    qed
  next
    case False
    with name dn
    have "output_loop op dev n (i # idxs) inst st = output_loop op dev n idxs inst2 st1"
      by (simp add: t_name_def t_def inst2_def)
    with Cons.prems show ?thesis by auto
  qed
  then obtain st2 where "output_loop op dev n idxs inst2 st2 = (Inr inst', st')" by blast
  from Cons.IH [OF this] obtain added where
    "oi_spec inst' = oi_spec inst2 @ added" "length added = length idxs" by blast
  with s2 have "oi_spec inst' = oi_spec inst @ (AddOutput t_name dev # added)
                \<and> length (AddOutput t_name dev # added) = length (i # idxs)" by simp
  then show ?case by blast
qed

text \<open>
  The spec of a node before \<open>generate_outputs\<close> added the outputs to it is the spec the
  output count was computed from.
\<close>

lemma generate_outputs_spec:
  assumes g: "generate_outputs op inst st = (Inr inst', st')" and e: "oi_outputs inst = []"
  shows "spec_before_outputs inst' = oi_spec inst"
proof -
  from g have np: "\<not> (st_pipeline st = None \<and> op_preserve op)"
    by (auto simp: generate_outputs_def)
  from generate_outputs_Inr [OF g] e have len: "length (oi_outputs inst') = num_output op inst"
    by auto
  show ?thesis
  proof (cases "num_output op inst = 0 \<and> op_preserve op")
    case True
    with np obtain sinks where s: "st_pipeline st = Some sinks" by auto
    from generate_outputs_sink [OF _ s, where inst = inst] True g have "inst' = inst" by simp
    with e show ?thesis by (simp add: spec_before_outputs_def)
  next
    case False
    from generate_outputs_loop [OF np False] g
    have "output_loop op (output_device op) (num_output op inst) [0..<num_output op inst] inst st
            = (Inr inst', st')" by simp
    from output_loop_spec [OF this] obtain added where
      "oi_spec inst' = oi_spec inst @ added" "length added = num_output op inst" by auto
    with len show ?thesis by (simp add: spec_before_outputs_def)
  qed
qed

lemma created_outputs:
  assumes i: "OperatorInstance_init E input_set op kw sa = (Inr inst0, sb)"
    and g: "generate_outputs op inst0 sb = (Inr inst, sc)"
  shows "length (oi_outputs inst) = computed_outputs op inst"
proof -
  from i have e: "oi_outputs inst0 = []" by (auto elim: OperatorInstance_init_InrE)
  from created_id_bounds [OF i g] have "length (oi_outputs inst) = num_output op inst0" by simp
  with generate_outputs_spec [OF g e] show ?thesis
    by (simp add: computed_outputs_def num_output_def)
qed

text \<open>
  What the instances of a preserving operator register, in order: a node with outputs
  its outputs, a node without outputs its one synthetic sink.
\<close>

lemma create_instances_sinks:
  assumes pr: "op_preserve op"
  shows "create_instances E op kw sets acc st = (Inr insts, st') \<Longrightarrow>
   \<exists>new chunks. insts = acc @ new
     \<and> st_pipeline st' = map_option (\<lambda>s. s @ concat chunks) (st_pipeline st)
     \<and> list_all2 (\<lambda>inst chunk.
          if oi_outputs inst = []
          then (\<exists>t. chunk = [t] \<and> dn_name t = sink_name op inst \<and> dn_source t = oi_id inst
                    \<and> dn_device t = output_device op)
          else chunk = oi_outputs inst) new chunks"
proof (induction sets arbitrary: acc st)
  case Nil
  then have "insts = acc @ [] \<and> st_pipeline st' = map_option (\<lambda>s. s @ concat []) (st_pipeline st)"
    by (cases "st_pipeline st") auto
  then show ?case by (intro exI [of _ "[]"]) simp
next
  case (Cons input_set rest)
  let ?P = "\<lambda>inst chunk.
          if oi_outputs inst = []
          then (\<exists>t. chunk = [t] \<and> dn_name t = sink_name op inst \<and> dn_source t = oi_id inst
                    \<and> dn_device t = output_device op)
          else chunk = oi_outputs inst"
  from Cons.prems obtain inst0 st1 inst st2 where
    i0: "OperatorInstance E input_set op kw st = (Inr inst0, st1)" and
    g: "generate_outputs op inst0 st1 = (Inr inst, st2)" and
    r: "create_instances E op kw rest (acc @ [inst]) st2 = (Inr insts, st')"
    by (auto split: prod.splits sum.splits)
  from OperatorInstance_Inr [OF i0]
  have i: "OperatorInstance_init E input_set op kw st = (Inr inst0, st1)" by simp
  from i have e: "oi_outputs inst0 = []" by (auto elim: OperatorInstance_init_InrE)
  from OperatorInstance_frame [OF i0] have p1: "st_pipeline st1 = st_pipeline st" by simp
  from generate_outputs_Inr [OF g] e pr obtain new0 where
    o: "oi_outputs inst = new0" and l0: "length new0 = num_output op inst0" and
    id: "oi_id inst = oi_id inst0" and
    p2: "st_pipeline st2 =
           map_option (\<lambda>sinks. sinks @ (if num_output op inst0 = 0
                                          then [sink_handle op inst0 st1] else new0))
             (st_pipeline st1)"
    by auto
  define c0 where "c0 = (if num_output op inst0 = 0 then [sink_handle op inst0 st1] else new0)"
  have P0: "?P inst c0"
  proof (cases "num_output op inst0 = 0")
    case True
    with l0 o have "oi_outputs inst = []" by simp
    moreover from True have "c0 = [sink_handle op inst0 st1]" by (simp add: c0_def)
    ultimately show ?thesis using id by (simp add: sink_handle_def sink_name_def)
  next
    case False
    with l0 o have "oi_outputs inst \<noteq> []" by auto
    with False o show ?thesis by (simp add: c0_def)
  qed
  from Cons.IH [OF r] obtain new chunks where
    n: "insts = (acc @ [inst]) @ new" and
    p3: "st_pipeline st' = map_option (\<lambda>s. s @ concat chunks) (st_pipeline st2)" and
    l: "list_all2 ?P new chunks"
    by blast
  have pp: "st_pipeline st' = map_option (\<lambda>s. s @ concat (c0 # chunks)) (st_pipeline st)"
    unfolding p3 p2 p1 c0_def [symmetric] by (cases "st_pipeline st") simp_all
  from P0 l have l': "list_all2 ?P (inst # new) (c0 # chunks)" by simp
  from n have n': "insts = acc @ (inst # new)" by simp
  from n' pp l' show ?case by blast
qed

lemma singleton_chunks:
  "list_all2 (\<lambda>x c. \<exists>t. c = [t] \<and> Q x t) xs cs \<Longrightarrow> list_all2 Q xs (concat cs)"
  by (induction xs cs rule: list_all2_induct) auto

text \<open>A preserving operator called without a current pipeline.\<close>

lemma preprocess_inputs_frame:
  assumes "preprocess_inputs E inputs n d s st = (Inr inputs1, st1)"
  shows "st_pipeline st1 = st_pipeline st"
  using preprocess_loop_Inr [of E n d s 0 inputs st inputs1 st1] assms
  by (simp add: preprocess_inputs_def)

lemma call_no_pipeline:
  assumes pr: "op_preserve op" and np: "st_pipeline st = None"
    and c: "check_schema_num_inputs op inputs = Inr ()"
    and p: "preprocess_inputs E inputs (op_type_name op) (op_device op) (Some (op_schema op)) st
              = (Inr inputs1, st1)"
    and b: "build_input_sets op inputs1 = Inr (input_set # rest)"
    and i: "OperatorInstance E input_set op kw st1 = (Inr inst, st2)"
  shows "call_instances E op inputs kw st
           = (Inl (GraphRequired ''Operators with side-effects ''), st2)"
proof -
  from preprocess_inputs_frame [OF p] OperatorInstance_frame [OF i] np
  have "st_pipeline st2 = None" by simp
  from generate_outputs_no_pipeline [OF pr this]
  have g: "generate_outputs op inst st2 = (Inl (GraphRequired ''Operators with side-effects ''), st2)" .
  show ?thesis by (simp add: call_instances_def c p b i g)
qed

lemma call_no_pipeline_fails:
  assumes pr: "op_preserve op" and np: "st_pipeline st = None"
  shows "\<exists>e st'. call_instances E op inputs kw st = (Inl e, st')"
proof (cases "call_instances E op inputs kw st")
  case (Pair res st')
  show ?thesis
  proof (cases res)
    case (Inl e)
    with Pair show ?thesis by simp
  next
    case (Inr insts)
    with Pair have ci: "call_instances E op inputs kw st = (Inr insts, st')" by simp
    from ci obtain inputs1 st1 input_sets raw where
      c: "check_schema_num_inputs op inputs = Inr ()" and
      p: "preprocess_loop E (op_type_name op) (op_device op) (Some (op_schema op)) 0 inputs st
            = (Inr inputs1, st1)" and
      b: "build_input_sets op inputs1 = Inr input_sets" and
      cr: "create_instances E op kw input_sets [] st1 = (Inr raw, st')" and
      ne: "raw \<noteq> []"
      by (rule call_instances_InrE)
    from create_instances_Inr [OF cr] have "length input_sets = length raw"
      by (auto dest: list_all2_lengthD)
    with ne obtain input_set rest where s: "input_sets = input_set # rest"
      by (cases input_sets) auto
    from cr s obtain inst st2 where i: "OperatorInstance E input_set op kw st1 = (Inr inst, st2)"
      by (auto split: prod.splits sum.splits)
    from p have p': "preprocess_inputs E inputs (op_type_name op) (op_device op) (Some (op_schema op)) st
              = (Inr inputs1, st1)" by (simp add: preprocess_inputs_def)
    from call_no_pipeline [OF pr np c p' b [unfolded s] i] ci show ?thesis by simp
  qed
qed

text \<open>The repacked outputs of instances that have none.\<close>

lemma call_result_empty:
  assumes "insts \<noteq> []" "\<forall>inst\<in>set insts. oi_outputs inst = []"
  shows "call_result E insts =
     (if conditionals_enabled E \<and> length insts \<noteq> 1
        then Inl (ValueError (''Multiple input sets are not supported with conditional''
                   @ '' execution (when `enable_conditionals=True`)''))
      else Inr (PList []))"
proof (cases "length insts = 1")
  case True
  then obtain inst where "insts = [inst]" by (cases insts) auto
  with assms show ?thesis by (simp add: call_result_def unwrapped_outputs_def)
next
  case False
  with assms(1) have m: "1 < length (map oi_outputs insts)" by (cases insts) auto
  from assms(2) have e: "\<forall>s\<in>set (map oi_outputs insts). length s = 0" by simp
  from repack_output_sets_equal [OF m e]
  have "repack_output_sets (map oi_outputs insts) = Inr (PList [])" by simp
  with False show ?thesis by (simp add: call_result_def)
qed

text \<open>
  C6 (amended). Every node of a successful call has as many outputs as the schema
  computes (declared plus additional) for its spec, so it has none exactly when the
  schema computes zero, whether the operator preserves or not. When all the nodes of a
  call have no outputs: a preserving operator has registered exactly one sink handle
  per node, in creation order, named from the operator type and the node id, produced
  by the node and on the output device of the operator, and an operator that does not
  preserve has registered nothing; the call returns the empty list (with conditional
  execution on and more than one input set it raises instead). Calling a preserving
  operator without a current pipeline never succeeds: the call raises the
  pipeline-required error as soon as its first instance is built, that is, when the
  check of the number of inputs, the preprocessing, the building of the input sets and
  the construction of the first instance succeed.
\<close>

theorem zero_output_operator:
  "(\<forall>insts st'. call_instances E op inputs kw st = (Inr insts, st') \<longrightarrow>
      (\<forall>inst\<in>set insts. length (oi_outputs inst) = computed_outputs op inst)
      \<and> ((\<forall>inst\<in>set insts. oi_outputs inst = []) \<longrightarrow>
           (if op_preserve op
            then (\<exists>sinks new. st_pipeline st = Some sinks \<and> st_pipeline st' = Some (sinks @ new)
                    \<and> list_all2 (\<lambda>inst t.
                          dn_name t = op_type_name op @ ''_id_'' @ str_nat (oi_id inst) @ ''_sink''
                          \<and> dn_source t = oi_id inst
                          \<and> dn_device t = (if op_device op = ''gpu'' \<or> op_device op = ''mixed''
                                           then ''gpu'' else ''cpu'')) insts new)
            else st_pipeline st' = st_pipeline st)
           \<and> Operator_call E op inputs kw st =
               (if conditionals_enabled E \<and> length insts \<noteq> 1
                  then Inl (ValueError (''Multiple input sets are not supported with conditional''
                             @ '' execution (when `enable_conditionals=True`)''))
                else Inr (PList []), st')))
   \<and> (op_preserve op \<and> st_pipeline st = None \<longrightarrow>
        (\<exists>e st'. Operator_call E op inputs kw st = (Inl e, st'))
        \<and> (\<forall>inputs1 st1 input_set rest inst st2.
              check_schema_num_inputs op inputs = Inr ()
              \<and> preprocess_inputs E inputs (op_type_name op) (op_device op) (Some (op_schema op)) st
                  = (Inr inputs1, st1)
              \<and> build_input_sets op inputs1 = Inr (input_set # rest)
              \<and> OperatorInstance E input_set op kw st1 = (Inr inst, st2)
              \<longrightarrow> Operator_call E op inputs kw st
                    = (Inl (GraphRequired ''Operators with side-effects ''), st2)))"
proof -
  have A: "\<forall>insts st'. call_instances E op inputs kw st = (Inr insts, st') \<longrightarrow>
      (\<forall>inst\<in>set insts. length (oi_outputs inst) = computed_outputs op inst)
      \<and> ((\<forall>inst\<in>set insts. oi_outputs inst = []) \<longrightarrow>
           (if op_preserve op
            then (\<exists>sinks new. st_pipeline st = Some sinks \<and> st_pipeline st' = Some (sinks @ new)
                    \<and> list_all2 (\<lambda>inst t.
                          dn_name t = op_type_name op @ ''_id_'' @ str_nat (oi_id inst) @ ''_sink''
                          \<and> dn_source t = oi_id inst
                          \<and> dn_device t = (if op_device op = ''gpu'' \<or> op_device op = ''mixed''
                                           then ''gpu'' else ''cpu'')) insts new)
            else st_pipeline st' = st_pipeline st)
           \<and> Operator_call E op inputs kw st =
               (if conditionals_enabled E \<and> length insts \<noteq> 1
                  then Inl (ValueError (''Multiple input sets are not supported with conditional''
                             @ '' execution (when `enable_conditionals=True`)''))
                else Inr (PList []), st'))"
  proof (intro allI impI)
    fix insts st'
    assume ci: "call_instances E op inputs kw st = (Inr insts, st')"
    from ci obtain inputs1 st1 input_sets raw where
      p: "preprocess_loop E (op_type_name op) (op_device op) (Some (op_schema op)) 0 inputs st
            = (Inr inputs1, st1)" and
      cr: "create_instances E op kw input_sets [] st1 = (Inr raw, st')" and
      ne: "raw \<noteq> []" and
      ins: "insts = map (\<lambda>inst. inst\<lparr>oi_relation_id := oi_id (hd raw)\<rparr>) raw"
      by (rule call_instances_InrE)
    from preprocess_loop_Inr [OF p] have pp: "st_pipeline st1 = st_pipeline st" by simp
    from create_instances_Inr [OF cr] have
      l: "list_all2 (\<lambda>input_set inst. \<exists>sa inst0 sb sc.
           OperatorInstance_init E input_set op kw sa = (Inr inst0, sb)
           \<and> generate_outputs op inst0 sb = (Inr inst, sc)
           \<and> st_op_count st1 \<le> st_op_count sa \<and> st_op_count sc \<le> st_op_count st') input_sets raw"
      by auto
    have 1: "\<forall>inst\<in>set insts. length (oi_outputs inst) = computed_outputs op inst"
    proof
      fix inst assume "inst \<in> set insts"
      then obtain j where j: "j < length raw" "inst = (raw ! j)\<lparr>oi_relation_id := oi_id (hd raw)\<rparr>"
        by (auto simp: ins in_set_conv_nth)
      from list_all2_nthD2 [OF l j(1)] obtain sa inst0 sb sc where
        i: "OperatorInstance_init E (input_sets ! j) op kw sa = (Inr inst0, sb)" and
        g: "generate_outputs op inst0 sb = (Inr (raw ! j), sc)"
        by auto
      from created_outputs [OF i g] j(2)
      show "length (oi_outputs inst) = computed_outputs op inst"
        by (simp add: computed_outputs_def spec_before_outputs_def)
    qed
    have 2: "(\<forall>inst\<in>set insts. oi_outputs inst = []) \<longrightarrow>
           (if op_preserve op
            then (\<exists>sinks new. st_pipeline st = Some sinks \<and> st_pipeline st' = Some (sinks @ new)
                    \<and> list_all2 (\<lambda>inst t.
                          dn_name t = op_type_name op @ ''_id_'' @ str_nat (oi_id inst) @ ''_sink''
                          \<and> dn_source t = oi_id inst
                          \<and> dn_device t = (if op_device op = ''gpu'' \<or> op_device op = ''mixed''
                                           then ''gpu'' else ''cpu'')) insts new)
            else st_pipeline st' = st_pipeline st)
           \<and> Operator_call E op inputs kw st =
               (if conditionals_enabled E \<and> length insts \<noteq> 1
                  then Inl (ValueError (''Multiple input sets are not supported with conditional''
                             @ '' execution (when `enable_conditionals=True`)''))
                else Inr (PList []), st')"
    proof
      assume z: "\<forall>inst\<in>set insts. oi_outputs inst = []"
      let ?Q = "\<lambda>inst t.
                  dn_name t = op_type_name op @ ''_id_'' @ str_nat (oi_id inst) @ ''_sink''
                  \<and> dn_source t = oi_id inst
                  \<and> dn_device t = (if op_device op = ''gpu'' \<or> op_device op = ''mixed''
                                   then ''gpu'' else ''cpu'')"
      from z have zr: "\<forall>inst\<in>set raw. oi_outputs inst = []" by (simp add: ins)
      have sinks: "if op_preserve op
            then (\<exists>sinks new. st_pipeline st = Some sinks \<and> st_pipeline st' = Some (sinks @ new)
                    \<and> list_all2 ?Q insts new)
            else st_pipeline st' = st_pipeline st"
      proof (cases "op_preserve op")
        case False
        with call_instances_frame [OF ci] show ?thesis by simp
      next
        case True
        from call_no_pipeline_fails [OF True, of st E inputs kw] ci
        obtain sinks where s: "st_pipeline st = Some sinks" by (cases "st_pipeline st") auto
        from create_instances_sinks [OF True cr] obtain chunks where
          p3: "st_pipeline st' = map_option (\<lambda>s. s @ concat chunks) (st_pipeline st1)" and
          lc: "list_all2 (\<lambda>inst chunk.
                 if oi_outputs inst = []
                 then (\<exists>t. chunk = [t] \<and> dn_name t = sink_name op inst \<and> dn_source t = oi_id inst
                           \<and> dn_device t = output_device op)
                 else chunk = oi_outputs inst) raw chunks"
          by auto
        have "list_all2 (\<lambda>inst chunk. \<exists>t. chunk = [t] \<and> ?Q inst t) raw chunks"
          unfolding list_all2_conv_all_nth
        proof (intro conjI allI impI)
          show "length raw = length chunks" using lc by (rule list_all2_lengthD)
        next
          fix i assume i: "i < length raw"
          with zr have "oi_outputs (raw ! i) = []" by simp
          with list_all2_nthD [OF lc i]
          have "\<exists>t. chunks ! i = [t] \<and> dn_name t = sink_name op (raw ! i)
                    \<and> dn_source t = oi_id (raw ! i) \<and> dn_device t = output_device op"
            by simp
          then show "\<exists>t. chunks ! i = [t] \<and> ?Q (raw ! i) t"
            by (simp add: sink_name_def output_device_def)
        qed
        from singleton_chunks [OF this] have "list_all2 ?Q raw (concat chunks)" .
        then have "list_all2 ?Q insts (concat chunks)"
          by (simp add: ins list_all2_map1)
        with p3 pp s True show ?thesis by auto
      qed
      from ne have ni: "insts \<noteq> []" by (simp add: ins)
      have res: "Operator_call E op inputs kw st =
               (if conditionals_enabled E \<and> length insts \<noteq> 1
                  then Inl (ValueError (''Multiple input sets are not supported with conditional''
                             @ '' execution (when `enable_conditionals=True`)''))
                else Inr (PList []), st')"
        unfolding Operator_call_def ci prod.case sum.case call_result_empty [OF ni z] ..
      from sinks res show "(if op_preserve op
            then (\<exists>sinks new. st_pipeline st = Some sinks \<and> st_pipeline st' = Some (sinks @ new)
                    \<and> list_all2 ?Q insts new)
            else st_pipeline st' = st_pipeline st)
           \<and> Operator_call E op inputs kw st =
               (if conditionals_enabled E \<and> length insts \<noteq> 1
                  then Inl (ValueError (''Multiple input sets are not supported with conditional''
                             @ '' execution (when `enable_conditionals=True`)''))
                else Inr (PList []), st')"
        by (rule conjI)
    qed
    from 1 2 show "(\<forall>inst\<in>set insts. length (oi_outputs inst) = computed_outputs op inst)
      \<and> ((\<forall>inst\<in>set insts. oi_outputs inst = []) \<longrightarrow>
           (if op_preserve op
            then (\<exists>sinks new. st_pipeline st = Some sinks \<and> st_pipeline st' = Some (sinks @ new)
                    \<and> list_all2 (\<lambda>inst t.
                          dn_name t = op_type_name op @ ''_id_'' @ str_nat (oi_id inst) @ ''_sink''
                          \<and> dn_source t = oi_id inst
                          \<and> dn_device t = (if op_device op = ''gpu'' \<or> op_device op = ''mixed''
                                           then ''gpu'' else ''cpu'')) insts new)
            else st_pipeline st' = st_pipeline st)
           \<and> Operator_call E op inputs kw st =
               (if conditionals_enabled E \<and> length insts \<noteq> 1
                  then Inl (ValueError (''Multiple input sets are not supported with conditional''
                             @ '' execution (when `enable_conditionals=True`)''))
                else Inr (PList []), st'))"
      by (rule conjI)
  qed
  have B: "op_preserve op \<and> st_pipeline st = None \<longrightarrow>
        (\<exists>e st'. Operator_call E op inputs kw st = (Inl e, st'))
        \<and> (\<forall>inputs1 st1 input_set rest inst st2.
              check_schema_num_inputs op inputs = Inr ()
              \<and> preprocess_inputs E inputs (op_type_name op) (op_device op) (Some (op_schema op)) st
                  = (Inr inputs1, st1)
              \<and> build_input_sets op inputs1 = Inr (input_set # rest)
              \<and> OperatorInstance E input_set op kw st1 = (Inr inst, st2)
              \<longrightarrow> Operator_call E op inputs kw st
                    = (Inl (GraphRequired ''Operators with side-effects ''), st2))"
  proof
    assume h: "op_preserve op \<and> st_pipeline st = None"
    then have pr: "op_preserve op" and np: "st_pipeline st = None" by simp_all
    from call_no_pipeline_fails [OF pr np, of E inputs kw]
    have f: "\<exists>e st'. Operator_call E op inputs kw st = (Inl e, st')"
      by (auto simp: Operator_call_def)
    have x: "\<forall>inputs1 st1 input_set rest inst st2.
              check_schema_num_inputs op inputs = Inr ()
              \<and> preprocess_inputs E inputs (op_type_name op) (op_device op) (Some (op_schema op)) st
                  = (Inr inputs1, st1)
              \<and> build_input_sets op inputs1 = Inr (input_set # rest)
              \<and> OperatorInstance E input_set op kw st1 = (Inr inst, st2)
              \<longrightarrow> Operator_call E op inputs kw st
                    = (Inl (GraphRequired ''Operators with side-effects ''), st2)"
    proof (intro allI impI)
      fix inputs1 st1 input_set rest inst st2
      assume s: "check_schema_num_inputs op inputs = Inr ()
              \<and> preprocess_inputs E inputs (op_type_name op) (op_device op) (Some (op_schema op)) st
                  = (Inr inputs1, st1)
              \<and> build_input_sets op inputs1 = Inr (input_set # rest)
              \<and> OperatorInstance E input_set op kw st1 = (Inr inst, st2)"
      then have c: "check_schema_num_inputs op inputs = Inr ()"
        and p: "preprocess_inputs E inputs (op_type_name op) (op_device op) (Some (op_schema op)) st
                  = (Inr inputs1, st1)"
        and b: "build_input_sets op inputs1 = Inr (input_set # rest)"
        and i: "OperatorInstance E input_set op kw st1 = (Inr inst, st2)" by simp_all
      from call_no_pipeline [OF pr np c p b i]
      show "Operator_call E op inputs kw st
                    = (Inl (GraphRequired ''Operators with side-effects ''), st2)"
        by (simp add: Operator_call_def)
    qed
    from f x show "(\<exists>e st'. Operator_call E op inputs kw st = (Inl e, st'))
        \<and> (\<forall>inputs1 st1 input_set rest inst st2.
              check_schema_num_inputs op inputs = Inr ()
              \<and> preprocess_inputs E inputs (op_type_name op) (op_device op) (Some (op_schema op)) st
                  = (Inr inputs1, st1)
              \<and> build_input_sets op inputs1 = Inr (input_set # rest)
              \<and> OperatorInstance E input_set op kw st1 = (Inr inst, st2)
              \<longrightarrow> Operator_call E op inputs kw st
                    = (Inl (GraphRequired ''Operators with side-effects ''), st2))"
      by (rule conjI)
  qed
  from A B show ?thesis by (rule conjI)
qed

theorem zero_output_operator_witness:
  "Operator_call ex_env (ex_sink_op True) [PDataNode (ex_handle 1)] [] (ex_state\<lparr>st_pipeline := None\<rparr>) =
     (Inl (GraphRequired ''Operators with side-effects ''),
      ex_state\<lparr>st_op_count := 8, st_pipeline := None\<rparr>)
   \<and> Operator_call ex_env (ex_sink_op True) [PDataNode (ex_handle 1)] [] ex_state =
       (Inr (PList []),
        ex_state\<lparr>st_op_count := 8, st_next_addr := 21,
                  st_pipeline := Some [\<lparr>dn_addr = 20, dn_name = ''Dump_id_7_sink'',
                                        dn_device = ''cpu'', dn_source = 7\<rparr>]\<rparr>)
   \<and> Operator_call ex_env (ex_sink_op True) ex_two_sets [] ex_state =
       (Inr (PList []),
        ex_state\<lparr>st_op_count := 9, st_next_addr := 22,
                  st_pipeline := Some [\<lparr>dn_addr = 20, dn_name = ''Dump_id_7_sink'',
                                        dn_device = ''cpu'', dn_source = 7\<rparr>,
                                       \<lparr>dn_addr = 21, dn_name = ''Dump_id_8_sink'',
                                        dn_device = ''cpu'', dn_source = 8\<rparr>]\<rparr>)
   \<and> (case call_instances ex_env (ex_sink_op True) ex_two_sets [] ex_state of
        (Inl e, s) \<Rightarrow> False
      | (Inr insts, s) \<Rightarrow>
          map oi_id insts = [7, 8] \<and> map oi_outputs insts = [[], []]
          \<and> map (computed_outputs (ex_sink_op True)) insts = [0, 0])
   \<and> st_pipeline ex_state = Some []"
proof -
  let ?op = "ex_sink_op True"
  let ?st0 = "ex_state\<lparr>st_pipeline := None\<rparr>"
  let ?h = "PDataNode (ex_handle 1)"
  have pr: "op_preserve ?op" by (simp add: ex_sink_op_def)
  have np: "st_pipeline ?st0 = None" by simp
  have c: "check_schema_num_inputs ?op [?h] = Inr ()"
    by (simp add: check_schema_num_inputs_def ex_sink_op_def ex_schema_def)
  have p: "preprocess_inputs ex_env [?h] (op_type_name ?op) (op_device ?op) (Some (op_schema ?op)) ?st0
             = (Inr [?h], ?st0)"
    by (simp add: preprocess_inputs_def)
  have b: "build_input_sets ?op [?h] = Inr ([?h] # [])"
    by (simp add: build_input_sets_def detect_multiple_input_sets_def)
  have "\<exists>inst. OperatorInstance ex_env [?h] ?op [] ?st0
                  = (Inr inst, ex_state\<lparr>st_op_count := 8, st_pipeline := None\<rparr>)"
    by (simp add: eval_defs ex_sink_op_def ex_schema_def ex_env_def ex_state_def ex_handle_def
          ex_scal_def)
  then obtain inst where
    i: "OperatorInstance ex_env [?h] ?op [] ?st0
          = (Inr inst, ex_state\<lparr>st_op_count := 8, st_pipeline := None\<rparr>)" by blast
  note B = zero_output_operator [where E = ex_env and op = ?op and inputs = "[?h]" and kw = "[]"
             and st = ?st0, THEN conjunct2, THEN mp, OF conjI [OF pr np], THEN conjunct2,
             THEN spec, THEN spec, THEN spec, THEN spec, THEN spec, THEN spec, THEN mp]
  from B [OF conjI [OF c conjI [OF p conjI [OF b i]]]]
  have 1: "Operator_call ex_env ?op [?h] [] ?st0 =
     (Inl (GraphRequired ''Operators with side-effects ''),
      ex_state\<lparr>st_op_count := 8, st_pipeline := None\<rparr>)" .
  have 2: "Operator_call ex_env ?op [?h] [] ex_state =
       (Inr (PList []),
        ex_state\<lparr>st_op_count := 8, st_next_addr := 21,
                  st_pipeline := Some [\<lparr>dn_addr = 20, dn_name = ''Dump_id_7_sink'',
                                        dn_device = ''cpu'', dn_source = 7\<rparr>]\<rparr>)"
    by (simp add: eval_defs ex_sink_op_def ex_schema_def ex_env_def ex_state_def ex_handle_def
          ex_scal_def)
  let ?st2 = "ex_state\<lparr>st_op_count := 9, st_next_addr := 22,
                  st_pipeline := Some [\<lparr>dn_addr = 20, dn_name = ''Dump_id_7_sink'',
                                        dn_device = ''cpu'', dn_source = 7\<rparr>,
                                       \<lparr>dn_addr = 21, dn_name = ''Dump_id_8_sink'',
                                        dn_device = ''cpu'', dn_source = 8\<rparr>]\<rparr>"
  have ev: "case call_instances ex_env ?op ex_two_sets [] ex_state of
        (Inl e, s) \<Rightarrow> False
      | (Inr insts, s) \<Rightarrow>
          (map oi_id insts = [7, 8] \<and> map oi_outputs insts = [[], []]
           \<and> map (computed_outputs ?op) insts = [0, 0])
          \<and> s = ?st2"
    by (simp add: eval_defs ex_sink_op_def ex_schema_def ex_env_def ex_state_def ex_handle_def
          ex_two_sets_def ex_scal_def computed_outputs_def spec_before_outputs_def)
  then obtain insts where
    ci: "call_instances ex_env ?op ex_two_sets [] ex_state = (Inr insts, ?st2)" and
    f: "map oi_id insts = [7, 8]" "map oi_outputs insts = [[], []]"
       "map (computed_outputs ?op) insts = [0, 0]"
    by (cases "call_instances ex_env ?op ex_two_sets [] ex_state";
        cases "fst (call_instances ex_env ?op ex_two_sets [] ex_state)") auto
  from f(2) have z: "\<forall>inst\<in>set insts. oi_outputs inst = []"
    by (auto simp: map_eq_Cons_conv)
  from f(2) have len: "length insts = 2" by (auto simp: map_eq_Cons_conv)
  note A = zero_output_operator [where E = ex_env and op = ?op and inputs = ex_two_sets and kw = "[]"
             and st = ex_state, THEN conjunct1, THEN spec, THEN spec, THEN mp, OF ci,
             THEN conjunct2, THEN mp, OF z, THEN conjunct2]
  have nc: "\<not> conditionals_enabled ex_env" by (simp add: ex_env_def)
  from A nc have 3: "Operator_call ex_env ?op ex_two_sets [] ex_state = (Inr (PList []), ?st2)"
    by simp
  from ci f have 4: "case call_instances ex_env ?op ex_two_sets [] ex_state of
        (Inl e, s) \<Rightarrow> False
      | (Inr insts, s) \<Rightarrow>
          map oi_id insts = [7, 8] \<and> map oi_outputs insts = [[], []]
          \<and> map (computed_outputs ?op) insts = [0, 0]"
    by simp
  have 5: "st_pipeline ex_state = Some []" by (simp add: ex_state_def)
  show ?thesis by (intro conjI 1 2 3 4 5)
qed

theorem zero_output_operator_counterexample:
  "\<not> op_preserve (ex_sink_op False)
   \<and> call_instances ex_env (ex_sink_op False) [PDataNode (ex_handle 1)] [] ex_state =
       (Inr [\<lparr>oi_id = 7, oi_relation_id = 7, oi_name = PStr ''__Dump_7'',
              oi_inputs = [PDataNode (ex_handle 1)], oi_outputs = [],
              oi_spec = [AddArg ''device'' (PStr ''cpu''), AddArg ''preserve'' (PBool False),
                         AddInput ''in1'' ''cpu'']\<rparr>],
        ex_state\<lparr>st_op_count := 8\<rparr>)
   \<and> Operator_call ex_env (ex_sink_op False) [PDataNode (ex_handle 1)] [] ex_state =
       (Inr (PList []), ex_state\<lparr>st_op_count := 8\<rparr>)"
  by (simp add: eval_defs ex_sink_op_def ex_schema_def ex_env_def ex_state_def ex_handle_def)

section \<open>Fan-out of one list of length three\<close>









section \<open>Arguments given at construction and at call time\<close>

lemma merge_call_args_duplicate:
  "\<exists>p\<in>set kw. snd p \<noteq> PNone \<and> dict_has dflt (fst p) \<Longrightarrow>
   \<exists>k'. dict_has dflt k' \<and> k' \<in> fst ` set kw
        \<and> merge_call_args dflt kw acc
            = Inl (ValueError (''The argument `'' @ k' @ ''` was already specified in __init__.''))"
proof (induction kw arbitrary: acc)
  case Nil
  then show ?case by simp
next
  case (Cons p kw)
  obtain k v where p: "p = (k, v)" by (cases p)
  show ?case
  proof (cases "v \<noteq> PNone \<and> dict_has dflt k")
    case True
    with p show ?thesis by (intro exI [of _ k]) simp
  next
    case False
    with Cons.prems p have "\<exists>p\<in>set kw. snd p \<noteq> PNone \<and> dict_has dflt (fst p)" by auto
    from Cons.IH [OF this, of "if v = PNone then acc else AList.update k v acc"]
    obtain k' where "dict_has dflt k'" "k' \<in> fst ` set kw"
      "merge_call_args dflt kw (if v = PNone then acc else AList.update k v acc)
         = Inl (ValueError (''The argument `'' @ k' @ ''` was already specified in __init__.''))"
      by blast
    with False p show ?thesis by (intro exI [of _ k']) auto
  qed
qed

lemma separate_loop_append:
  "separate_loop s a (xs @ ys) acc = separate_loop s a ys (separate_loop s a xs acc)"
proof (induction xs arbitrary: acc)
  case Nil
  show ?case by simp
next
  case (Cons p xs)
  obtain k v where p: "p = (k, v)" by (cases p)
  obtain i c where acc: "acc = (i, c)" by (cases acc)
  from Cons.IH show ?case by (simp add: p acc)
qed

lemma separate_kwargs_None:
  "separate_kwargs scal (kw1 @ (k, PNone) # kw2) = separate_kwargs scal (kw1 @ kw2)"
proof -
  obtain i c where r: "separate_loop scal is_DataNode kw1 ([], []) = (i, c)"
    by (cases "separate_loop scal is_DataNode kw1 ([], [])")
  show ?thesis
    by (simp add: separate_kwargs_def separate_kwargs_gen_def separate_loop_append r)
qed

lemma create_instances_cong:
  assumes "\<And>input_set st. OperatorInstance E input_set op kw st
                             = OperatorInstance E input_set op kw' st"
  shows "create_instances E op kw sets acc st = create_instances E op kw' sets acc st"
proof (induction sets arbitrary: acc st)
  case Nil
  show ?case by simp
next
  case (Cons input_set rest)
  show ?case by (simp add: assms Cons.IH cong: prod.case_cong sum.case_cong)
qed


lemma constructor_clash_None_arg:
  assumes "k \<noteq> ''self''" "k \<noteq> ''inputs''" "k \<noteq> ''op''"
  shows "constructor_clash (kw1 @ (k, v) # kw2) = constructor_clash (kw1 @ kw2)"
  using assms by (induction kw1) (auto simp: constructor_clash_def dict_keys_def)

lemma find_Some_mem: "find P xs = Some c \<Longrightarrow> P c \<and> c \<in> set xs"
  by (induction xs) (auto split: if_splits)

lemma find_ex_Some: "\<exists>x\<in>set xs. P x \<Longrightarrow> \<exists>c. find P xs = Some c"
  by (induction xs) auto

lemma constructor_clash_Some:
  assumes h: "dict_has kw ''inputs'' \<or> dict_has kw ''op''"
  shows "\<exists>c. constructor_clash kw = Some c \<and> (c = ''self'' \<or> c = ''inputs'' \<or> c = ''op'')
             \<and> dict_has kw c"
proof -
  let ?P = "\<lambda>k. k = ''self'' \<or> k = ''inputs'' \<or> k = ''op''"
  from h have "\<exists>x\<in>set (dict_keys kw). ?P x" unfolding dict_has_def by blast
  from find_ex_Some [OF this] obtain c where c: "find ?P (dict_keys kw) = Some c" by blast
  from find_Some_mem [OF c] have "?P c" "c \<in> set (dict_keys kw)" by simp_all
  with c show ?thesis unfolding constructor_clash_def dict_has_def by blast
qed

lemma create_instances_no_clash:
  assumes c: "create_instances E op kw sets acc st = (Inr insts, st')" and ne: "sets \<noteq> []"
  shows "constructor_clash kw = None"
proof (rule ccontr)
  assume "constructor_clash kw \<noteq> None"
  then obtain k where k: "constructor_clash kw = Some k" by auto
  from ne obtain input_set rest where s: "sets = input_set # rest" by (cases sets) auto
  from k have "\<exists>e. OperatorInstance E input_set op kw st = (Inl e, st)"
    by (simp add: OperatorInstance_def)
  then obtain e where "OperatorInstance E input_set op kw st = (Inl e, st)" by blast
  with c s show False by simp
qed

lemma call_instances_no_clash:
  assumes "call_instances E op inputs kw st = (Inr insts, st')"
  shows "constructor_clash kw = None"
proof -
  from assms obtain inputs1 st1 input_sets raw where
    cr: "create_instances E op kw input_sets [] st1 = (Inr raw, st')" and ne: "raw \<noteq> []"
    by (rule call_instances_InrE)
  from create_instances_Inr [OF cr] have "length input_sets = length raw"
    by (auto dest: list_all2_lengthD)
  with ne have "input_sets \<noteq> []" by auto
  from create_instances_no_clash [OF cr this] show ?thesis .
qed

text \<open>
  With a bound name among the call-style keywords of the call, \<open>__init__\<close> fails at the
  merge of the call arguments, and so cannot succeed.
\<close>

lemma OperatorInstance_init_duplicate:
  assumes b: "dict_has (op_call_args op) k" and m: "(k, v) \<in> set kw"
    and d: "distinct (map fst kw)" and v: "v \<noteq> PNone"
    and c: "is_call_arg (is_scalar_value E) is_DataNode k v"
    and nc: "\<not> conditionals_enabled E"
  shows "\<exists>k'. dict_has (op_call_args op) k' \<and> k' \<in> fst ` set kw
     \<and> merge_call_args (op_call_args op) (snd (separate_kwargs (is_scalar_value E) kw))
          (op_call_args op)
         = Inl (ValueError (''The argument `'' @ k' @ ''` was already specified in __init__.''))
     \<and> (\<forall>inputs st inputs1 st1 spec1.
           promote_inputs E (if op_device op = ''gpu'' then ''gpu'' else ''cpu'') inputs
              (snd (OpCounter st)) = (Inr inputs1, st1)
           \<and> add_spec_args E (op_schema op) (op_spec op)
               (fst (separate_kwargs (is_scalar_value E) kw)) = Inr spec1
           \<longrightarrow> OperatorInstance_init E inputs op kw st
                 = (Inl (ValueError (''The argument `'' @ k' @ ''` was already specified in __init__.'')),
                    st1))"
proof -
  let ?kw3 = "snd (separate_kwargs (is_scalar_value E) kw)"
  from d m have mk: "map_of kw k = Some v" by simp
  from separate_kwargs_call [OF d, of "is_scalar_value E" k] mk v c
  have "map_of ?kw3 k = Some v" by simp
  then have "(k, v) \<in> set ?kw3" by (rule map_of_SomeD)
  with b v have "\<exists>p\<in>set ?kw3. snd p \<noteq> PNone \<and> dict_has (op_call_args op) (fst p)"
    by (intro bexI [of _ "(k, v)"]) simp_all
  from merge_call_args_duplicate [OF this, of "op_call_args op"] obtain k' where
    k': "dict_has (op_call_args op) k'" "k' \<in> fst ` set ?kw3" and
    mg: "merge_call_args (op_call_args op) ?kw3 (op_call_args op)
          = Inl (ValueError (''The argument `'' @ k' @ ''` was already specified in __init__.''))"
    by blast
  from k'(2) have "map_of ?kw3 k' \<noteq> None" by (simp add: map_of_eq_None_iff)
  with separate_kwargs_call [OF d, of "is_scalar_value E" k'] have "map_of kw k' \<noteq> None"
    by (auto split: option.splits)
  then have in_kw: "k' \<in> fst ` set kw" by (simp add: map_of_eq_None_iff)
  obtain sa kwc where sk: "separate_kwargs (is_scalar_value E) kw = (sa, kwc)"
    by (cases "separate_kwargs (is_scalar_value E) kw")
  from mg sk have mg': "merge_call_args (op_call_args op) kwc (op_call_args op)
          = Inl (ValueError (''The argument `'' @ k' @ ''` was already specified in __init__.''))"
    by simp
  have run: "\<forall>inputs st inputs1 st1 spec1.
           promote_inputs E (if op_device op = ''gpu'' then ''gpu'' else ''cpu'') inputs
              (snd (OpCounter st)) = (Inr inputs1, st1)
           \<and> add_spec_args E (op_schema op) (op_spec op)
               (fst (separate_kwargs (is_scalar_value E) kw)) = Inr spec1
           \<longrightarrow> OperatorInstance_init E inputs op kw st
                 = (Inl (ValueError (''The argument `'' @ k' @ ''` was already specified in __init__.'')),
                    st1)"
  proof (intro allI impI)
    fix inputs st inputs1 st1 spec1
    assume h: "promote_inputs E (if op_device op = ''gpu'' then ''gpu'' else ''cpu'') inputs
              (snd (OpCounter st)) = (Inr inputs1, st1)
           \<and> add_spec_args E (op_schema op) (op_spec op)
               (fst (separate_kwargs (is_scalar_value E) kw)) = Inr spec1"
    then have pr: "promote_inputs E (if op_device op = ''gpu'' then ''gpu'' else ''cpu'') inputs
            (st\<lparr>st_op_count := Suc (st_op_count st)\<rparr>) = (Inr inputs1, st1)"
      by (simp add: OpCounter_def)
    from h sk have sp: "add_spec_args E (op_schema op) (op_spec op) sa = Inr spec1" by simp
    show "OperatorInstance_init E inputs op kw st
            = (Inl (ValueError (''The argument `'' @ k' @ ''` was already specified in __init__.'')), st1)"
      unfolding OperatorInstance_init_def OpCounter_def Let_def
      by (simp add: pr nc sk sp mg' del: merge_call_args.simps)
  qed
  from k'(1) in_kw mg run show ?thesis by blast
qed

text \<open>
  C7 (amended). Conditional execution is off. When a name is bound as a call argument
  at construction and is given at call time with a value that is not \<open>None\<close> and is
  call-style, the call fails; it fails with the \<open>ValueError\<close> that names an argument
  given twice when everything before the merge of the call arguments of the first
  instance succeeds: the check of the number of inputs, the preprocessing, the building
  of the input sets, the binding of the keywords (none is named \<open>self\<close>, \<open>inputs\<close> or
  \<open>op\<close>), the promotion of the first input set and the writing of the
  construction-style arguments to the spec. A keyword given at call time with the value
  \<open>None\<close> and a name other than \<open>self\<close>, \<open>inputs\<close> and \<open>op\<close> changes nothing: the call
  behaves exactly as without it. A keyword named \<open>inputs\<close> or \<open>op\<close> makes the call fail
  whatever its value, conditional execution on or off: with the \<open>TypeError\<close> of the
  binding of the arguments when the check of the number of inputs, the preprocessing
  and the building of the input sets succeed.
\<close>

theorem duplicate_argument:
  "(dict_has (op_call_args op) k \<and> (k, v) \<in> set kw \<and> distinct (map fst kw) \<and> v \<noteq> PNone
      \<and> is_call_arg (is_scalar_value E) is_DataNode k v
      \<and> \<not> conditionals_enabled E
    \<longrightarrow> (\<exists>e st'. Operator_call E op inputs kw st = (Inl e, st'))
       \<and> (\<forall>inputs1 st1 input_set rest inputs2 st2 spec1.
            constructor_clash kw = None
            \<and> check_schema_num_inputs op inputs = Inr ()
            \<and> preprocess_inputs E inputs (op_type_name op) (op_device op) (Some (op_schema op)) st
                = (Inr inputs1, st1)
            \<and> build_input_sets op inputs1 = Inr (input_set # rest)
            \<and> promote_inputs E (if op_device op = ''gpu'' then ''gpu'' else ''cpu'') input_set
                  (snd (OpCounter st1)) = (Inr inputs2, st2)
            \<and> add_spec_args E (op_schema op) (op_spec op)
                  (fst (separate_kwargs (is_scalar_value E) kw)) = Inr spec1
            \<longrightarrow> (\<exists>k'. dict_has (op_call_args op) k' \<and> k' \<in> fst ` set kw
                    \<and> Operator_call E op inputs kw st
                        = (Inl (ValueError (''The argument `'' @ k'
                                  @ ''` was already specified in __init__.'')), st2))))
   \<and> (\<not> conditionals_enabled E \<and> k \<noteq> ''self'' \<and> k \<noteq> ''inputs'' \<and> k \<noteq> ''op'' \<longrightarrow>
        Operator_call E op inputs (kw1 @ (k, PNone) # kw2) st = Operator_call E op inputs (kw1 @ kw2) st)
   \<and> (dict_has kw ''inputs'' \<or> dict_has kw ''op'' \<longrightarrow>
        (\<exists>e st'. Operator_call E op inputs kw st = (Inl e, st'))
        \<and> (\<forall>inputs1 st1 input_set rest.
              check_schema_num_inputs op inputs = Inr ()
              \<and> preprocess_inputs E inputs (op_type_name op) (op_device op) (Some (op_schema op)) st
                  = (Inr inputs1, st1)
              \<and> build_input_sets op inputs1 = Inr (input_set # rest)
              \<longrightarrow> (\<exists>c. (c = ''self'' \<or> c = ''inputs'' \<or> c = ''op'') \<and> dict_has kw c
                     \<and> Operator_call E op inputs kw st
                         = (Inl (TypeError (''__init__() got multiple values for argument ''
                                   @ [CHR 0x27] @ c @ [CHR 0x27])), st1))))"
proof -
  have a: "dict_has (op_call_args op) k \<and> (k, v) \<in> set kw \<and> distinct (map fst kw) \<and> v \<noteq> PNone
      \<and> is_call_arg (is_scalar_value E) is_DataNode k v
      \<and> \<not> conditionals_enabled E
    \<longrightarrow> (\<exists>e st'. Operator_call E op inputs kw st = (Inl e, st'))
       \<and> (\<forall>inputs1 st1 input_set rest inputs2 st2 spec1.
            constructor_clash kw = None
            \<and> check_schema_num_inputs op inputs = Inr ()
            \<and> preprocess_inputs E inputs (op_type_name op) (op_device op) (Some (op_schema op)) st
                = (Inr inputs1, st1)
            \<and> build_input_sets op inputs1 = Inr (input_set # rest)
            \<and> promote_inputs E (if op_device op = ''gpu'' then ''gpu'' else ''cpu'') input_set
                  (snd (OpCounter st1)) = (Inr inputs2, st2)
            \<and> add_spec_args E (op_schema op) (op_spec op)
                  (fst (separate_kwargs (is_scalar_value E) kw)) = Inr spec1
            \<longrightarrow> (\<exists>k'. dict_has (op_call_args op) k' \<and> k' \<in> fst ` set kw
                    \<and> Operator_call E op inputs kw st
                        = (Inl (ValueError (''The argument `'' @ k'
                                  @ ''` was already specified in __init__.'')), st2)))"
  proof
    assume h: "dict_has (op_call_args op) k \<and> (k, v) \<in> set kw \<and> distinct (map fst kw) \<and> v \<noteq> PNone
      \<and> is_call_arg (is_scalar_value E) is_DataNode k v
      \<and> \<not> conditionals_enabled E"
    then have b: "dict_has (op_call_args op) k" and m: "(k, v) \<in> set kw"
      and d: "distinct (map fst kw)" and v: "v \<noteq> PNone"
      and c: "is_call_arg (is_scalar_value E) is_DataNode k v"
      and nc: "\<not> conditionals_enabled E" by simp_all
    from OperatorInstance_init_duplicate [OF b m d v c nc] obtain k' where
      k': "dict_has (op_call_args op) k'" "k' \<in> fst ` set kw" and
      mg: "merge_call_args (op_call_args op) (snd (separate_kwargs (is_scalar_value E) kw))
             (op_call_args op)
           = Inl (ValueError (''The argument `'' @ k' @ ''` was already specified in __init__.''))" and
      run: "\<forall>inputs st inputs1 st1 spec1.
           promote_inputs E (if op_device op = ''gpu'' then ''gpu'' else ''cpu'') inputs
              (snd (OpCounter st)) = (Inr inputs1, st1)
           \<and> add_spec_args E (op_schema op) (op_spec op)
               (fst (separate_kwargs (is_scalar_value E) kw)) = Inr spec1
           \<longrightarrow> OperatorInstance_init E inputs op kw st
                 = (Inl (ValueError (''The argument `'' @ k' @ ''` was already specified in __init__.'')),
                    st1)"
      by blast
    \<comment> \<open>the call cannot succeed\<close>
    have fail: "\<exists>e st'. Operator_call E op inputs kw st = (Inl e, st')"
    proof (cases "call_instances E op inputs kw st")
      case (Pair res st')
      show ?thesis
      proof (cases res)
        case (Inl e)
        with Pair show ?thesis by (simp add: Operator_call_def)
      next
        case (Inr insts)
        with Pair have ci: "call_instances E op inputs kw st = (Inr insts, st')" by simp
        from ci obtain inputs1 st1 input_sets raw where
          cr: "create_instances E op kw input_sets [] st1 = (Inr raw, st')" and
          ne: "raw \<noteq> []"
          by (rule call_instances_InrE)
        from create_instances_Inr [OF cr] have
          l: "list_all2 (\<lambda>input_set inst. \<exists>sa inst0 sb sc.
               OperatorInstance_init E input_set op kw sa = (Inr inst0, sb)
               \<and> generate_outputs op inst0 sb = (Inr inst, sc)
               \<and> st_op_count st1 \<le> st_op_count sa \<and> st_op_count sc \<le> st_op_count st') input_sets raw"
          by auto
        from ne have "0 < length raw" by simp
        from list_all2_nthD2 [OF l this] obtain sa inst0 sb where
          oi: "OperatorInstance_init E (input_sets ! 0) op kw sa = (Inr inst0, sb)"
          by auto
        from oi obtain inputs1' st1' inputs2 kwh spec1 call_args spec2 spec3 inputs3 st2' where
          hk: "(inputs2, kwh) = (if conditionals_enabled E
                                  then apply_conditional_split_to_args E inputs1' kw
                                  else (inputs1', kw))" and
          ok: "merge_call_args (op_call_args op) (snd (separate_kwargs (is_scalar_value E) kwh))
                 (op_call_args op) = Inr call_args"
          by (rule OperatorInstance_init_InrE)
        from hk nc have "kwh = kw" by simp
        with ok mg show ?thesis by simp
      qed
    qed
    have exact: "\<forall>inputs1 st1 input_set rest inputs2 st2 spec1.
            constructor_clash kw = None
            \<and> check_schema_num_inputs op inputs = Inr ()
            \<and> preprocess_inputs E inputs (op_type_name op) (op_device op) (Some (op_schema op)) st
                = (Inr inputs1, st1)
            \<and> build_input_sets op inputs1 = Inr (input_set # rest)
            \<and> promote_inputs E (if op_device op = ''gpu'' then ''gpu'' else ''cpu'') input_set
                  (snd (OpCounter st1)) = (Inr inputs2, st2)
            \<and> add_spec_args E (op_schema op) (op_spec op)
                  (fst (separate_kwargs (is_scalar_value E) kw)) = Inr spec1
            \<longrightarrow> (\<exists>k'. dict_has (op_call_args op) k' \<and> k' \<in> fst ` set kw
                    \<and> Operator_call E op inputs kw st
                        = (Inl (ValueError (''The argument `'' @ k'
                                  @ ''` was already specified in __init__.'')), st2))"
    proof (intro allI impI)
      fix inputs1 st1 input_set rest inputs2 st2 spec1
      assume s: "constructor_clash kw = None
            \<and> check_schema_num_inputs op inputs = Inr ()
            \<and> preprocess_inputs E inputs (op_type_name op) (op_device op) (Some (op_schema op)) st
                = (Inr inputs1, st1)
            \<and> build_input_sets op inputs1 = Inr (input_set # rest)
            \<and> promote_inputs E (if op_device op = ''gpu'' then ''gpu'' else ''cpu'') input_set
                  (snd (OpCounter st1)) = (Inr inputs2, st2)
            \<and> add_spec_args E (op_schema op) (op_spec op)
                  (fst (separate_kwargs (is_scalar_value E) kw)) = Inr spec1"
      with run have oi: "OperatorInstance_init E input_set op kw st1
                 = (Inl (ValueError (''The argument `'' @ k' @ ''` was already specified in __init__.'')),
                    st2)"
        by blast
      from s have ni: "OperatorInstance E input_set op kw st1 = OperatorInstance_init E input_set op kw st1"
        by (simp add: OperatorInstance_no_clash)
      have "Operator_call E op inputs kw st
              = (Inl (ValueError (''The argument `'' @ k' @ ''` was already specified in __init__.'')), st2)"
        using s by (simp add: Operator_call_def call_instances_def ni oi)
      with k' show "\<exists>k'. dict_has (op_call_args op) k' \<and> k' \<in> fst ` set kw
                    \<and> Operator_call E op inputs kw st
                        = (Inl (ValueError (''The argument `'' @ k'
                                  @ ''` was already specified in __init__.'')), st2)"
        by blast
    qed
    from fail exact show "(\<exists>e st'. Operator_call E op inputs kw st = (Inl e, st'))
       \<and> (\<forall>inputs1 st1 input_set rest inputs2 st2 spec1.
            constructor_clash kw = None
            \<and> check_schema_num_inputs op inputs = Inr ()
            \<and> preprocess_inputs E inputs (op_type_name op) (op_device op) (Some (op_schema op)) st
                = (Inr inputs1, st1)
            \<and> build_input_sets op inputs1 = Inr (input_set # rest)
            \<and> promote_inputs E (if op_device op = ''gpu'' then ''gpu'' else ''cpu'') input_set
                  (snd (OpCounter st1)) = (Inr inputs2, st2)
            \<and> add_spec_args E (op_schema op) (op_spec op)
                  (fst (separate_kwargs (is_scalar_value E) kw)) = Inr spec1
            \<longrightarrow> (\<exists>k'. dict_has (op_call_args op) k' \<and> k' \<in> fst ` set kw
                    \<and> Operator_call E op inputs kw st
                        = (Inl (ValueError (''The argument `'' @ k'
                                  @ ''` was already specified in __init__.'')), st2)))"
      by (rule conjI)
  qed
  have b: "\<not> conditionals_enabled E \<and> k \<noteq> ''self'' \<and> k \<noteq> ''inputs'' \<and> k \<noteq> ''op'' \<longrightarrow>
        Operator_call E op inputs (kw1 @ (k, PNone) # kw2) st = Operator_call E op inputs (kw1 @ kw2) st"
  proof
    assume h: "\<not> conditionals_enabled E \<and> k \<noteq> ''self'' \<and> k \<noteq> ''inputs'' \<and> k \<noteq> ''op''"
    then have nc: "\<not> conditionals_enabled E" by simp
    from h have cl: "constructor_clash (kw1 @ (k, PNone) # kw2) = constructor_clash (kw1 @ kw2)"
      by (simp add: constructor_clash_None_arg)
    have oi0: "OperatorInstance_init E input_set op (kw1 @ (k, PNone) # kw2) s
              = OperatorInstance_init E input_set op (kw1 @ kw2) s" for input_set s
      unfolding OperatorInstance_init_def
      by (simp add: nc separate_kwargs_None cong: prod.case_cong sum.case_cong)
    have oi: "OperatorInstance E input_set op (kw1 @ (k, PNone) # kw2) s
              = OperatorInstance E input_set op (kw1 @ kw2) s" for input_set s
      unfolding OperatorInstance_def cl oi0 ..
    have "call_instances E op inputs (kw1 @ (k, PNone) # kw2) st
          = call_instances E op inputs (kw1 @ kw2) st"
      unfolding call_instances_def
      by (simp add: create_instances_cong [OF oi] cong: prod.case_cong sum.case_cong)
    then show "Operator_call E op inputs (kw1 @ (k, PNone) # kw2) st
               = Operator_call E op inputs (kw1 @ kw2) st"
      by (simp add: Operator_call_def)
  qed
  have c: "dict_has kw ''inputs'' \<or> dict_has kw ''op'' \<longrightarrow>
        (\<exists>e st'. Operator_call E op inputs kw st = (Inl e, st'))
        \<and> (\<forall>inputs1 st1 input_set rest.
              check_schema_num_inputs op inputs = Inr ()
              \<and> preprocess_inputs E inputs (op_type_name op) (op_device op) (Some (op_schema op)) st
                  = (Inr inputs1, st1)
              \<and> build_input_sets op inputs1 = Inr (input_set # rest)
              \<longrightarrow> (\<exists>c. (c = ''self'' \<or> c = ''inputs'' \<or> c = ''op'') \<and> dict_has kw c
                     \<and> Operator_call E op inputs kw st
                         = (Inl (TypeError (''__init__() got multiple values for argument ''
                                   @ [CHR 0x27] @ c @ [CHR 0x27])), st1)))"
  proof
    assume "dict_has kw ''inputs'' \<or> dict_has kw ''op''"
    from constructor_clash_Some [OF this] obtain c where
      cl: "constructor_clash kw = Some c" and cn: "c = ''self'' \<or> c = ''inputs'' \<or> c = ''op''"
      and ck: "dict_has kw c" by blast
    have fail: "\<exists>e st'. Operator_call E op inputs kw st = (Inl e, st')"
    proof (cases "call_instances E op inputs kw st")
      case (Pair res st')
      show ?thesis
      proof (cases res)
        case (Inl e)
        with Pair show ?thesis by (simp add: Operator_call_def)
      next
        case (Inr insts)
        with Pair call_instances_no_clash [of E op inputs kw st insts st'] cl show ?thesis by simp
      qed
    qed
    have exact: "\<forall>inputs1 st1 input_set rest.
              check_schema_num_inputs op inputs = Inr ()
              \<and> preprocess_inputs E inputs (op_type_name op) (op_device op) (Some (op_schema op)) st
                  = (Inr inputs1, st1)
              \<and> build_input_sets op inputs1 = Inr (input_set # rest)
              \<longrightarrow> (\<exists>c. (c = ''self'' \<or> c = ''inputs'' \<or> c = ''op'') \<and> dict_has kw c
                     \<and> Operator_call E op inputs kw st
                         = (Inl (TypeError (''__init__() got multiple values for argument ''
                                   @ [CHR 0x27] @ c @ [CHR 0x27])), st1))"
    proof (intro allI impI)
      fix inputs1 st1 input_set rest
      assume s: "check_schema_num_inputs op inputs = Inr ()
              \<and> preprocess_inputs E inputs (op_type_name op) (op_device op) (Some (op_schema op)) st
                  = (Inr inputs1, st1)
              \<and> build_input_sets op inputs1 = Inr (input_set # rest)"
      have "Operator_call E op inputs kw st
              = (Inl (TypeError (''__init__() got multiple values for argument ''
                                   @ [CHR 0x27] @ c @ [CHR 0x27])), st1)"
        using s cl by (simp add: Operator_call_def call_instances_def OperatorInstance_def)
      with cn ck show "\<exists>c. (c = ''self'' \<or> c = ''inputs'' \<or> c = ''op'') \<and> dict_has kw c
                     \<and> Operator_call E op inputs kw st
                         = (Inl (TypeError (''__init__() got multiple values for argument ''
                                   @ [CHR 0x27] @ c @ [CHR 0x27])), st1)"
        by blast
    qed
    from fail exact show "(\<exists>e st'. Operator_call E op inputs kw st = (Inl e, st'))
        \<and> (\<forall>inputs1 st1 input_set rest.
              check_schema_num_inputs op inputs = Inr ()
              \<and> preprocess_inputs E inputs (op_type_name op) (op_device op) (Some (op_schema op)) st
                  = (Inr inputs1, st1)
              \<and> build_input_sets op inputs1 = Inr (input_set # rest)
              \<longrightarrow> (\<exists>c. (c = ''self'' \<or> c = ''inputs'' \<or> c = ''op'') \<and> dict_has kw c
                     \<and> Operator_call E op inputs kw st
                         = (Inl (TypeError (''__init__() got multiple values for argument ''
                                   @ [CHR 0x27] @ c @ [CHR 0x27])), st1)))"
      by (rule conjI)
  qed
  show ?thesis by (intro conjI a b c)
qed

theorem duplicate_argument_witness:
  "Operator_call ex_env ex_bound_op [PDataNode (ex_handle 1)]
     [(''angle'', PDataNode (ex_handle 5))] ex_state
     = (Inl (ValueError ''The argument `angle` was already specified in __init__.''),
        ex_state\<lparr>st_op_count := 8\<rparr>)
   \<and> Operator_call ex_env ex_op [PDataNode (ex_handle 1)] [(''seed'', PNone)] ex_state
     = Operator_call ex_env ex_op [PDataNode (ex_handle 1)] [] ex_state
   \<and> (\<exists>r s. Operator_call ex_env ex_op [PDataNode (ex_handle 1)] [] ex_state = (Inr r, s))
   \<and> Operator_call ex_env ex_op [PDataNode (ex_handle 1)] [(''op'', PDataNode (ex_handle 2))] ex_state
       = (Inl (TypeError (''__init__() got multiple values for argument '' @ [CHR 0x27] @ ''op''
                 @ [CHR 0x27])), ex_state)"
proof -
  have nc: "\<not> conditionals_enabled ex_env" by (simp add: ex_env_def)
  have h: "dict_has (op_call_args ex_bound_op) ''angle''"
    "(''angle'', PDataNode (ex_handle 5)) \<in> set [(''angle'', PDataNode (ex_handle 5))]"
    "distinct (map fst [(''angle'', PDataNode (ex_handle 5))])"
    "PDataNode (ex_handle 5) \<noteq> PNone"
    "is_call_arg (is_scalar_value ex_env) is_DataNode ''angle'' (PDataNode (ex_handle 5))"
    by (simp_all add: ex_bound_op_def ex_op_def dict_has_def dict_keys_def is_call_arg_def)
  have s: "constructor_clash [(''angle'', PDataNode (ex_handle 5))] = None"
    "check_schema_num_inputs ex_bound_op [PDataNode (ex_handle 1)] = Inr ()"
    "preprocess_inputs ex_env [PDataNode (ex_handle 1)] (op_type_name ex_bound_op) (op_device ex_bound_op)
       (Some (op_schema ex_bound_op)) ex_state = (Inr [PDataNode (ex_handle 1)], ex_state)"
    "build_input_sets ex_bound_op [PDataNode (ex_handle 1)] = Inr ([PDataNode (ex_handle 1)] # [])"
    "promote_inputs ex_env (if op_device ex_bound_op = ''gpu'' then ''gpu'' else ''cpu'')
              [PDataNode (ex_handle 1)] (snd (OpCounter ex_state))
            = (Inr [PDataNode (ex_handle 1)], ex_state\<lparr>st_op_count := 8\<rparr>)"
    "add_spec_args ex_env (op_schema ex_bound_op) (op_spec ex_bound_op)
              (fst (separate_kwargs (is_scalar_value ex_env) [(''angle'', PDataNode (ex_handle 5))]))
            = Inr (op_spec ex_bound_op)"
    by (simp_all add: constructor_clash_def dict_keys_def check_schema_num_inputs_def
          preprocess_inputs_def build_input_sets_def detect_multiple_input_sets_def
          ex_bound_op_def ex_op_def ex_schema_def OpCounter_def ex_state_def
          separate_kwargs_def separate_kwargs_gen_def is_call_arg_def)
  from duplicate_argument [where E = ex_env and op = ex_bound_op and k = "''angle''"
         and v = "PDataNode (ex_handle 5)" and kw = "[(''angle'', PDataNode (ex_handle 5))]"
         and inputs = "[PDataNode (ex_handle 1)]" and st = ex_state
         and ?kw1.0 = "[]" and ?kw2.0 = "[]"]
    nc h s
  have "\<exists>k'. dict_has (op_call_args ex_bound_op) k' \<and> k' \<in> fst ` set [(''angle'', PDataNode (ex_handle 5))]
          \<and> Operator_call ex_env ex_bound_op [PDataNode (ex_handle 1)]
                [(''angle'', PDataNode (ex_handle 5))] ex_state
              = (Inl (ValueError (''The argument `'' @ k' @ ''` was already specified in __init__.'')),
                 ex_state\<lparr>st_op_count := 8\<rparr>)"
    by blast
  then have 1: "Operator_call ex_env ex_bound_op [PDataNode (ex_handle 1)]
     [(''angle'', PDataNode (ex_handle 5))] ex_state
     = (Inl (ValueError ''The argument `angle` was already specified in __init__.''),
        ex_state\<lparr>st_op_count := 8\<rparr>)"
    by auto
  from duplicate_argument [where E = ex_env and op = ex_op and k = "''seed''"
         and inputs = "[PDataNode (ex_handle 1)]" and st = ex_state
         and ?kw1.0 = "[]" and ?kw2.0 = "[]"] nc
  have 2: "Operator_call ex_env ex_op [PDataNode (ex_handle 1)] [(''seed'', PNone)] ex_state
     = Operator_call ex_env ex_op [PDataNode (ex_handle 1)] [] ex_state"
    by simp
  have 3: "\<exists>r s. Operator_call ex_env ex_op [PDataNode (ex_handle 1)] [] ex_state = (Inr r, s)"
    by (simp add: eval_defs ex_op_def ex_schema_def ex_env_def ex_state_def ex_handle_def ex_scal_def)
  have t: "dict_has [(''op'', PDataNode (ex_handle 2))] ''inputs'' \<or> dict_has [(''op'', PDataNode (ex_handle 2))] ''op''"
    "check_schema_num_inputs ex_op [PDataNode (ex_handle 1)] = Inr ()"
    "preprocess_inputs ex_env [PDataNode (ex_handle 1)] (op_type_name ex_op) (op_device ex_op)
       (Some (op_schema ex_op)) ex_state = (Inr [PDataNode (ex_handle 1)], ex_state)"
    "build_input_sets ex_op [PDataNode (ex_handle 1)] = Inr ([PDataNode (ex_handle 1)] # [])"
    by (simp_all add: dict_has_def dict_keys_def check_schema_num_inputs_def
          preprocess_inputs_def build_input_sets_def detect_multiple_input_sets_def
          ex_op_def ex_schema_def)
  note th = duplicate_argument [where E = ex_env and op = ex_op and kw = "[(''op'', PDataNode (ex_handle 2))]"
         and inputs = "[PDataNode (ex_handle 1)]" and st = ex_state
         and ?kw1.0 = "[]" and ?kw2.0 = "[]"]
  note c3 = th [THEN conjunct2, THEN conjunct2, THEN mp, OF t(1), THEN conjunct2,
                THEN spec, THEN spec, THEN spec, THEN spec, THEN mp]
  from c3 [OF conjI [OF t(2) conjI [OF t(3) t(4)]]]
  have "\<exists>c. (c = ''self'' \<or> c = ''inputs'' \<or> c = ''op'') \<and> dict_has [(''op'', PDataNode (ex_handle 2))] c
          \<and> Operator_call ex_env ex_op [PDataNode (ex_handle 1)] [(''op'', PDataNode (ex_handle 2))] ex_state
              = (Inl (TypeError (''__init__() got multiple values for argument ''
                        @ [CHR 0x27] @ c @ [CHR 0x27])), ex_state)" .
  then have 4: "Operator_call ex_env ex_op [PDataNode (ex_handle 1)] [(''op'', PDataNode (ex_handle 2))] ex_state
       = (Inl (TypeError (''__init__() got multiple values for argument '' @ [CHR 0x27] @ ''op''
                 @ [CHR 0x27])), ex_state)"
    by (auto simp: dict_has_def dict_keys_def)
  show ?thesis by (intro conjI 1 2 3 4)
qed

theorem duplicate_argument_counterexample:
  "dict_has (op_call_args ex_bound_op) ''angle''
   \<and> (\<exists>r s. Operator_call ex_env ex_bound_op [PDataNode (ex_handle 1)] [(''angle'', PNone)] ex_state
              = (Inr r, s))
   \<and> Operator_call ex_env ex_op [PDataNode (ex_handle 1)] [(''op'', PNone)] ex_state
       = (Inl (TypeError (''__init__() got multiple values for argument '' @ [CHR 0x27] @ ''op''
                 @ [CHR 0x27])), ex_state)
   \<and> (\<exists>r s. Operator_call ex_env ex_op [PDataNode (ex_handle 1)] [] ex_state = (Inr r, s))"
  by (simp add: eval_defs ex_op_def ex_bound_op_def ex_schema_def ex_env_def ex_state_def
        ex_handle_def ex_scal_def)

section \<open>Deprecated construction-time arguments\<close>

lemma map_of_delete_update:
  "map_of (AList.delete a (AList.update n v kw)) k =
     (if k = a then None else if k = n then Some v else map_of kw k)"
  by (simp add: delete_conv update_conv)

lemma map_of_delete: "map_of (AList.delete a kw) k = (if k = a then None else map_of kw k)"
  by (simp add: delete_conv)

lemma deprecated_args_step_rename:
  assumes "renamed_arg sch a"
  shows "deprecated_args sch opn (a # rest) kw st =
     (if dict_has kw (new_name sch a)
        then (Inl (TypeError (conflict_message opn a (new_name sch a))), st)
      else (case map_of kw a of
              None \<Rightarrow> (Inl (KeyError a), st)
            | Some v \<Rightarrow>
                deprecated_args sch opn rest
                  (AList.delete a (AList.update (new_name sch a) v kw))
                  (warn (meta_msg (DeprecatedArgMeta sch a)) st)))"
  using assms
  by (simp add: renamed_arg_def new_name_def conflict_message_def Let_def split: option.splits)

lemma deprecated_args_step_other:
  assumes "IsDeprecatedArg sch a" "new_name sch a = []"
  shows "deprecated_args sch opn (a # rest) kw st =
     (if removed (DeprecatedArgMeta sch a) then
        (if dict_has kw a
           then deprecated_args sch opn rest (AList.delete a kw) (warn (meta_msg (DeprecatedArgMeta sch a)) st)
         else (Inl (KeyError a), st))
      else deprecated_args sch opn rest kw (warn (meta_msg (DeprecatedArgMeta sch a)) st))"
  using assms by (simp add: new_name_def Let_def)

lemma deprecated_args_step_skip:
  "\<not> IsDeprecatedArg sch a \<Longrightarrow>
   deprecated_args sch opn (a # rest) kw st = deprecated_args sch opn rest kw st"
  by simp


text \<open>
  The loop on the remaining names \<open>names\<close> and the current dictionary \<open>cur\<close>, for a
  schema in which no new name is itself deprecated and no two of the names are renamed
  to the same new name.
\<close>

lemma deprecated_args_general:
  assumes "distinct names" "\<forall>a\<in>set names. map_of cur a \<noteq> None"
    and "\<forall>d\<in>set names. renamed_arg sch d \<longrightarrow> \<not> IsDeprecatedArg sch (new_name sch d)"
    and "\<forall>d\<in>set names. \<forall>d'\<in>set names.
           renamed_arg sch d \<and> renamed_arg sch d' \<and> d \<noteq> d' \<longrightarrow> new_name sch d \<noteq> new_name sch d'"
  shows "case deprecated_args sch opn names cur st of
      (Inl e, st') \<Rightarrow>
        (\<exists>a\<in>set names. renamed_arg sch a \<and> map_of cur (new_name sch a) \<noteq> None
            \<and> e = TypeError (conflict_message opn a (new_name sch a)))
    | (Inr kw', st') \<Rightarrow>
        (\<forall>a\<in>set names. renamed_arg sch a \<longrightarrow>
            map_of cur (new_name sch a) = None
            \<and> map_of kw' (new_name sch a) = map_of cur a \<and> map_of kw' a = None)
        \<and> (\<forall>a\<in>set names. removed_arg sch a \<longrightarrow> map_of kw' a = None)
        \<and> (\<forall>k. \<not> (k \<in> set names \<and> (renamed_arg sch k \<or> removed_arg sch k))
               \<and> (\<forall>a\<in>set names. renamed_arg sch a \<longrightarrow> new_name sch a \<noteq> k)
               \<longrightarrow> map_of kw' k = map_of cur k)
        \<and> st_warnings st' =
            st_warnings st @ map (\<lambda>a. meta_msg (DeprecatedArgMeta sch a)) (filter (IsDeprecatedArg sch) names)"
  using assms
proof (induction names arbitrary: cur st)
  case Nil
  show ?case by simp
next
  case (Cons a rest)
  let ?P = "\<lambda>names cur st r. case r of
      (Inl e, st') \<Rightarrow>
        (\<exists>a\<in>set names. renamed_arg sch a \<and> map_of cur (new_name sch a) \<noteq> None
            \<and> e = TypeError (conflict_message opn a (new_name sch a)))
    | (Inr kw', st') \<Rightarrow>
        (\<forall>a\<in>set names. renamed_arg sch a \<longrightarrow>
            map_of cur (new_name sch a) = None
            \<and> map_of kw' (new_name sch a) = map_of cur a \<and> map_of kw' a = None)
        \<and> (\<forall>a\<in>set names. removed_arg sch a \<longrightarrow> map_of kw' a = None)
        \<and> (\<forall>k. \<not> (k \<in> set names \<and> (renamed_arg sch k \<or> removed_arg sch k))
               \<and> (\<forall>a\<in>set names. renamed_arg sch a \<longrightarrow> new_name sch a \<noteq> k)
               \<longrightarrow> map_of kw' k = map_of cur k)
        \<and> st_warnings st' =
            st_warnings st @ map (\<lambda>a. meta_msg (DeprecatedArgMeta sch a)) (filter (IsDeprecatedArg sch) names)"
  from Cons.prems have dr: "distinct rest" and ar: "a \<notin> set rest"
    and pa: "map_of cur a \<noteq> None" and pr: "\<forall>d\<in>set rest. map_of cur d \<noteq> None"
    and s1: "\<forall>d\<in>set rest. renamed_arg sch d \<longrightarrow> \<not> IsDeprecatedArg sch (new_name sch d)"
    and s2: "\<forall>d\<in>set rest. \<forall>d'\<in>set rest.
           renamed_arg sch d \<and> renamed_arg sch d' \<and> d \<noteq> d' \<longrightarrow> new_name sch d \<noteq> new_name sch d'"
    by auto
  from Cons.prems have s1a: "renamed_arg sch a \<longrightarrow> \<not> IsDeprecatedArg sch (new_name sch a)"
    and s2a: "\<forall>d\<in>set rest. renamed_arg sch a \<and> renamed_arg sch d \<longrightarrow> new_name sch d \<noteq> new_name sch a"
    using ar by auto
  show ?case
  proof (cases "IsDeprecatedArg sch a")
    case False
    then have na: "\<not> renamed_arg sch a" "\<not> removed_arg sch a"
      by (simp_all add: renamed_arg_def removed_arg_def)
    have step: "deprecated_args sch opn (a # rest) cur st = deprecated_args sch opn rest cur st"
      using False by simp
    from Cons.IH [OF dr pr s1 s2, of st] have ih: "?P rest cur st (deprecated_args sch opn rest cur st)" .
    show ?thesis
      unfolding step using ih na False
      by (cases "deprecated_args sch opn rest cur st"; cases "fst (deprecated_args sch opn rest cur st)")
         (auto split: if_splits)
  next
    case dep: True
    let ?msg = "meta_msg (DeprecatedArgMeta sch a)"
    have notnew: "\<forall>d\<in>set rest. renamed_arg sch d \<longrightarrow> new_name sch d \<noteq> a"
      using s1 dep by auto
    have w: "st_warnings (warn ?msg st) = st_warnings st @ [?msg]" by (simp add: warn_def)
    show ?thesis
    proof (cases "renamed_arg sch a")
      case ren: True
      show ?thesis
      proof (cases "map_of cur (new_name sch a) = None")
        case False
        then have "deprecated_args sch opn (a # rest) cur st
                   = (Inl (TypeError (conflict_message opn a (new_name sch a))), st)"
          by (simp add: deprecated_args_step_rename [OF ren] dict_has_map_of del: deprecated_args.simps)
        with ren False show ?thesis by simp
      next
        case free: True
        from pa obtain v where v: "map_of cur a = Some v" by auto
        let ?cur' = "AList.delete a (AList.update (new_name sch a) v cur)"
        have step: "deprecated_args sch opn (a # rest) cur st
                    = deprecated_args sch opn rest ?cur' (warn ?msg st)"
          using free v
          by (simp add: deprecated_args_step_rename [OF ren] dict_has_map_of del: deprecated_args.simps)
        have m': "map_of ?cur' k = (if k = a then None else if k = new_name sch a then Some v else map_of cur k)"
          for k by (rule map_of_delete_update)
        have pr': "\<forall>d\<in>set rest. map_of ?cur' d \<noteq> None"
          using pr ar by (auto simp: m')
        from Cons.IH [OF dr pr' s1 s2, of "warn ?msg st"]
        have ih: "?P rest ?cur' (warn ?msg st) (deprecated_args sch opn rest ?cur' (warn ?msg st))" .
        have keep: "\<forall>d\<in>set rest. renamed_arg sch d \<longrightarrow>
                      map_of ?cur' (new_name sch d) = map_of cur (new_name sch d)
                      \<and> map_of ?cur' d = map_of cur d"
        proof (intro ballI impI)
          fix d assume d: "d \<in> set rest" "renamed_arg sch d"
          with notnew s2a ren have "new_name sch d \<noteq> a" "new_name sch d \<noteq> new_name sch a" by auto
          moreover from d ar pr free have "d \<noteq> a" "d \<noteq> new_name sch a" by auto
          ultimately show "map_of ?cur' (new_name sch d) = map_of cur (new_name sch d)
                      \<and> map_of ?cur' d = map_of cur d" by (simp add: m')
        qed
        have nna: "new_name sch a \<noteq> a" using free pa by auto
        have nra: "\<not> (new_name sch a \<in> set rest \<and> (renamed_arg sch (new_name sch a) \<or> removed_arg sch (new_name sch a)))"
          using s1a ren by (auto simp: renamed_arg_def removed_arg_def)
        obtain r st' where r: "deprecated_args sch opn rest ?cur' (warn ?msg st) = (r, st')"
          by (cases "deprecated_args sch opn rest ?cur' (warn ?msg st)")
        show ?thesis
        proof (cases r)
          case (Inl e)
          with ih r obtain d where d: "d \<in> set rest" "renamed_arg sch d"
            "map_of ?cur' (new_name sch d) \<noteq> None" "e = TypeError (conflict_message opn d (new_name sch d))"
            by auto
          with keep have "map_of cur (new_name sch d) \<noteq> None" by simp
          with d have "\<exists>x\<in>set (a # rest). renamed_arg sch x \<and> map_of cur (new_name sch x) \<noteq> None
            \<and> e = TypeError (conflict_message opn x (new_name sch x))" by auto
          then show ?thesis unfolding step r Inl by simp
        next
          case (Inr kw')
          with ih r have
            i1: "\<forall>d\<in>set rest. renamed_arg sch d \<longrightarrow>
                   map_of ?cur' (new_name sch d) = None
                   \<and> map_of kw' (new_name sch d) = map_of ?cur' d \<and> map_of kw' d = None" and
            i2: "\<forall>d\<in>set rest. removed_arg sch d \<longrightarrow> map_of kw' d = None" and
            i3: "\<forall>k. \<not> (k \<in> set rest \<and> (renamed_arg sch k \<or> removed_arg sch k))
                   \<and> (\<forall>d\<in>set rest. renamed_arg sch d \<longrightarrow> new_name sch d \<noteq> k)
                   \<longrightarrow> map_of kw' k = map_of ?cur' k" and
            i4: "st_warnings st' = st_warnings (warn ?msg st)
                   @ map (\<lambda>a. meta_msg (DeprecatedArgMeta sch a)) (filter (IsDeprecatedArg sch) rest)"
            by simp_all
          from i3 nra s2a ren have "map_of kw' (new_name sch a) = map_of ?cur' (new_name sch a)"
            by blast
          with nna v have a1: "map_of kw' (new_name sch a) = map_of cur a" by (simp add: m')
          from i3 ar notnew have "map_of kw' a = map_of ?cur' a" by blast
          then have a2: "map_of kw' a = None" by (simp add: m')
          have c1: "\<forall>x\<in>set (a # rest). renamed_arg sch x \<longrightarrow>
                     map_of cur (new_name sch x) = None
                     \<and> map_of kw' (new_name sch x) = map_of cur x \<and> map_of kw' x = None"
            using i1 keep free a1 a2 by auto
          have c2: "\<forall>x\<in>set (a # rest). removed_arg sch x \<longrightarrow> map_of kw' x = None"
            using i2 a2 by auto
          have c3: "\<forall>k. \<not> (k \<in> set (a # rest) \<and> (renamed_arg sch k \<or> removed_arg sch k))
                   \<and> (\<forall>x\<in>set (a # rest). renamed_arg sch x \<longrightarrow> new_name sch x \<noteq> k)
                   \<longrightarrow> map_of kw' k = map_of cur k"
          proof (intro allI impI)
            fix k
            assume h: "\<not> (k \<in> set (a # rest) \<and> (renamed_arg sch k \<or> removed_arg sch k))
                   \<and> (\<forall>x\<in>set (a # rest). renamed_arg sch x \<longrightarrow> new_name sch x \<noteq> k)"
            with ren have ka: "k \<noteq> a" "k \<noteq> new_name sch a" by auto
            from h have "\<not> (k \<in> set rest \<and> (renamed_arg sch k \<or> removed_arg sch k))
                   \<and> (\<forall>d\<in>set rest. renamed_arg sch d \<longrightarrow> new_name sch d \<noteq> k)" by auto
            with i3 have "map_of kw' k = map_of ?cur' k" by blast
            with ka show "map_of kw' k = map_of cur k" by (simp add: m')
          qed
          have c4: "st_warnings st' = st_warnings st
                   @ map (\<lambda>a. meta_msg (DeprecatedArgMeta sch a)) (filter (IsDeprecatedArg sch) (a # rest))"
            using i4 w dep by simp
          show ?thesis unfolding step r Inr using c1 c2 c3 c4 by simp
        qed
      qed
    next
      case nren: False
      with dep have nn: "new_name sch a = []" by (simp add: renamed_arg_def)
      let ?cur' = "if removed (DeprecatedArgMeta sch a) then AList.delete a cur else cur"
      have step: "deprecated_args sch opn (a # rest) cur st
                  = deprecated_args sch opn rest ?cur' (warn ?msg st)"
        using pa
        by (simp add: deprecated_args_step_other [OF dep nn] dict_has_map_of del: deprecated_args.simps)
      have m': "map_of ?cur' k = (if k = a \<and> removed_arg sch a then None else map_of cur k)" for k
        using dep nn by (simp add: map_of_delete removed_arg_def)
      have pr': "\<forall>d\<in>set rest. map_of ?cur' d \<noteq> None"
        using pr ar by (auto simp: m')
      from Cons.IH [OF dr pr' s1 s2, of "warn ?msg st"]
      have ih: "?P rest ?cur' (warn ?msg st) (deprecated_args sch opn rest ?cur' (warn ?msg st))" .
      have keep: "\<forall>d\<in>set rest. renamed_arg sch d \<longrightarrow>
                    map_of ?cur' (new_name sch d) = map_of cur (new_name sch d)
                    \<and> map_of ?cur' d = map_of cur d"
      proof (intro ballI impI)
        fix d assume d: "d \<in> set rest" "renamed_arg sch d"
        with notnew have "new_name sch d \<noteq> a" by auto
        moreover from d ar have "d \<noteq> a" by auto
        ultimately show "map_of ?cur' (new_name sch d) = map_of cur (new_name sch d)
                    \<and> map_of ?cur' d = map_of cur d" by (simp add: m')
      qed
      obtain r st' where r: "deprecated_args sch opn rest ?cur' (warn ?msg st) = (r, st')"
        by (cases "deprecated_args sch opn rest ?cur' (warn ?msg st)")
      show ?thesis
      proof (cases r)
        case (Inl e)
        with ih r obtain d where d: "d \<in> set rest" "renamed_arg sch d"
          "map_of ?cur' (new_name sch d) \<noteq> None" "e = TypeError (conflict_message opn d (new_name sch d))"
          by auto
        with keep have "map_of cur (new_name sch d) \<noteq> None" by simp
        with d have "\<exists>x\<in>set (a # rest). renamed_arg sch x \<and> map_of cur (new_name sch x) \<noteq> None
          \<and> e = TypeError (conflict_message opn x (new_name sch x))" by auto
        then show ?thesis unfolding step r Inl by simp
      next
        case (Inr kw')
        with ih r have
          i1: "\<forall>d\<in>set rest. renamed_arg sch d \<longrightarrow>
                 map_of ?cur' (new_name sch d) = None
                 \<and> map_of kw' (new_name sch d) = map_of ?cur' d \<and> map_of kw' d = None" and
          i2: "\<forall>d\<in>set rest. removed_arg sch d \<longrightarrow> map_of kw' d = None" and
          i3: "\<forall>k. \<not> (k \<in> set rest \<and> (renamed_arg sch k \<or> removed_arg sch k))
                 \<and> (\<forall>d\<in>set rest. renamed_arg sch d \<longrightarrow> new_name sch d \<noteq> k)
                 \<longrightarrow> map_of kw' k = map_of ?cur' k" and
          i4: "st_warnings st' = st_warnings (warn ?msg st)
                 @ map (\<lambda>a. meta_msg (DeprecatedArgMeta sch a)) (filter (IsDeprecatedArg sch) rest)"
          by simp_all
        from i3 ar notnew have a0: "map_of kw' a = map_of ?cur' a" by blast
        have c1: "\<forall>x\<in>set (a # rest). renamed_arg sch x \<longrightarrow>
                   map_of cur (new_name sch x) = None
                   \<and> map_of kw' (new_name sch x) = map_of cur x \<and> map_of kw' x = None"
          using i1 keep nren by auto
        have c2: "\<forall>x\<in>set (a # rest). removed_arg sch x \<longrightarrow> map_of kw' x = None"
          using i2 a0 by (auto simp: m')
        have c3: "\<forall>k. \<not> (k \<in> set (a # rest) \<and> (renamed_arg sch k \<or> removed_arg sch k))
                 \<and> (\<forall>x\<in>set (a # rest). renamed_arg sch x \<longrightarrow> new_name sch x \<noteq> k)
                 \<longrightarrow> map_of kw' k = map_of cur k"
        proof (intro allI impI)
          fix k
          assume h: "\<not> (k \<in> set (a # rest) \<and> (renamed_arg sch k \<or> removed_arg sch k))
                 \<and> (\<forall>x\<in>set (a # rest). renamed_arg sch x \<longrightarrow> new_name sch x \<noteq> k)"
          then have ka: "\<not> (k = a \<and> removed_arg sch a)" by auto
          show "map_of kw' k = map_of cur k"
          proof (cases "k = a")
            case True
            with a0 ka show ?thesis by (simp add: m')
          next
            case False
            with h have "\<not> (k \<in> set rest \<and> (renamed_arg sch k \<or> removed_arg sch k))
                 \<and> (\<forall>d\<in>set rest. renamed_arg sch d \<longrightarrow> new_name sch d \<noteq> k)" by auto
            with i3 have "map_of kw' k = map_of ?cur' k" by blast
            with False show ?thesis by (simp add: m')
          qed
        qed
        have c4: "st_warnings st' = st_warnings st
                 @ map (\<lambda>a. meta_msg (DeprecatedArgMeta sch a)) (filter (IsDeprecatedArg sch) (a # rest))"
          using i4 w dep by simp
        show ?thesis unfolding step r Inr using c1 c2 c3 c4 by simp
      qed
    qed
  qed
qed


text \<open>
  C9 (amended). Take the construction-style arguments \<open>kw\<close> of a schema in which no new
  name of a supplied deprecated argument is itself deprecated, and no two supplied
  deprecated arguments are renamed to the same name. The loop of \<open>Operator.__init__\<close>
  fails exactly on a renamed argument whose new name was supplied too, with a
  \<open>TypeError\<close> that names both. Otherwise it succeeds: the value of every renamed
  argument is under its new name and no longer under the old one, every removed
  argument is gone, every other argument is as it was, and one warning was emitted
  for every deprecated argument supplied, in the order of the arguments.
\<close>

theorem deprecated_arguments:
  assumes d: "distinct (map fst kw)"
    and s1: "\<forall>d\<in>fst ` set kw. renamed_arg sch d \<longrightarrow> \<not> IsDeprecatedArg sch (new_name sch d)"
    and s2: "\<forall>d\<in>fst ` set kw. \<forall>d'\<in>fst ` set kw.
           renamed_arg sch d \<and> renamed_arg sch d' \<and> d \<noteq> d' \<longrightarrow> new_name sch d \<noteq> new_name sch d'"
  shows "case deprecated_args sch opn (dict_keys kw) kw st of
      (Inl e, st') \<Rightarrow>
        (\<exists>a\<in>fst ` set kw. renamed_arg sch a \<and> new_name sch a \<in> fst ` set kw
            \<and> e = TypeError (conflict_message opn a (new_name sch a)))
    | (Inr kw', st') \<Rightarrow>
        (\<forall>a\<in>fst ` set kw. renamed_arg sch a \<longrightarrow>
            new_name sch a \<notin> fst ` set kw
            \<and> map_of kw' (new_name sch a) = map_of kw a \<and> map_of kw' a = None)
        \<and> (\<forall>a\<in>fst ` set kw. removed_arg sch a \<longrightarrow> map_of kw' a = None)
        \<and> (\<forall>k. \<not> (k \<in> fst ` set kw \<and> (renamed_arg sch k \<or> removed_arg sch k))
               \<and> (\<forall>a\<in>fst ` set kw. renamed_arg sch a \<longrightarrow> new_name sch a \<noteq> k)
               \<longrightarrow> map_of kw' k = map_of kw k)
        \<and> st_warnings st' =
            st_warnings st @ map (\<lambda>a. meta_msg (DeprecatedArgMeta sch a))
                               (filter (IsDeprecatedArg sch) (dict_keys kw))"
proof -
  have k: "set (dict_keys kw) = fst ` set kw" by (simp add: dict_keys_def)
  have dn: "distinct (dict_keys kw)" using d by (simp add: dict_keys_def)
  have pr: "\<forall>a\<in>set (dict_keys kw). map_of kw a \<noteq> None"
    by (simp add: k map_of_eq_None_iff)
  have mem': "map_of kw x = None \<longleftrightarrow> x \<notin> fst ` set kw" for x
    by (simp add: map_of_eq_None_iff)
  from deprecated_args_general [OF dn pr s1 [folded k] s2 [folded k], of opn st]
  show ?thesis unfolding k mem' not_not .
qed

theorem deprecated_arguments_witness:
  "deprecated_args ex_dep_schema ''Decode'' (dict_keys ex_dep_kwargs) ex_dep_kwargs ex_state
     = (Inr [(''size'', PInt 3), (''output_type'', PInt 1)],
        ex_state\<lparr>st_warnings := [''image_type: use output_type'', ''old_flag is ignored'']\<rparr>)
   \<and> fst (deprecated_args ex_dep_schema ''Decode'' [''image_type'', ''output_type'']
            [(''image_type'', PInt 1), (''output_type'', PInt 2)] ex_state)
     = Inl (TypeError (conflict_message ''Decode'' ''image_type'' ''output_type''))
   \<and> fst (Operator_init ex_env ''Decode'' ex_dep_schema ''cpu'' ex_dep_kwargs ex_state)
     = Inr \<lparr>op_type_name = ''Decode'',
            op_spec = [AddArg ''device'' (PStr ''cpu''), AddArg ''preserve'' (PBool False),
                       AddArg ''size'' (PInt 3), AddArg ''output_type'' (PInt 1)],
            op_schema = ex_dep_schema, op_device = ''cpu'', op_call_args = [], op_preserve = False\<rparr>"
proof -
  have d: "distinct (map fst ex_dep_kwargs)" by (simp add: ex_dep_kwargs_def)
  have s1: "\<forall>d\<in>fst ` set ex_dep_kwargs. renamed_arg ex_dep_schema d
              \<longrightarrow> \<not> IsDeprecatedArg ex_dep_schema (new_name ex_dep_schema d)"
    by (simp add: ex_dep_kwargs_def ex_dep_schema_def renamed_arg_def new_name_def)
  have s2: "\<forall>d\<in>fst ` set ex_dep_kwargs. \<forall>d'\<in>fst ` set ex_dep_kwargs.
           renamed_arg ex_dep_schema d \<and> renamed_arg ex_dep_schema d' \<and> d \<noteq> d'
             \<longrightarrow> new_name ex_dep_schema d \<noteq> new_name ex_dep_schema d'"
    by (simp add: ex_dep_kwargs_def ex_dep_schema_def renamed_arg_def new_name_def)
  have e: "deprecated_args ex_dep_schema ''Decode'' (dict_keys ex_dep_kwargs) ex_dep_kwargs ex_state
     = (Inr [(''size'', PInt 3), (''output_type'', PInt 1)],
        ex_state\<lparr>st_warnings := [''image_type: use output_type'', ''old_flag is ignored'']\<rparr>)"
    by (simp add: ex_dep_kwargs_def ex_dep_schema_def ex_schema_def ex_state_def dict_keys_def
          dict_has_def warn_def Let_def)
  from deprecated_arguments [OF d s1 s2, of "''Decode''" ex_state] e
  have "map_of [(''size'', PInt 3), (''output_type'', PInt 1)] ''image_type'' = None"
    by (simp add: ex_dep_kwargs_def)
  with e show ?thesis
    by (simp add: Operator_init_def separate_kwargs_def separate_kwargs_gen_def is_call_arg_def
          ex_env_def ex_scal_def ex_dep_kwargs_def ex_dep_schema_def ex_schema_def ex_state_def
          dict_keys_def dict_has_def warn_def conflict_message_def Let_def)
qed

theorem deprecated_arguments_counterexample:
  "renamed_arg ex_dep_schema ''alias'' \<and> new_name ex_dep_schema ''alias'' = ''output_type''
   \<and> Operator_init ex_env ''Decode'' ex_dep_schema ''cpu''
        [(''image_type'', PInt 1), (''alias'', PInt 2)] ex_state
     = (Inl (TypeError (conflict_message ''Decode'' ''alias'' ''output_type'')),
        ex_state\<lparr>st_warnings := [''image_type: use output_type'']\<rparr>)"
  by (simp add: Operator_init_def separate_kwargs_def separate_kwargs_gen_def is_call_arg_def
        ex_env_def ex_scal_def ex_dep_schema_def ex_schema_def ex_state_def renamed_arg_def
        new_name_def dict_keys_def dict_has_def warn_def conflict_message_def Let_def)

end
